theory Spec2Isabelle
  imports Complex_Main "HOL-Library.Signed_Division"
begin

unbundle bit_operations_syntax

section \<open>The expression compiler of the scripting language\<close>

text \<open>
  This development embeds the expression compiler of
  \<^verbatim>\<open>src/scripting/codegeneration/codegen.cpp\<close>: the resolution pass (\<open>Resolve\<close>: type
  checking, coercion, constant folding, rewriting) and the emission pass (\<open>Emit\<close>: register
  allocation and instruction selection).

  The class hierarchy below \<open>FxExpression\<close> becomes two datatypes: \<open>FxExpression\<close> for
  the value expressions and \<open>FxStatement\<close> for the control-flow statements that hold them.
  A failed resolution (the source deletes the node and returns a null pointer) is the
  result \<open>None\<close>; the messages printed on the way are collected in the compile context.
  Source positions are left out.
\<close>

subsection \<open>Types and register classes\<close>

text \<open>
  The type objects the compiler compares by identity. \<open>NoType\<close> is the null pointer that
  an unresolved node holds as its \<open>ValueType\<close>. A pointer type carries the class it
  points to, given as the chain of class identifiers from the class itself up to the root.
  Strings, sounds, colours, states and class pointers are outside this development.
\<close>

datatype PType =
    NoType | TypeError | TypeVoid
  | TypeBool | TypeSInt32 | TypeUInt32 | TypeName
  | TypeFloat64
  | TypeNullPtr | TypePointer "nat list"

text \<open>Modelled from the spec: the register classes of the virtual machine (declared in the
  virtual machine's header, which is not among the sources).\<close>

definition REGT_INT :: nat where "REGT_INT = 0"
definition REGT_FLOAT :: nat where "REGT_FLOAT = 1"
definition REGT_STRING :: nat where "REGT_STRING = 2"
definition REGT_POINTER :: nat where "REGT_POINTER = 3"
definition REGT_TYPE :: nat where "REGT_TYPE = 3"
definition REGT_KONST :: nat where "REGT_KONST = 4"
definition REGT_NIL :: nat where "REGT_NIL = 255"
definition RET_FINAL :: nat where "RET_FINAL = 128"

lemmas REGT_defs = REGT_INT_def REGT_FLOAT_def REGT_STRING_def REGT_POINTER_def
  REGT_TYPE_def REGT_KONST_def REGT_NIL_def RET_FINAL_def

text \<open>Modelled from the spec: the type facade reports a type's register class.\<close>

fun GetRegType :: "PType \<Rightarrow> nat" where
  "GetRegType TypeBool = REGT_INT"
| "GetRegType TypeSInt32 = REGT_INT"
| "GetRegType TypeUInt32 = REGT_INT"
| "GetRegType TypeName = REGT_INT"
| "GetRegType TypeFloat64 = REGT_FLOAT"
| "GetRegType TypeNullPtr = REGT_POINTER"
| "GetRegType (TypePointer c) = REGT_POINTER"
| "GetRegType NoType = REGT_NIL"
| "GetRegType TypeError = REGT_NIL"
| "GetRegType TypeVoid = REGT_NIL"

text \<open>\<open>ValueType->IsA(RUNTIME_CLASS(PInt))\<close>: the plain integer types only.\<close>

fun IsA_PInt :: "PType \<Rightarrow> bool" where
  "IsA_PInt TypeSInt32 = True"
| "IsA_PInt TypeUInt32 = True"
| "IsA_PInt t = False"

fun IsKindOf_PPointer :: "PType \<Rightarrow> bool" where
  "IsKindOf_PPointer TypeNullPtr = True"
| "IsKindOf_PPointer (TypePointer c) = True"
| "IsKindOf_PPointer t = False"

text \<open>\<open>fromcls->IsDescendantOf(tocls)\<close> on class chains.\<close>

fun IsDescendantOf :: "nat list \<Rightarrow> nat list \<Rightarrow> bool" where
  "IsDescendantOf fromcls [] = False"
| "IsDescendantOf fromcls (t # ts) = (t \<in> set fromcls)"

fun AreCompatiblePointerTypes :: "PType \<Rightarrow> PType \<Rightarrow> bool" where
  "AreCompatiblePointerTypes (TypePointer tocls) (TypePointer fromcls) =
     (if fromcls = tocls then True else IsDescendantOf fromcls tocls)"
| "AreCompatiblePointerTypes dest source =
     (IsKindOf_PPointer dest \<and> IsKindOf_PPointer source \<and> source = dest)"

subsection \<open>Constant values\<close>

text \<open>
  A \<open>double\<close> is modelled by the rational number it denotes. Conversions between integers
  and doubles and all comparisons are exact on that value; the rounding of arithmetic
  results, infinities and NaN are not modelled. An \<open>int\<close> is a mathematical integer that
  \<open>to_int32\<close> brings back into the 32-bit range after each operation that can leave it.
\<close>

type_synonym double = rat

definition to_int32 :: "int \<Rightarrow> int" where
  "to_int32 x = (x + 2147483648) mod 4294967296 - 2147483648"

text \<open>The C++ conversion \<open>int(d)\<close>: the fraction is discarded (rounding toward zero).\<close>

definition truncate_double :: "double \<Rightarrow> int" where
  "truncate_double d = (if d < 0 then - \<lfloor>- d\<rfloor> else \<lfloor>d\<rfloor>)"

definition int_of_double :: "double \<Rightarrow> int" where
  "int_of_double d = to_int32 (truncate_double d)"

text \<open>The C library's \<open>fmod\<close>, and the epsilon of the approximate comparison (declared in
  the virtual machine's header).\<close>

definition fmod :: "double \<Rightarrow> double \<Rightarrow> double" where
  "fmod x y = x - y * of_int (truncate_double (x / y))"

definition VM_EPSILON :: double where
  "VM_EPSILON = 1 / 65536"

definition double_of_int :: "int \<Rightarrow> double" where
  "double_of_int i = of_int i"

text \<open>
  Modelled from the spec: \<open>ExpVal\<close>, the tagged literal of a constant node (a type and a
  union of an integer and a double; only the member that the type's register class
  selects is meaningful; \<open>IntVal\<close> and \<open>FloatVal\<close> are its members \<open>Int\<close> and
  \<open>Float\<close>), with its uniform accessors.
\<close>

datatype ExpVal = ExpVal (Type: PType) (IntVal: int) (FloatVal: double)

definition GetInt :: "ExpVal \<Rightarrow> int" where
  "GetInt v = (let regtype = GetRegType (Type v) in
     if regtype = REGT_INT then IntVal v
     else if regtype = REGT_FLOAT then int_of_double (FloatVal v) else 0)"

definition GetFloat :: "ExpVal \<Rightarrow> double" where
  "GetFloat v = (let regtype = GetRegType (Type v) in
     if regtype = REGT_INT then double_of_int (IntVal v)
     else if regtype = REGT_FLOAT then FloatVal v else 0)"

definition GetBool :: "ExpVal \<Rightarrow> bool" where
  "GetBool v = (let regtype = GetRegType (Type v) in
     if regtype = REGT_INT then IntVal v \<noteq> 0
     else if regtype = REGT_FLOAT then FloatVal v \<noteq> 0 else False)"

subsection \<open>Symbols, functions and variables\<close>

text \<open>
  The names the modelled part of the compiler tests for. \<open>NAME_Other n\<close> stands for any
  other identifier; none of them names a floating-point intrinsic, a line special or one
  of the builtins that are outside this development.
\<close>

datatype FName =
    NAME_Min | NAME_Max | NAME_Clamp
  | NAME_decorate_internal_int | NAME_decorate_internal_bool
  | NAME_decorate_internal_state | NAME_decorate_internal_float
  | NAME_Other nat

datatype Token =
    TK_Plus | TK_Minus | TK_Mul | TK_Div | TK_Mod
  | TK_Eq | TK_Neq | TK_ApproxEq
  | TK_AndAnd | TK_OrOr
  | TK_Incr | TK_Decr
  | TK_Break | TK_Continue

datatype VARF = VARF_Method | VARF_Action | VARF_Static | VARF_ReadOnly

record PPrototype =
  ArgumentTypes :: "PType list"
  ReturnTypes :: "PType list"

record VMFunction =
  FuncAddress :: nat
  Proto :: PPrototype

text \<open>\<open>PFunction\<close>: the fields of \<open>Variants[0]\<close> and the symbol name.\<close>

record PFunction =
  SymbolName :: FName
  Flags :: "VARF set"
  VariantProto :: PPrototype
  Implementation :: VMFunction
  SelfClass :: "nat list option"

record FxLocalVariableDeclaration =
  VarRegNum :: nat
  VarValueType :: PType
  VarFlags :: "VARF set"

record PField =
  Offset :: nat
  FieldType :: PType
  FieldFlags :: "VARF set"

subsection \<open>Expression nodes\<close>

text \<open>
  Every node starts with its \<open>ValueType\<close>. The further fields are those of the class:
  \<open>FxIntCast\<close> has \<open>basex\<close> and \<open>NoWarn\<close>; \<open>FxPreIncrDecr\<close> has \<open>Token\<close>, \<open>Base\<close>,
  \<open>AddressRequested\<close> and \<open>AddressWritable\<close>; the binary nodes have \<open>Operator\<close>, \<open>left\<close>
  and \<open>right\<close>; \<open>FxMinMax\<close> has \<open>Type\<close> and \<open>choices\<close>; \<open>FxLocalVariable\<close> has
  \<open>Variable\<close> and \<open>AddressRequested\<close>; \<open>FxClassMember\<close> has \<open>classx\<close>, \<open>membervar\<close> and
  \<open>AddressRequested\<close>; \<open>FxFunctionCall\<close> has \<open>MethodName\<close> and \<open>ArgList\<close>;
  \<open>FxVMFunctionCall\<close> has \<open>Self\<close>, \<open>Function\<close>, \<open>ArgList\<close> and \<open>EmitTail\<close>.
  An absent argument list is the empty list.
\<close>

datatype FxExpression =
    FxConstant PType ExpVal
  | FxBoolCast PType FxExpression
  | FxIntCast PType FxExpression bool
  | FxFloatCast PType FxExpression
  | FxPreIncrDecr PType Token FxExpression bool bool
  | FxPostIncrDecr PType Token FxExpression
  | FxAddSub PType Token FxExpression FxExpression
  | FxMulDiv PType Token FxExpression FxExpression
  | FxCompareEq PType Token FxExpression FxExpression
  | FxLtGtEq PType FxExpression FxExpression
  | FxBinaryLogical PType Token FxExpression FxExpression
  | FxMinMax PType FName "FxExpression list"
  | FxLocalVariable PType FxLocalVariableDeclaration bool
  | FxSelf PType
  | FxClassMember PType FxExpression PField bool
  | FxFunctionCall PType FName "FxExpression list"
  | FxVMFunctionCall PType "FxExpression option" PFunction "FxExpression list" bool

fun ValueType :: "FxExpression \<Rightarrow> PType" where
  "ValueType (FxConstant vt v) = vt"
| "ValueType (FxBoolCast vt basex) = vt"
| "ValueType (FxIntCast vt basex nowarn) = vt"
| "ValueType (FxFloatCast vt basex) = vt"
| "ValueType (FxPreIncrDecr vt tok base areq awr) = vt"
| "ValueType (FxPostIncrDecr vt tok base) = vt"
| "ValueType (FxAddSub vt oper l r) = vt"
| "ValueType (FxMulDiv vt oper l r) = vt"
| "ValueType (FxCompareEq vt oper l r) = vt"
| "ValueType (FxLtGtEq vt l r) = vt"
| "ValueType (FxBinaryLogical vt oper l r) = vt"
| "ValueType (FxMinMax vt ty choices) = vt"
| "ValueType (FxLocalVariable vt var areq) = vt"
| "ValueType (FxSelf vt) = vt"
| "ValueType (FxClassMember vt classx membervar areq) = vt"
| "ValueType (FxFunctionCall vt name args) = vt"
| "ValueType (FxVMFunctionCall vt self func args tail) = vt"

text \<open>The assignment \<open>x->ValueType = t\<close>.\<close>

fun set_ValueType :: "PType \<Rightarrow> FxExpression \<Rightarrow> FxExpression" where
  "set_ValueType t (FxConstant vt v) = FxConstant t v"
| "set_ValueType t (FxBoolCast vt basex) = FxBoolCast t basex"
| "set_ValueType t (FxIntCast vt basex nowarn) = FxIntCast t basex nowarn"
| "set_ValueType t (FxFloatCast vt basex) = FxFloatCast t basex"
| "set_ValueType t (FxPreIncrDecr vt tok base areq awr) = FxPreIncrDecr t tok base areq awr"
| "set_ValueType t (FxPostIncrDecr vt tok base) = FxPostIncrDecr t tok base"
| "set_ValueType t (FxAddSub vt oper l r) = FxAddSub t oper l r"
| "set_ValueType t (FxMulDiv vt oper l r) = FxMulDiv t oper l r"
| "set_ValueType t (FxCompareEq vt oper l r) = FxCompareEq t oper l r"
| "set_ValueType t (FxLtGtEq vt l r) = FxLtGtEq t l r"
| "set_ValueType t (FxBinaryLogical vt oper l r) = FxBinaryLogical t oper l r"
| "set_ValueType t (FxMinMax vt ty choices) = FxMinMax t ty choices"
| "set_ValueType t (FxLocalVariable vt var areq) = FxLocalVariable t var areq"
| "set_ValueType t (FxSelf vt) = FxSelf t"
| "set_ValueType t (FxClassMember vt classx membervar areq) = FxClassMember t classx membervar areq"
| "set_ValueType t (FxFunctionCall vt name args) = FxFunctionCall t name args"
| "set_ValueType t (FxVMFunctionCall vt self func args tail) = FxVMFunctionCall t self func args tail"

fun isConstant :: "FxExpression \<Rightarrow> bool" where
  "isConstant (FxConstant vt v) = True"
| "isConstant e = False"

text \<open>\<open>static_cast<FxConstant *>(e)->GetValue()\<close>; the source calls it on constants only.\<close>

fun GetValue :: "FxExpression \<Rightarrow> ExpVal" where
  "GetValue (FxConstant vt v) = v"
| "GetValue e = ExpVal NoType 0 0"

text \<open>Modelled from the spec: the constructors of \<open>FxConstant\<close> for a boolean, an
  integer, a double, a null pointer and a ready-made \<open>ExpVal\<close> (class declaration not among
  the sources).\<close>

definition FxConstant_bool :: "bool \<Rightarrow> FxExpression" where
  "FxConstant_bool b = FxConstant TypeBool (ExpVal TypeBool (if b then 1 else 0) 0)"

definition FxConstant_int :: "int \<Rightarrow> FxExpression" where
  "FxConstant_int i = FxConstant TypeSInt32 (ExpVal TypeSInt32 i 0)"

definition FxConstant_float :: "double \<Rightarrow> FxExpression" where
  "FxConstant_float d = FxConstant TypeFloat64 (ExpVal TypeFloat64 0 d)"

definition FxConstant_null :: FxExpression where
  "FxConstant_null = FxConstant TypeNullPtr (ExpVal TypeNullPtr 0 0)"

definition FxConstant_val :: "ExpVal \<Rightarrow> FxExpression" where
  "FxConstant_val cv = FxConstant (Type cv) cv"

text \<open>Modelled from the spec: \<open>IsNumeric\<close> and \<open>IsPointer\<close> of the node's base class.\<close>

definition IsNumeric :: "FxExpression \<Rightarrow> bool" where
  "IsNumeric e = (ValueType e \<noteq> TypeName \<and>
     (GetRegType (ValueType e) = REGT_INT \<or> GetRegType (ValueType e) = REGT_FLOAT))"

definition IsPointer :: "FxExpression \<Rightarrow> bool" where
  "IsPointer e = (GetRegType (ValueType e) = REGT_POINTER)"


subsection \<open>The compile context\<close>

datatype Severity = MSG_WARNING | MSG_OPTERROR | MSG_ERROR

text \<open>Modelled from the spec: the outcome of the member-function lookup in the symbol
  table of the current class (the lookup is an external collaborator).\<close>

datatype FindResult = NotFound | LookupError | Found PFunction

text \<open>
  The compile context that \<open>Resolve\<close> threads by reference: \<open>ReturnProto\<close>, \<open>Function\<close>,
  \<open>Class\<close>, \<open>FromDecorate\<close> and \<open>Loop\<close> are its fields. \<open>Loop\<close> is the address of the
  innermost loop statement. The last three fields are the state outside the context that
  resolution reads or changes through it: the symbol table of the class, the store of the
  loop objects (the list \<open>Jumps\<close> of the loop at each address, every entry the address
  and token of a jump statement), and the messages printed so far.
\<close>

record FCompileContext =
  ReturnProto :: "PPrototype option"
  Function :: "PFunction option"
  Class :: "nat list option"
  FromDecorate :: bool
  Loop :: "nat option"
  FindClassMemberFunction :: "FName \<Rightarrow> FindResult"
  LoopJumps :: "nat \<Rightarrow> (nat \<times> Token) list"
  Messages :: "(Severity \<times> string) list"

definition Message :: "FCompileContext \<Rightarrow> Severity \<Rightarrow> string \<Rightarrow> FCompileContext" where
  "Message ctx sev txt = ctx\<lparr>Messages := Messages ctx @ [(sev, txt)]\<rparr>"

definition CheckReturn :: "FCompileContext \<Rightarrow> PPrototype \<Rightarrow> FCompileContext" where
  "CheckReturn ctx proto =
     (case ReturnProto ctx of
        None \<Rightarrow> ctx\<lparr>ReturnProto := Some proto\<rparr>
      | Some rp \<Rightarrow>
          (let swap = length (ReturnTypes rp) < length (ReturnTypes proto);
               proto1 = (if swap then rp else proto);
               rp1 = (if swap then proto else rp);
               ctx1 = ctx\<lparr>ReturnProto := Some rp1\<rparr>;
               fail = (if length (ReturnTypes proto1) = 0 then length (ReturnTypes rp1) \<noteq> 0
                       else list_ex (\<lambda>(a, b). a \<noteq> b) (zip (ReturnTypes rp1) (ReturnTypes proto1)))
           in if fail then Message ctx1 MSG_ERROR ''All return expressions must deduce to the same type''
              else ctx1))"

subsection \<open>Resolution of the casts\<close>

text \<open>
  Each \<open>X_Resolved\<close> below is the body of \<open>X::Resolve\<close> after the children have been
  resolved. Where the source builds a cast around an operand that is resolved already and
  resolves the cast, the operand's own \<open>Resolve\<close> returns at once (\<open>CHECKRESOLVED\<close>), and
  the model calls \<open>X_Resolved\<close> on the operand.
\<close>

type_synonym resolved = "FxExpression option \<times> FCompileContext"

definition FxBoolCast_Resolved :: "FCompileContext \<Rightarrow> FxExpression \<Rightarrow> resolved" where
  "FxBoolCast_Resolved ctx basex =
     (if ValueType basex = TypeBool then (Some basex, ctx)
      else if GetRegType (ValueType basex) = REGT_INT \<or> GetRegType (ValueType basex) = REGT_FLOAT
              \<or> GetRegType (ValueType basex) = REGT_POINTER then
        (if isConstant basex then (Some (FxConstant_bool (GetBool (GetValue basex))), ctx)
         else (Some (FxBoolCast TypeBool basex), ctx))
      else (None, Message ctx MSG_ERROR ''Numeric type expected''))"

definition FxIntCast_Resolved :: "FCompileContext \<Rightarrow> FxExpression \<Rightarrow> bool \<Rightarrow> resolved" where
  "FxIntCast_Resolved ctx basex NoWarn =
     (if GetRegType (ValueType basex) = REGT_INT then
        (if ValueType basex \<noteq> TypeName then (Some basex, ctx)
         else (Some (FxConstant_int 0),
               Message ctx MSG_OPTERROR
                 (if \<not> isConstant basex then ''Numeric type expected, got a name''
                  else ''Numeric type expected, got %s'')))
      else if GetRegType (ValueType basex) = REGT_FLOAT then
        (if isConstant basex then
           (let constval = GetValue basex;
                x = FxConstant_int (GetInt constval)
            in (Some x,
                if \<not> NoWarn \<and> double_of_int (GetInt constval) \<noteq> GetFloat constval
                then Message ctx MSG_WARNING ''Truncation of floating point constant %f''
                else ctx))
         else (Some (FxIntCast TypeSInt32 basex NoWarn),
               if \<not> NoWarn then Message ctx MSG_WARNING ''Truncation of floating point value''
               else ctx))
      else (None, Message ctx MSG_ERROR ''Numeric type expected''))"

definition FxFloatCast_Resolved :: "FCompileContext \<Rightarrow> FxExpression \<Rightarrow> resolved" where
  "FxFloatCast_Resolved ctx basex =
     (if GetRegType (ValueType basex) = REGT_FLOAT then (Some basex, ctx)
      else if GetRegType (ValueType basex) = REGT_INT then
        (if ValueType basex \<noteq> TypeName then
           (if isConstant basex then (Some (FxConstant_float (GetFloat (GetValue basex))), ctx)
            else (Some (FxFloatCast TypeFloat64 basex), ctx))
         else (Some (FxConstant_float 0),
               Message ctx MSG_OPTERROR
                 (if \<not> isConstant basex then ''Numeric type expected, got a name''
                  else ''Numeric type expected, got %s'')))
      else (None, Message ctx MSG_ERROR ''Numeric type expected''))"

text \<open>\<open>FxNameCast::Resolve\<close>; its branch for a string operand needs a type that is outside
  this development.\<close>

definition FxNameCast_Resolved :: "FCompileContext \<Rightarrow> FxExpression \<Rightarrow> resolved" where
  "FxNameCast_Resolved ctx basex =
     (if ValueType basex = TypeName then (Some basex, ctx)
      else (None, Message ctx MSG_ERROR ''Cannot convert to name''))"

text \<open>\<open>FxTypeCast::Resolve\<close>, the dispatcher, for the destination type \<open>vt\<close>.\<close>

definition FxTypeCast_Resolved ::
  "FCompileContext \<Rightarrow> PType \<Rightarrow> bool \<Rightarrow> FxExpression \<Rightarrow> resolved" where
  "FxTypeCast_Resolved ctx vt NoWarn basex =
     (let errormsg = (None, Message ctx MSG_ERROR ''Cannot convert %s to %s'');
          basereturn = (Some (set_ValueType vt basex), ctx)
      in if vt = TypeError \<or> ValueType basex = TypeError then (None, ctx)
         else if vt = TypeVoid then errormsg
         else if ValueType basex = TypeVoid then errormsg
         else if ValueType basex = vt then basereturn
         else if ValueType basex = TypeNullPtr \<and> IsKindOf_PPointer vt then basereturn
         else if GetRegType vt = REGT_FLOAT then FxFloatCast_Resolved ctx basex
         else if IsA_PInt vt then FxIntCast_Resolved ctx basex NoWarn
         else if vt = TypeBool then FxBoolCast_Resolved ctx basex
         else if vt = TypeName then FxNameCast_Resolved ctx basex
         else if AreCompatiblePointerTypes vt (ValueType basex) then basereturn
         else errormsg)"

subsection \<open>Resolution of increment and decrement\<close>

text \<open>\<open>RequestAddress\<close> returns its result, what it stores through \<open>writable\<close>, and the
  node with \<open>AddressRequested\<close> set.\<close>

fun RequestAddress :: "FxExpression \<Rightarrow> bool \<times> bool \<times> FxExpression" where
  "RequestAddress (FxPreIncrDecr vt tok base areq awr) =
     (True, awr, FxPreIncrDecr vt tok base True awr)"
| "RequestAddress (FxLocalVariable vt var areq) =
     (True, VARF_ReadOnly \<notin> VarFlags var, FxLocalVariable vt var True)"
| "RequestAddress (FxClassMember vt classx membervar areq) =
     (True, VARF_ReadOnly \<notin> FieldFlags membervar, FxClassMember vt classx membervar True)"
| "RequestAddress e = (False, False, e)"

definition FxPreIncrDecr_Resolved ::
  "FCompileContext \<Rightarrow> Token \<Rightarrow> FxExpression \<Rightarrow> bool \<Rightarrow> resolved" where
  "FxPreIncrDecr_Resolved ctx tok base areq =
     (if \<not> IsNumeric base then (None, Message ctx MSG_ERROR ''Numeric type expected'')
      else if ValueType base = TypeBool then
        (None, Message ctx MSG_ERROR ''%s is not allowed on type bool'')
      else (case RequestAddress base of
              (ok, AddressWritable, base1) \<Rightarrow>
                if \<not> ok \<or> \<not> AddressWritable then
                  (None, Message ctx MSG_ERROR ''Expression must be a modifiable value'')
                else (Some (FxPreIncrDecr (ValueType base) tok base1 areq AddressWritable), ctx)))"

definition FxPostIncrDecr_Resolved ::
  "FCompileContext \<Rightarrow> Token \<Rightarrow> FxExpression \<Rightarrow> resolved" where
  "FxPostIncrDecr_Resolved ctx tok base =
     (if \<not> IsNumeric base then (None, Message ctx MSG_ERROR ''Numeric type expected'')
      else if ValueType base = TypeBool then
        (None, Message ctx MSG_ERROR ''%s is not allowed on type bool'')
      else (case RequestAddress base of
              (ok, AddressWritable, base1) \<Rightarrow>
                if \<not> ok \<or> \<not> AddressWritable then
                  (None, Message ctx MSG_ERROR ''Expression must be a modifiable value'')
                else (Some (FxPostIncrDecr (ValueType base) tok base1), ctx)))"


subsection \<open>Resolution of the binary operators\<close>

text \<open>\<open>FxBinary::ResolveLR\<close> after both operands are resolved: the new \<open>ValueType\<close> of the
  node, whose old one is \<open>vt\<close>.\<close>

definition ResolveLR :: "PType \<Rightarrow> FxExpression \<Rightarrow> FxExpression \<Rightarrow> PType" where
  "ResolveLR vt left right =
     (if ValueType left = TypeBool \<and> ValueType right = TypeBool then TypeBool
      else if ValueType left = TypeName \<and> ValueType right = TypeName then TypeName
      else if IsNumeric left \<and> IsNumeric right then
        (if GetRegType (ValueType left) = REGT_INT \<and> GetRegType (ValueType right) = REGT_INT
         then TypeSInt32 else TypeFloat64)
      else if GetRegType (ValueType left) = REGT_POINTER then
        (if ValueType left = ValueType right \<or> ValueType right = TypeNullPtr
            \<or> ValueType left = TypeNullPtr
            \<or> AreCompatiblePointerTypes (ValueType left) (ValueType right)
         then TypeBool else vt)
      else TypeVoid)"

text \<open>\<open>FxBinary::Promote\<close>: the new \<open>left\<close> and \<open>right\<close>.\<close>

definition Promote ::
  "FCompileContext \<Rightarrow> FxExpression \<Rightarrow> FxExpression
     \<Rightarrow> FxExpression option \<times> FxExpression option \<times> FCompileContext" where
  "Promote ctx left right =
     (if GetRegType (ValueType left) = REGT_FLOAT \<and> GetRegType (ValueType right) = REGT_INT then
        (case FxFloatCast_Resolved ctx right of (r, ctx1) \<Rightarrow> (Some left, r, ctx1))
      else if GetRegType (ValueType left) = REGT_INT \<and> GetRegType (ValueType right) = REGT_FLOAT then
        (case FxFloatCast_Resolved ctx left of (l, ctx1) \<Rightarrow> (l, Some right, ctx1))
      else (Some left, Some right, ctx))"

definition IsNumericType :: "PType \<Rightarrow> bool" where
  "IsNumericType t = (t \<noteq> TypeName \<and> (GetRegType t = REGT_INT \<or> GetRegType t = REGT_FLOAT))"

definition FxAddSub_Resolved ::
  "FCompileContext \<Rightarrow> PType \<Rightarrow> Token \<Rightarrow> FxExpression \<Rightarrow> FxExpression \<Rightarrow> resolved" where
  "FxAddSub_Resolved ctx vt0 Operator left right =
     (let vt = ResolveLR vt0 left right
      in if \<not> IsNumericType vt then (None, Message ctx MSG_ERROR ''Numeric type expected'')
         else if isConstant left \<and> isConstant right then
           (if GetRegType vt = REGT_FLOAT then
              (let v1 = GetFloat (GetValue left); v2 = GetFloat (GetValue right);
                   v = (if Operator = TK_Plus then v1 + v2
                        else if Operator = TK_Minus then v1 - v2 else 0)
               in (Some (FxConstant_float v), ctx))
            else
              (let v1 = GetInt (GetValue left); v2 = GetInt (GetValue right);
                   v = (if Operator = TK_Plus then to_int32 (v1 + v2)
                        else if Operator = TK_Minus then to_int32 (v1 - v2) else 0)
               in (Some (FxConstant_int v), ctx)))
         else (case Promote ctx left right of
                 (Some l, Some r, ctx1) \<Rightarrow> (Some (FxAddSub vt Operator l r), ctx1)
               | (l, r, ctx1) \<Rightarrow> (None, ctx1)))"

definition FxMulDiv_Resolved ::
  "FCompileContext \<Rightarrow> PType \<Rightarrow> Token \<Rightarrow> FxExpression \<Rightarrow> FxExpression \<Rightarrow> resolved" where
  "FxMulDiv_Resolved ctx vt0 Operator left right =
     (let vt = ResolveLR vt0 left right
      in if \<not> IsNumericType vt then (None, Message ctx MSG_ERROR ''Numeric type expected'')
         else if isConstant left \<and> isConstant right then
           (if GetRegType vt = REGT_FLOAT then
              (let v1 = GetFloat (GetValue left); v2 = GetFloat (GetValue right)
               in if Operator \<noteq> TK_Mul \<and> v2 = 0 then
                    (None, Message ctx MSG_ERROR ''Division by 0'')
                  else
                    (let v = (if Operator = TK_Mul then v1 * v2
                              else if Operator = TK_Div then v1 / v2
                              else if Operator = TK_Mod then fmod v1 v2 else 0)
                     in (Some (FxConstant_float v), ctx)))
            else
              (let v1 = GetInt (GetValue left); v2 = GetInt (GetValue right)
               in if Operator \<noteq> TK_Mul \<and> v2 = 0 then
                    (None, Message ctx MSG_ERROR ''Division by 0'')
                  else
                    (let v = (if Operator = TK_Mul then to_int32 (v1 * v2)
                              else if Operator = TK_Div then to_int32 (v1 sdiv v2)
                              else if Operator = TK_Mod then v1 smod v2 else 0)
                     in (Some (FxConstant_int v), ctx))))
         else (case Promote ctx left right of
                 (Some l, Some r, ctx1) \<Rightarrow> (Some (FxMulDiv vt Operator l r), ctx1)
               | (l, r, ctx1) \<Rightarrow> (None, ctx1)))"

definition FxCompareEq_Resolved ::
  "FCompileContext \<Rightarrow> PType \<Rightarrow> Token \<Rightarrow> FxExpression \<Rightarrow> FxExpression \<Rightarrow> resolved" where
  "FxCompareEq_Resolved ctx vt0 Operator0 left right =
     (let vt = ResolveLR vt0 left right
      in if \<not> IsNumericType vt \<and> GetRegType vt \<noteq> REGT_POINTER \<and> vt \<noteq> TypeName then
           (None, Message ctx MSG_ERROR ''Numeric type expected'')
         else
           (let Operator = (if Operator0 = TK_ApproxEq \<and> GetRegType vt \<noteq> REGT_FLOAT
                            then TK_Eq else Operator0)
            in if isConstant left \<and> isConstant right then
                 (let v = (if GetRegType vt = REGT_FLOAT then
                             (let v1 = GetFloat (GetValue left); v2 = GetFloat (GetValue right)
                              in if Operator = TK_Eq then v1 = v2
                                 else if Operator = TK_Neq then v1 \<noteq> v2
                                 else \<bar>v1 - v2\<bar> < VM_EPSILON)
                           else
                             (let v1 = GetInt (GetValue left); v2 = GetInt (GetValue right)
                              in if Operator = TK_Eq then v1 = v2 else v1 \<noteq> v2))
                  in (Some (FxConstant_int (if v then 1 else 0)), ctx))
               else (case Promote ctx left right of
                       (Some l, Some r, ctx1) \<Rightarrow> (Some (FxCompareEq TypeBool Operator l r), ctx1)
                     | (l, r, ctx1) \<Rightarrow> (None, ctx1))))"

text \<open>
  \<open>FxLtGtEq::Resolve\<close>. In the second cast the source writes
  \<^verbatim>\<open>right = new FxFloatCast(left); SAFE_RESOLVE(left, ctx);\<close>: the new node wraps \<open>left\<close>
  and is not resolved, and resolving \<open>left\<close> again changes nothing.
\<close>

definition FxLtGtEq_Resolved ::
  "FCompileContext \<Rightarrow> PType \<Rightarrow> FxExpression \<Rightarrow> FxExpression \<Rightarrow> resolved" where
  "FxLtGtEq_Resolved ctx vt0 left right =
     (let vt = ResolveLR vt0 left right
      in if \<not> IsNumeric left \<or> \<not> IsNumeric right then
           (None, Message ctx MSG_ERROR ''<>= expects two numeric operands'')
         else if GetRegType (ValueType left) \<noteq> GetRegType (ValueType right) then
           (case (if GetRegType (ValueType left) = REGT_INT then FxFloatCast_Resolved ctx left
                  else (Some left, ctx)) of
              (None, ctx1) \<Rightarrow> (None, ctx1)
            | (Some left1, ctx1) \<Rightarrow>
                (let right1 = (if GetRegType (ValueType right) = REGT_INT
                               then FxFloatCast TypeFloat64 left1 else right)
                 in (Some (FxLtGtEq vt left1 right1), ctx1)))
         else if isConstant left \<and> isConstant right then
           (let v1 = GetFloat (GetValue left); v2 = GetFloat (GetValue right)
            in (Some (FxConstant_int (if v1 < v2 then - 1 else if v1 > v2 then 1 else 0)), ctx))
         else (Some (FxLtGtEq vt left right), ctx))"

text \<open>\<open>FxBinaryLogical::Resolve\<close> after \<open>ABORT(right && left)\<close>.\<close>

definition b_of :: "FxExpression \<Rightarrow> int" where
  "b_of e = (if isConstant e then (if GetBool (GetValue e) then 1 else 0) else - 1)"

definition FxBinaryLogical_Resolved ::
  "FCompileContext \<Rightarrow> Token \<Rightarrow> FxExpression \<Rightarrow> FxExpression \<Rightarrow> resolved" where
  "FxBinaryLogical_Resolved ctx Operator left right =
     (case (if ValueType left \<noteq> TypeBool then FxBoolCast_Resolved ctx left
            else (Some left, ctx)) of
        (None, ctx1) \<Rightarrow> (None, ctx1)
      | (Some left1, ctx1) \<Rightarrow>
     (case (if ValueType right \<noteq> TypeBool then FxBoolCast_Resolved ctx1 right
            else (Some right, ctx1)) of
        (None, ctx2) \<Rightarrow> (None, ctx2)
      | (Some right1, ctx2) \<Rightarrow>
          (let b_left = b_of left1; b_right = b_of right1
           in if Operator = TK_AndAnd then
                (if b_left = 0 \<or> b_right = 0 then (Some (FxConstant_bool True), ctx2)
                 else if b_left = 1 \<and> b_right = 1 then (Some (FxConstant_bool False), ctx2)
                 else if b_left = 1 then (Some right1, ctx2)
                 else if b_right = 1 then (Some left1, ctx2)
                 else (Some (FxBinaryLogical TypeBool Operator left1 right1), ctx2))
              else if Operator = TK_OrOr then
                (if b_left = 1 \<or> b_right = 1 then (Some (FxConstant_bool True), ctx2)
                 else if b_left = 0 \<and> b_right = 0 then (Some (FxConstant_bool False), ctx2)
                 else if b_left = 0 then (Some right1, ctx2)
                 else if b_right = 0 then (Some left1, ctx2)
                 else (Some (FxBinaryLogical TypeBool Operator left1 right1), ctx2))
              else (Some (FxBinaryLogical TypeBool Operator left1 right1), ctx2))))"

subsection \<open>Resolution of min, max and clamp\<close>

text \<open>The loop of \<open>FxMinMax::Resolve\<close> that casts the integer choices to float.\<close>

fun MinMax_promote ::
  "FCompileContext \<Rightarrow> FxExpression list \<Rightarrow> FxExpression list option \<times> FCompileContext" where
  "MinMax_promote ctx [] = (Some [], ctx)"
| "MinMax_promote ctx (c # cs) =
     (case (if GetRegType (ValueType c) = REGT_INT then FxFloatCast_Resolved ctx c
            else (Some c, ctx)) of
        (None, ctx1) \<Rightarrow> (None, ctx1)
      | (Some c1, ctx1) \<Rightarrow>
          (case MinMax_promote ctx1 cs of
             (None, ctx2) \<Rightarrow> (None, ctx2)
           | (Some cs1, ctx2) \<Rightarrow> (Some (c1 # cs1), ctx2)))"

text \<open>The inner loop over the choices after the first constant: the constants are
  compared with \<open>best\<close> and removed.\<close>

fun MinMax_best :: "FName \<Rightarrow> ExpVal \<Rightarrow> FxExpression list \<Rightarrow> ExpVal \<times> FxExpression list" where
  "MinMax_best ty best [] = (best, [])"
| "MinMax_best ty best (c # cs) =
     (if \<not> isConstant c then
        (case MinMax_best ty best cs of (b, rest) \<Rightarrow> (b, c # rest))
      else
        (let v = GetValue c;
             best1 =
               (if ty = NAME_Min then
                  (if GetRegType (Type v) = REGT_FLOAT then
                     (if FloatVal v < FloatVal best
                      then ExpVal (Type best) (IntVal best) (FloatVal v) else best)
                   else
                     (if IntVal v < IntVal best
                      then ExpVal (Type best) (IntVal v) (FloatVal best) else best))
                else
                  (if GetRegType (Type v) = REGT_FLOAT then
                     (if FloatVal v > FloatVal best
                      then ExpVal (Type best) (IntVal best) (FloatVal v) else best)
                   else
                     (if IntVal v > IntVal best
                      then ExpVal (Type best) (IntVal v) (FloatVal best) else best)))
         in MinMax_best ty best1 cs))"

definition MinMax_fold :: "FName \<Rightarrow> PType \<Rightarrow> FxExpression list \<Rightarrow> FxExpression" where
  "MinMax_fold ty vt choices =
     (let front = takeWhile (\<lambda>c. \<not> isConstant c) choices
      in case dropWhile (\<lambda>c. \<not> isConstant c) choices of
           [] \<Rightarrow> FxMinMax vt ty choices
         | c # cs \<Rightarrow>
             (case MinMax_best ty (GetValue c) cs of
                (best, rest) \<Rightarrow>
                  (let x = FxConstant_val best
                   in if front = [] \<and> rest = [] then x
                      else FxMinMax vt ty (front @ x # rest))))"

text \<open>\<open>FxMinMax::Resolve\<close> after its first loop, which resolved and checked the choices.\<close>

definition FxMinMax_Resolved ::
  "FCompileContext \<Rightarrow> FName \<Rightarrow> FxExpression list \<Rightarrow> resolved" where
  "FxMinMax_Resolved ctx ty choices =
     (let floatcount = length (filter (\<lambda>c. GetRegType (ValueType c) = REGT_FLOAT) choices);
          intcount = length (filter (\<lambda>c. GetRegType (ValueType c) \<noteq> REGT_FLOAT) choices)
      in if floatcount \<noteq> 0 then
           (case (if intcount \<noteq> 0 then MinMax_promote ctx choices else (Some choices, ctx)) of
              (None, ctx1) \<Rightarrow> (None, ctx1)
            | (Some cs, ctx1) \<Rightarrow> (Some (MinMax_fold ty TypeFloat64 cs), ctx1))
         else (Some (MinMax_fold ty TypeSInt32 choices), ctx))"

definition CheckArgSize ::
  "FCompileContext \<Rightarrow> FName \<Rightarrow> FxExpression list \<Rightarrow> int \<Rightarrow> int \<Rightarrow> bool \<times> FCompileContext" where
  "CheckArgSize ctx fname args min_args max_args =
     (let s = int (length args)
      in if s < min_args then
           (False, Message ctx MSG_ERROR ''Insufficient arguments in call to %s, expected %d, got %d'')
         else if s > max_args \<and> max_args \<ge> 0 then
           (False, Message ctx MSG_ERROR ''Too many arguments in call to %s, expected %d, got %d'')
         else (True, ctx))"

text \<open>
  The \<open>switch (MethodName)\<close> of \<open>FxFunctionCall::Resolve\<close>: the node \<open>func\<close> that replaces
  the call to a builtin. For \<open>clamp\<close> the source fills the array \<open>pass\<close> with a \<open>max\<close> node
  over the first two arguments and the third argument, and then builds the \<open>min\<close> node
  from \<open>*ArgList\<close>.
\<close>

definition FxFunctionCall_builtin ::
  "FCompileContext \<Rightarrow> FName \<Rightarrow> FxExpression list \<Rightarrow> resolved" where
  "FxFunctionCall_builtin ctx MethodName ArgList =
     (if MethodName = NAME_Min \<or> MethodName = NAME_Max then
        (case CheckArgSize ctx MethodName ArgList 2 (- 1) of
           (True, ctx1) \<Rightarrow> (Some (FxMinMax NoType MethodName ArgList), ctx1)
         | (False, ctx1) \<Rightarrow> (None, ctx1))
      else if MethodName = NAME_Clamp then
        (case CheckArgSize ctx MethodName ArgList 3 3 of
           (True, ctx1) \<Rightarrow>
             (let pass = [ArgList ! 0, ArgList ! 1];
                  pass = pass[0 := FxMinMax NoType NAME_Max pass];
                  pass = pass[1 := ArgList ! 2]
              in (Some (FxMinMax NoType NAME_Min ArgList), ctx1))
         | (False, ctx1) \<Rightarrow> (None, ctx1))
      else (None, ctx))"

subsection \<open>Resolution of variables and members\<close>

definition FxSelf_Resolved :: "FCompileContext \<Rightarrow> resolved" where
  "FxSelf_Resolved ctx =
     (case Function ctx of
        None \<Rightarrow> (None, Message ctx MSG_ERROR ''self used outside of a member function'')
      | Some f \<Rightarrow>
          (case SelfClass f of
             None \<Rightarrow> (None, Message ctx MSG_ERROR ''self used outside of a member function'')
           | Some cls \<Rightarrow> (Some (FxSelf (TypePointer cls)), ctx)))"

definition FxClassMember_Resolved ::
  "FCompileContext \<Rightarrow> FxExpression \<Rightarrow> PField \<Rightarrow> bool \<Rightarrow> resolved" where
  "FxClassMember_Resolved ctx classx membervar areq =
     (if \<not> IsKindOf_PPointer (ValueType classx) then
        (None, Message ctx MSG_ERROR ''Member variable requires a class or object'')
      else (Some (FxClassMember (FieldType membervar) classx membervar areq), ctx))"


subsection \<open>The resolution pass over expressions\<close>

text \<open>The measure for the recursion of \<open>Resolve\<close>: a call node weighs more than the node
  that replaces it.\<close>

fun weight :: "FxExpression \<Rightarrow> nat" and lweight :: "FxExpression list \<Rightarrow> nat" where
  "weight (FxConstant vt v) = 1"
| "weight (FxBoolCast vt basex) = Suc (weight basex)"
| "weight (FxIntCast vt basex nowarn) = Suc (weight basex)"
| "weight (FxFloatCast vt basex) = Suc (weight basex)"
| "weight (FxPreIncrDecr vt tok base areq awr) = Suc (weight base)"
| "weight (FxPostIncrDecr vt tok base) = Suc (weight base)"
| "weight (FxAddSub vt oper l r) = Suc (weight l + weight r)"
| "weight (FxMulDiv vt oper l r) = Suc (weight l + weight r)"
| "weight (FxCompareEq vt oper l r) = Suc (weight l + weight r)"
| "weight (FxLtGtEq vt l r) = Suc (weight l + weight r)"
| "weight (FxBinaryLogical vt oper l r) = Suc (weight l + weight r)"
| "weight (FxMinMax vt ty choices) = Suc (lweight choices)"
| "weight (FxLocalVariable vt var areq) = 1"
| "weight (FxSelf vt) = 1"
| "weight (FxClassMember vt classx membervar areq) = Suc (weight classx)"
| "weight (FxFunctionCall vt name args) = 3 + lweight args"
| "weight (FxVMFunctionCall vt self func args tail) =
     Suc ((case self of None \<Rightarrow> 0 | Some s \<Rightarrow> weight s) + lweight args)"
| "lweight [] = 1"
| "lweight (x # xs) = weight x + lweight xs"

lemma weight_pos: "0 < weight e"
  by (cases e) simp_all

lemma lweight_pos: "0 < lweight xs"
  by (cases xs) (simp_all add: weight_pos)

lemma FxFunctionCall_builtin_weight:
  "FxFunctionCall_builtin ctx n args = (Some func, ctx1) \<Longrightarrow> weight func < 3 + lweight args"
  by (auto simp: FxFunctionCall_builtin_def Let_def split: if_splits prod.splits bool.splits)

text \<open>
  \<open>Resolve\<close> returns the node that takes the receiver's place, or \<open>None\<close>, and the
  context as the call leaves it. \<open>ResolveChoices\<close> is the first loop of
  \<open>FxMinMax::Resolve\<close>; \<open>ResolveArgs\<close> is the loop of \<open>FxVMFunctionCall::Resolve\<close> that
  wraps every argument in a cast to the declared parameter type (\<open>types\<close> are the
  declared types from the current argument on; the source reads past the array when
  there are more arguments than parameters, and the model fails the cast there).
\<close>

function Resolve :: "FCompileContext \<Rightarrow> FxExpression \<Rightarrow> resolved"
  and ResolveChoices ::
    "FCompileContext \<Rightarrow> FxExpression list \<Rightarrow> FxExpression list option \<times> FCompileContext"
  and ResolveArgs ::
    "FCompileContext \<Rightarrow> FxExpression list \<Rightarrow> PType list
       \<Rightarrow> FxExpression option list \<times> FCompileContext"
where
  "Resolve ctx (FxConstant vt v) = (Some (FxConstant vt v), ctx)"
| "Resolve ctx (FxBoolCast vt basex) =
     (case Resolve ctx basex of
        (None, ctx1) \<Rightarrow> (None, ctx1)
      | (Some b, ctx1) \<Rightarrow> FxBoolCast_Resolved ctx1 b)"
| "Resolve ctx (FxIntCast vt basex NoWarn) =
     (case Resolve ctx basex of
        (None, ctx1) \<Rightarrow> (None, ctx1)
      | (Some b, ctx1) \<Rightarrow> FxIntCast_Resolved ctx1 b NoWarn)"
| "Resolve ctx (FxFloatCast vt basex) =
     (case Resolve ctx basex of
        (None, ctx1) \<Rightarrow> (None, ctx1)
      | (Some b, ctx1) \<Rightarrow> FxFloatCast_Resolved ctx1 b)"
| "Resolve ctx (FxPreIncrDecr vt tok base areq awr) =
     (case Resolve ctx base of
        (None, ctx1) \<Rightarrow> (None, ctx1)
      | (Some b, ctx1) \<Rightarrow> FxPreIncrDecr_Resolved ctx1 tok b areq)"
| "Resolve ctx (FxPostIncrDecr vt tok base) =
     (case Resolve ctx base of
        (None, ctx1) \<Rightarrow> (None, ctx1)
      | (Some b, ctx1) \<Rightarrow> FxPostIncrDecr_Resolved ctx1 tok b)"
| "Resolve ctx (FxAddSub vt oper left right) =
     (case Resolve ctx left of (l, ctx1) \<Rightarrow>
     (case Resolve ctx1 right of (r, ctx2) \<Rightarrow>
     (case l of None \<Rightarrow> (None, ctx2) | Some l1 \<Rightarrow>
     (case r of None \<Rightarrow> (None, ctx2) | Some r1 \<Rightarrow>
        FxAddSub_Resolved ctx2 vt oper l1 r1))))"
| "Resolve ctx (FxMulDiv vt oper left right) =
     (case Resolve ctx left of (l, ctx1) \<Rightarrow>
     (case Resolve ctx1 right of (r, ctx2) \<Rightarrow>
     (case l of None \<Rightarrow> (None, ctx2) | Some l1 \<Rightarrow>
     (case r of None \<Rightarrow> (None, ctx2) | Some r1 \<Rightarrow>
        FxMulDiv_Resolved ctx2 vt oper l1 r1))))"
| "Resolve ctx (FxCompareEq vt oper left right) =
     (case Resolve ctx left of (l, ctx1) \<Rightarrow>
     (case Resolve ctx1 right of (r, ctx2) \<Rightarrow>
     (case l of None \<Rightarrow> (None, ctx2) | Some l1 \<Rightarrow>
     (case r of None \<Rightarrow> (None, ctx2) | Some r1 \<Rightarrow>
        FxCompareEq_Resolved ctx2 vt oper l1 r1))))"
| "Resolve ctx (FxLtGtEq vt left right) =
     (case Resolve ctx left of (l, ctx1) \<Rightarrow>
     (case Resolve ctx1 right of (r, ctx2) \<Rightarrow>
     (case l of None \<Rightarrow> (None, ctx2) | Some l1 \<Rightarrow>
     (case r of None \<Rightarrow> (None, ctx2) | Some r1 \<Rightarrow>
        FxLtGtEq_Resolved ctx2 vt l1 r1))))"
| "Resolve ctx (FxBinaryLogical vt oper left right) =
     (case Resolve ctx left of (l, ctx1) \<Rightarrow>
     (case Resolve ctx1 right of (r, ctx2) \<Rightarrow>
     (case l of None \<Rightarrow> (None, ctx2) | Some l1 \<Rightarrow>
     (case r of None \<Rightarrow> (None, ctx2) | Some r1 \<Rightarrow>
        FxBinaryLogical_Resolved ctx2 oper l1 r1))))"
| "Resolve ctx (FxMinMax vt ty choices) =
     (case ResolveChoices ctx choices of
        (None, ctx1) \<Rightarrow> (None, ctx1)
      | (Some cs, ctx1) \<Rightarrow> FxMinMax_Resolved ctx1 ty cs)"
| "Resolve ctx (FxLocalVariable vt var areq) = (Some (FxLocalVariable vt var areq), ctx)"
| "Resolve ctx (FxSelf vt) = FxSelf_Resolved ctx"
| "Resolve ctx (FxClassMember vt classx membervar areq) =
     (case Resolve ctx classx of
        (None, ctx1) \<Rightarrow> (None, ctx1)
      | (Some c, ctx1) \<Rightarrow> FxClassMember_Resolved ctx1 c membervar areq)"
| "Resolve ctx (FxFunctionCall vt MethodName ArgList) =
     (if Class ctx = None then (None, ctx)
      else
        (case FindClassMemberFunction ctx MethodName of
           LookupError \<Rightarrow> (None, ctx)
         | Found afd \<Rightarrow>
             (case Function ctx of
                None \<Rightarrow> (None, ctx)
              | Some f \<Rightarrow>
                  if VARF_Static \<in> Flags f \<and> VARF_Static \<notin> Flags afd then
                    (None, Message ctx MSG_ERROR
                       ''Call to non-static function %s from a static context'')
                  else
                    Resolve ctx
                      (FxVMFunctionCall NoType
                         (if VARF_Static \<notin> Flags afd then Some (FxSelf NoType) else None)
                         afd ArgList False))
         | NotFound \<Rightarrow>
             (case FxFunctionCall_builtin ctx MethodName ArgList of
                (Some func, ctx1) \<Rightarrow> Resolve ctx1 func
              | (None, ctx1) \<Rightarrow>
                  (None, Message ctx1 MSG_ERROR ''Call to unknown function %s''))))"
| "Resolve ctx (FxVMFunctionCall vt Self func ArgList EmitTail) =
     (case (case Self of
              None \<Rightarrow> (Some None, ctx)
            | Some s \<Rightarrow>
                (case Resolve ctx s of
                   (None, ctx1) \<Rightarrow> (None, ctx1)
                 | (Some s1, ctx1) \<Rightarrow> (Some (Some s1), ctx1))) of
        (None, ctx1) \<Rightarrow> (None, ctx1)
      | (Some Self1, ctx1) \<Rightarrow>
          (let implicit = (if VARF_Action \<in> Flags func then 3
                           else if VARF_Method \<in> Flags func then 1 else 0 :: nat)
           in if Self1 = None \<and> VARF_Static \<notin> Flags func then
                (None, Message ctx1 MSG_ERROR
                   ''Call to non-static function without a self pointer'')
              else
                (case ResolveArgs ctx1 ArgList (drop implicit (ArgumentTypes (VariantProto func))) of
                   (xs, ctx2) \<Rightarrow>
                     (case those xs of
                        None \<Rightarrow> (None, ctx2)
                      | Some args \<Rightarrow>
                          (Some (FxVMFunctionCall
                                   (case ReturnTypes (VariantProto func) of
                                      [] \<Rightarrow> TypeVoid | t # ts \<Rightarrow> t)
                                   Self1 func args EmitTail), ctx2)))))"
| "ResolveChoices ctx [] = (Some [], ctx)"
| "ResolveChoices ctx (c # cs) =
     (case Resolve ctx c of
        (None, ctx1) \<Rightarrow> (None, ctx1)
      | (Some c1, ctx1) \<Rightarrow>
          if GetRegType (ValueType c1) = REGT_FLOAT
             \<or> (GetRegType (ValueType c1) = REGT_INT \<and> ValueType c1 \<noteq> TypeName) then
            (case ResolveChoices ctx1 cs of
               (None, ctx2) \<Rightarrow> (None, ctx2)
             | (Some cs1, ctx2) \<Rightarrow> (Some (c1 # cs1), ctx2))
          else (None, Message ctx1 MSG_ERROR ''Arguments must be of type int or float''))"
| "ResolveArgs ctx [] types = ([], ctx)"
| "ResolveArgs ctx (a # as) types =
     (case Resolve ctx a of
        (r, ctx1) \<Rightarrow>
          (case (case r of
                   None \<Rightarrow> (None, ctx1)
                 | Some basex \<Rightarrow>
                     FxTypeCast_Resolved ctx1 (case types of [] \<Rightarrow> TypeError | t # ts \<Rightarrow> t)
                       False basex) of
             (x, ctx2) \<Rightarrow>
               (case ResolveArgs ctx2 as (tl types) of
                  (xs, ctx3) \<Rightarrow> (x # xs, ctx3))))"
  by pat_completeness auto

termination Resolve
  by (relation "measure (\<lambda>x. case x of
        Inl (ctx, e) \<Rightarrow> weight e
      | Inr (Inl (ctx, cs)) \<Rightarrow> lweight cs
      | Inr (Inr (ctx, as, ts)) \<Rightarrow> lweight as)")
     (auto simp: weight_pos lweight_pos FxFunctionCall_builtin_weight [OF sym])


subsection \<open>Statements and their resolution\<close>

text \<open>
  The control-flow statements. \<open>FxExpr\<close> is an expression in statement position (the
  source stores the expression node itself in the sequence). A loop and a jump statement
  carry the address of their object: the context points to the innermost loop by its
  address, and a loop's list \<open>Jumps\<close> holds the jump statements by theirs. The fields of
  \<open>FxForLoop\<close> are \<open>Init\<close>, \<open>Condition\<close>, \<open>Iteration\<close> and \<open>Code\<close>.
\<close>

datatype FxStatement =
    FxExpr FxExpression
  | FxSequence "FxStatement list"
  | FxIfStatement FxExpression "FxStatement option" "FxStatement option"
  | FxWhileLoop nat FxExpression "FxStatement option"
  | FxDoWhileLoop nat FxExpression "FxStatement option"
  | FxForLoop nat "FxStatement option" "FxExpression option" "FxStatement option"
      "FxStatement option"
  | FxJumpStatement nat Token
  | FxReturnStatement "FxExpression option"
  | FxNop

type_synonym resolved_statement = "FxStatement option \<times> FCompileContext"

text \<open>\<open>ReturnProto\<close>, called by return statements: the prototype, and the node, in which
  a function call has set \<open>EmitTail\<close>.\<close>

fun ReturnProto_of :: "FxExpression \<Rightarrow> FxExpression \<times> PPrototype" where
  "ReturnProto_of (FxVMFunctionCall vt self func args tail) =
     (FxVMFunctionCall vt self func args True, VariantProto func)"
| "ReturnProto_of e =
     (e, \<lparr>ArgumentTypes = [],
           ReturnTypes = (if ValueType e \<noteq> TypeVoid then [ValueType e] else [])\<rparr>)"

text \<open>The condition of a statement is cast to boolean unless it is boolean already.\<close>

definition BoolCondition :: "FCompileContext \<Rightarrow> FxExpression \<Rightarrow> resolved" where
  "BoolCondition ctx Condition =
     (if ValueType Condition \<noteq> TypeBool then FxBoolCast_Resolved ctx Condition
      else (Some Condition, ctx))"

text \<open>\<open>FxIfStatement::Resolve\<close> after the condition and both branches are resolved.\<close>

definition FxIfStatement_Resolved ::
  "FCompileContext \<Rightarrow> FxExpression \<Rightarrow> FxStatement option \<Rightarrow> FxStatement option
     \<Rightarrow> resolved_statement" where
  "FxIfStatement_Resolved ctx Condition WhenTrue WhenFalse =
     (if isConstant Condition then
        (let e = (if GetBool (GetValue Condition) then WhenTrue else WhenFalse)
         in (Some (case e of None \<Rightarrow> FxNop | Some s \<Rightarrow> s), ctx))
      else (Some (FxIfStatement Condition WhenTrue WhenFalse), ctx))"

text \<open>The three \<open>DoResolve\<close> after the children are resolved; \<open>this\<close> is the address of the
  loop.\<close>

definition FxWhileLoop_Resolved ::
  "FCompileContext \<Rightarrow> nat \<Rightarrow> FxExpression \<Rightarrow> FxStatement option \<Rightarrow> resolved_statement" where
  "FxWhileLoop_Resolved ctx this Condition0 Code =
     (case BoolCondition ctx Condition0 of
        (None, ctx1) \<Rightarrow> (None, ctx1)
      | (Some Condition, ctx1) \<Rightarrow>
          if isConstant Condition then
            (if \<not> GetBool (GetValue Condition) then (Some FxNop, ctx1)
             else if Code = None then
               (Some (FxWhileLoop this Condition Code),
                Message ctx1 MSG_WARNING ''Infinite empty loop'')
             else (Some (FxWhileLoop this Condition Code), ctx1))
          else (Some (FxWhileLoop this Condition Code), ctx1))"

definition FxDoWhileLoop_Resolved ::
  "FCompileContext \<Rightarrow> nat \<Rightarrow> FxExpression \<Rightarrow> FxStatement option \<Rightarrow> resolved_statement" where
  "FxDoWhileLoop_Resolved ctx this Condition0 Code =
     (case BoolCondition ctx Condition0 of
        (None, ctx1) \<Rightarrow> (None, ctx1)
      | (Some Condition, ctx1) \<Rightarrow>
          if isConstant Condition then
            (if \<not> GetBool (GetValue Condition) then
               (if LoopJumps ctx1 this = [] then
                  (Some (case Code of None \<Rightarrow> FxNop | Some e \<Rightarrow> e), ctx1)
                else (Some (FxDoWhileLoop this Condition Code), ctx1))
             else if Code = None then
               (Some (FxDoWhileLoop this Condition Code),
                Message ctx1 MSG_WARNING ''Infinite empty loop'')
             else (Some (FxDoWhileLoop this Condition Code), ctx1))
          else (Some (FxDoWhileLoop this Condition Code), ctx1))"

definition FxForLoop_Resolved ::
  "FCompileContext \<Rightarrow> nat \<Rightarrow> FxStatement option \<Rightarrow> FxExpression option \<Rightarrow> FxStatement option
     \<Rightarrow> FxStatement option \<Rightarrow> resolved_statement" where
  "FxForLoop_Resolved ctx this Init Condition0 Iteration Code =
     (let warn = (\<lambda>c. if Code = None then Message c MSG_WARNING ''Infinite empty loop''
                        else c)
      in case Condition0 of
           None \<Rightarrow> (Some (FxForLoop this Init None Iteration Code), warn ctx)
         | Some c0 \<Rightarrow>
             (case BoolCondition ctx c0 of
                (None, ctx1) \<Rightarrow> (None, ctx1)
              | (Some Condition, ctx1) \<Rightarrow>
                  if isConstant Condition then
                    (if \<not> GetBool (GetValue Condition) then (Some FxNop, ctx1)
                     else (Some (FxForLoop this Init None Iteration Code), warn ctx1))
                  else (Some (FxForLoop this Init (Some Condition) Iteration Code), ctx1)))"

text \<open>
  The resolution of statements. A loop statement (\<open>FxLoopStatement::Resolve\<close>) saves
  \<open>ctx.Loop\<close> in \<open>outer\<close>, makes itself the current loop, runs its \<open>DoResolve\<close> and puts
  \<open>outer\<close> back. A jump statement pushes itself on the list \<open>Jumps\<close> of the loop that
  \<open>ctx.Loop\<close> points to.
\<close>

fun ResolveStatement :: "FCompileContext \<Rightarrow> FxStatement \<Rightarrow> resolved_statement"
  and ResolveSequence ::
    "FCompileContext \<Rightarrow> FxStatement list \<Rightarrow> FxStatement list option \<times> FCompileContext"
  and ResolveOpt ::
    "FCompileContext \<Rightarrow> FxStatement option \<Rightarrow> FxStatement option option \<times> FCompileContext"
where
  "ResolveStatement ctx (FxExpr e) =
     (case Resolve ctx e of
        (None, ctx1) \<Rightarrow> (None, ctx1)
      | (Some e1, ctx1) \<Rightarrow> (Some (FxExpr e1), ctx1))"
| "ResolveStatement ctx (FxSequence Expressions) =
     (case ResolveSequence ctx Expressions of
        (None, ctx1) \<Rightarrow> (None, ctx1)
      | (Some es, ctx1) \<Rightarrow> (Some (FxSequence es), ctx1))"
| "ResolveStatement ctx (FxIfStatement Condition WhenTrue WhenFalse) =
     (if WhenTrue = None \<and> WhenFalse = None then (None, ctx)
      else
        (case Resolve ctx Condition of
           (None, ctx1) \<Rightarrow> (None, ctx1)
         | (Some c0, ctx1) \<Rightarrow>
        (case BoolCondition ctx1 c0 of
           (None, ctx2) \<Rightarrow> (None, ctx2)
         | (Some c, ctx2) \<Rightarrow>
        (case ResolveOpt ctx2 WhenTrue of
           (None, ctx3) \<Rightarrow> (None, ctx3)
         | (Some t, ctx3) \<Rightarrow>
        (case ResolveOpt ctx3 WhenFalse of
           (None, ctx4) \<Rightarrow> (None, ctx4)
         | (Some f, ctx4) \<Rightarrow> FxIfStatement_Resolved ctx4 c t f)))))"
| "ResolveStatement ctx (FxWhileLoop this Condition Code) =
     (let outer = Loop ctx
      in case (case Resolve (ctx\<lparr>Loop := Some this\<rparr>) Condition of
                 (None, ctx1) \<Rightarrow> (None, ctx1)
               | (Some c, ctx1) \<Rightarrow>
                   (case ResolveOpt ctx1 Code of
                      (None, ctx2) \<Rightarrow> (None, ctx2)
                    | (Some code, ctx2) \<Rightarrow> FxWhileLoop_Resolved ctx2 this c code)) of
           (x, ctx3) \<Rightarrow> (x, ctx3\<lparr>Loop := outer\<rparr>))"
| "ResolveStatement ctx (FxDoWhileLoop this Condition Code) =
     (let outer = Loop ctx
      in case (case Resolve (ctx\<lparr>Loop := Some this\<rparr>) Condition of
                 (None, ctx1) \<Rightarrow> (None, ctx1)
               | (Some c, ctx1) \<Rightarrow>
                   (case ResolveOpt ctx1 Code of
                      (None, ctx2) \<Rightarrow> (None, ctx2)
                    | (Some code, ctx2) \<Rightarrow> FxDoWhileLoop_Resolved ctx2 this c code)) of
           (x, ctx3) \<Rightarrow> (x, ctx3\<lparr>Loop := outer\<rparr>))"
| "ResolveStatement ctx (FxForLoop this Init Condition Iteration Code) =
     (let outer = Loop ctx
      in case (case ResolveOpt (ctx\<lparr>Loop := Some this\<rparr>) Init of
                 (None, ctx1) \<Rightarrow> (None, ctx1)
               | (Some init, ctx1) \<Rightarrow>
              (case (case Condition of
                       None \<Rightarrow> (Some None, ctx1)
                     | Some c0 \<Rightarrow>
                         (case Resolve ctx1 c0 of
                            (None, ctx2) \<Rightarrow> (None, ctx2)
                          | (Some c, ctx2) \<Rightarrow> (Some (Some c), ctx2))) of
                 (None, ctx2) \<Rightarrow> (None, ctx2)
               | (Some cond, ctx2) \<Rightarrow>
              (case ResolveOpt ctx2 Iteration of
                 (None, ctx3) \<Rightarrow> (None, ctx3)
               | (Some iter, ctx3) \<Rightarrow>
              (case ResolveOpt ctx3 Code of
                 (None, ctx4) \<Rightarrow> (None, ctx4)
               | (Some code, ctx4) \<Rightarrow> FxForLoop_Resolved ctx4 this init cond iter code)))) of
           (x, ctx5) \<Rightarrow> (x, ctx5\<lparr>Loop := outer\<rparr>))"
| "ResolveStatement ctx (FxJumpStatement this tok) =
     (case Loop ctx of
        Some l \<Rightarrow>
          (Some (FxJumpStatement this tok),
           ctx\<lparr>LoopJumps := (LoopJumps ctx)(l := LoopJumps ctx l @ [(this, tok)])\<rparr>)
      | None \<Rightarrow> (None, Message ctx MSG_ERROR ''%s outside of a loop''))"
| "ResolveStatement ctx (FxReturnStatement Val) =
     (case Val of
        None \<Rightarrow>
          (Some (FxReturnStatement None),
           CheckReturn ctx \<lparr>ArgumentTypes = [], ReturnTypes = []\<rparr>)
      | Some v \<Rightarrow>
          (case Resolve ctx v of
             (None, ctx1) \<Rightarrow> (None, ctx1)
           | (Some v1, ctx1) \<Rightarrow>
               (case ReturnProto_of v1 of
                  (v2, retproto) \<Rightarrow>
                    (Some (FxReturnStatement (Some v2)), CheckReturn ctx1 retproto))))"
| "ResolveStatement ctx FxNop = (Some FxNop, ctx)"
| "ResolveSequence ctx [] = (Some [], ctx)"
| "ResolveSequence ctx (e # es) =
     (case ResolveStatement ctx e of
        (None, ctx1) \<Rightarrow> (None, ctx1)
      | (Some e1, ctx1) \<Rightarrow>
          (case ResolveSequence ctx1 es of
             (None, ctx2) \<Rightarrow> (None, ctx2)
           | (Some es1, ctx2) \<Rightarrow> (Some (e1 # es1), ctx2)))"
| "ResolveOpt ctx None = (Some None, ctx)"
| "ResolveOpt ctx (Some s) =
     (case ResolveStatement ctx s of
        (None, ctx1) \<Rightarrow> (None, ctx1)
      | (Some s1, ctx1) \<Rightarrow> (Some (Some s1), ctx1))"


section \<open>The emission pass\<close>

subsection \<open>The code builder and the register allocator\<close>

text \<open>
  Modelled from the spec: the opcodes of the virtual machine that the modelled nodes
  emit (the opcode table is not among the sources). An opcode is a number, since the
  compiler computes some opcodes by adding to another one. The numbers follow the order
  of the table; what the additions rely on is that the variant with a constant operand
  follows the register variant (\<open>_R\<close>, \<open>_K\<close>; \<open>_RR\<close>, \<open>_RK\<close>, \<open>_KR\<close>) and that the \<open>LE\<close>
  family follows the \<open>LT\<close> family.
\<close>

type_synonym VM_OP = nat

definition OP_NOP :: VM_OP where "OP_NOP = 0"
definition OP_LI :: VM_OP where "OP_LI = 1"
definition OP_LK :: VM_OP where "OP_LK = 2"
definition OP_LKF :: VM_OP where "OP_LKF = 3"
definition OP_LKS :: VM_OP where "OP_LKS = 4"
definition OP_LKP :: VM_OP where "OP_LKP = 5"
definition OP_LBU :: VM_OP where "OP_LBU = 6"
definition OP_LW :: VM_OP where "OP_LW = 7"
definition OP_LDP :: VM_OP where "OP_LDP = 8"
definition OP_LP :: VM_OP where "OP_LP = 9"
definition OP_SB :: VM_OP where "OP_SB = 10"
definition OP_SW :: VM_OP where "OP_SW = 11"
definition OP_SDP :: VM_OP where "OP_SDP = 12"
definition OP_SP :: VM_OP where "OP_SP = 13"
definition OP_MOVE :: VM_OP where "OP_MOVE = 14"
definition OP_MOVEF :: VM_OP where "OP_MOVEF = 15"
definition OP_MOVES :: VM_OP where "OP_MOVES = 16"
definition OP_MOVEA :: VM_OP where "OP_MOVEA = 17"
definition OP_CAST :: VM_OP where "OP_CAST = 18"
definition OP_TEST :: VM_OP where "OP_TEST = 19"
definition OP_JMP :: VM_OP where "OP_JMP = 20"
definition OP_PARAM :: VM_OP where "OP_PARAM = 21"
definition OP_CALL_K :: VM_OP where "OP_CALL_K = 22"
definition OP_TAIL_K :: VM_OP where "OP_TAIL_K = 23"
definition OP_RESULT :: VM_OP where "OP_RESULT = 24"
definition OP_RET :: VM_OP where "OP_RET = 25"
definition OP_RETI :: VM_OP where "OP_RETI = 26"
definition OP_ADD_RR :: VM_OP where "OP_ADD_RR = 27"
definition OP_ADD_RK :: VM_OP where "OP_ADD_RK = 28"
definition OP_SUB_RR :: VM_OP where "OP_SUB_RR = 29"
definition OP_SUB_RK :: VM_OP where "OP_SUB_RK = 30"
definition OP_SUB_KR :: VM_OP where "OP_SUB_KR = 31"
definition OP_MUL_RR :: VM_OP where "OP_MUL_RR = 32"
definition OP_MUL_RK :: VM_OP where "OP_MUL_RK = 33"
definition OP_DIV_RR :: VM_OP where "OP_DIV_RR = 34"
definition OP_DIV_RK :: VM_OP where "OP_DIV_RK = 35"
definition OP_DIV_KR :: VM_OP where "OP_DIV_KR = 36"
definition OP_MOD_RR :: VM_OP where "OP_MOD_RR = 37"
definition OP_MOD_RK :: VM_OP where "OP_MOD_RK = 38"
definition OP_MOD_KR :: VM_OP where "OP_MOD_KR = 39"
definition OP_EQ_R :: VM_OP where "OP_EQ_R = 40"
definition OP_EQ_K :: VM_OP where "OP_EQ_K = 41"
definition OP_LT_RR :: VM_OP where "OP_LT_RR = 42"
definition OP_LT_RK :: VM_OP where "OP_LT_RK = 43"
definition OP_LT_KR :: VM_OP where "OP_LT_KR = 44"
definition OP_LE_RR :: VM_OP where "OP_LE_RR = 45"
definition OP_LE_RK :: VM_OP where "OP_LE_RK = 46"
definition OP_LE_KR :: VM_OP where "OP_LE_KR = 47"
definition OP_LTU_RR :: VM_OP where "OP_LTU_RR = 48"
definition OP_LTU_RK :: VM_OP where "OP_LTU_RK = 49"
definition OP_LTU_KR :: VM_OP where "OP_LTU_KR = 50"
definition OP_LEU_RR :: VM_OP where "OP_LEU_RR = 51"
definition OP_LEU_RK :: VM_OP where "OP_LEU_RK = 52"
definition OP_LEU_KR :: VM_OP where "OP_LEU_KR = 53"
definition OP_ADDF_RR :: VM_OP where "OP_ADDF_RR = 54"
definition OP_ADDF_RK :: VM_OP where "OP_ADDF_RK = 55"
definition OP_SUBF_RR :: VM_OP where "OP_SUBF_RR = 56"
definition OP_SUBF_RK :: VM_OP where "OP_SUBF_RK = 57"
definition OP_SUBF_KR :: VM_OP where "OP_SUBF_KR = 58"
definition OP_MULF_RR :: VM_OP where "OP_MULF_RR = 59"
definition OP_MULF_RK :: VM_OP where "OP_MULF_RK = 60"
definition OP_DIVF_RR :: VM_OP where "OP_DIVF_RR = 61"
definition OP_DIVF_RK :: VM_OP where "OP_DIVF_RK = 62"
definition OP_DIVF_KR :: VM_OP where "OP_DIVF_KR = 63"
definition OP_MODF_RR :: VM_OP where "OP_MODF_RR = 64"
definition OP_MODF_RK :: VM_OP where "OP_MODF_RK = 65"
definition OP_MODF_KR :: VM_OP where "OP_MODF_KR = 66"
definition OP_EQF_R :: VM_OP where "OP_EQF_R = 67"
definition OP_EQF_K :: VM_OP where "OP_EQF_K = 68"
definition OP_LTF_RR :: VM_OP where "OP_LTF_RR = 69"
definition OP_LTF_RK :: VM_OP where "OP_LTF_RK = 70"
definition OP_LTF_KR :: VM_OP where "OP_LTF_KR = 71"
definition OP_LEF_RR :: VM_OP where "OP_LEF_RR = 72"
definition OP_LEF_RK :: VM_OP where "OP_LEF_RK = 73"
definition OP_LEF_KR :: VM_OP where "OP_LEF_KR = 74"
definition OP_ADDA_RK :: VM_OP where "OP_ADDA_RK = 75"
definition OP_EQA_R :: VM_OP where "OP_EQA_R = 76"
definition OP_EQA_K :: VM_OP where "OP_EQA_K = 77"
definition OP_LO :: VM_OP where "OP_LO = 78"

lemmas OP_defs =
  OP_NOP_def OP_LI_def OP_LK_def OP_LKF_def OP_LKS_def OP_LKP_def
  OP_LBU_def OP_LW_def OP_LDP_def OP_LP_def OP_SB_def OP_SW_def
  OP_SDP_def OP_SP_def OP_MOVE_def OP_MOVEF_def OP_MOVES_def OP_MOVEA_def
  OP_CAST_def OP_TEST_def OP_JMP_def OP_PARAM_def OP_CALL_K_def OP_TAIL_K_def
  OP_RESULT_def OP_RET_def OP_RETI_def OP_ADD_RR_def OP_ADD_RK_def OP_SUB_RR_def
  OP_SUB_RK_def OP_SUB_KR_def OP_MUL_RR_def OP_MUL_RK_def OP_DIV_RR_def OP_DIV_RK_def
  OP_DIV_KR_def OP_MOD_RR_def OP_MOD_RK_def OP_MOD_KR_def OP_EQ_R_def OP_EQ_K_def
  OP_LT_RR_def OP_LT_RK_def OP_LT_KR_def OP_LE_RR_def OP_LE_RK_def OP_LE_KR_def
  OP_LTU_RR_def OP_LTU_RK_def OP_LTU_KR_def OP_LEU_RR_def OP_LEU_RK_def OP_LEU_KR_def
  OP_ADDF_RR_def OP_ADDF_RK_def OP_SUBF_RR_def OP_SUBF_RK_def OP_SUBF_KR_def OP_MULF_RR_def
  OP_MULF_RK_def OP_DIVF_RR_def OP_DIVF_RK_def OP_DIVF_KR_def OP_MODF_RR_def OP_MODF_RK_def
  OP_MODF_KR_def OP_EQF_R_def OP_EQF_K_def OP_LTF_RR_def OP_LTF_RK_def OP_LTF_KR_def
  OP_LEF_RR_def OP_LEF_RK_def OP_LEF_KR_def OP_ADDA_RK_def OP_EQA_R_def OP_EQA_K_def OP_LO_def

text \<open>Modelled from the spec: the load, store and move opcodes that the type facade
  reports for a type, and the operand constants of the cast and compare instructions.\<close>

fun GetLoadOp :: "PType \<Rightarrow> VM_OP" where
  "GetLoadOp TypeBool = OP_LBU"
| "GetLoadOp TypeSInt32 = OP_LW"
| "GetLoadOp TypeUInt32 = OP_LW"
| "GetLoadOp TypeName = OP_LW"
| "GetLoadOp TypeFloat64 = OP_LDP"
| "GetLoadOp TypeNullPtr = OP_LP"
| "GetLoadOp (TypePointer c) = OP_LO"
| "GetLoadOp t = OP_NOP"

fun GetStoreOp :: "PType \<Rightarrow> VM_OP" where
  "GetStoreOp TypeBool = OP_SB"
| "GetStoreOp TypeSInt32 = OP_SW"
| "GetStoreOp TypeUInt32 = OP_SW"
| "GetStoreOp TypeName = OP_SW"
| "GetStoreOp TypeFloat64 = OP_SDP"
| "GetStoreOp TypeNullPtr = OP_SP"
| "GetStoreOp (TypePointer c) = OP_SP"
| "GetStoreOp t = OP_NOP"

definition CAST_I2F :: int where "CAST_I2F = 0"
definition CAST_F2I :: int where "CAST_F2I = 2"
definition CMP_APPROX :: int where "CMP_APPROX = 4"

datatype VM_ATAG = ATAG_GENERIC | ATAG_OBJECT | ATAG_STATE

text \<open>
  Modelled from the spec: the code builder (append-only instruction stream, constant
  pools, backpatching of jumps) and the register allocator (per register class, the
  registers in use; \<open>Get\<close> hands out the first free register, \<open>Return\<close> frees one). An
  instruction is its opcode with the operands of the \<open>Emit\<close> call that appended it.
\<close>

type_synonym VMOP = "VM_OP \<times> int list"

record VMFunctionBuilder =
  Code :: "VMOP list"
  IntConstantList :: "int list"
  FloatConstantList :: "double list"
  AddressConstantList :: "(nat \<times> VM_ATAG) list"
  Registers :: "nat \<Rightarrow> nat list"
  IsActionFunc :: bool
  EmitMessages :: "(Severity \<times> string) list"

definition BuildEmit :: "VMFunctionBuilder \<Rightarrow> VM_OP \<Rightarrow> int list \<Rightarrow> nat \<times> VMFunctionBuilder" where
  "BuildEmit build opc args = (length (Code build), build\<lparr>Code := Code build @ [(opc, args)]\<rparr>)"

text \<open>\<open>build->Emit(...)\<close> where the address it returns is not used.\<close>

definition EmitOp :: "VMFunctionBuilder \<Rightarrow> VM_OP \<Rightarrow> int list \<Rightarrow> VMFunctionBuilder" where
  "EmitOp build opc args = snd (BuildEmit build opc args)"

definition GetAddress :: "VMFunctionBuilder \<Rightarrow> nat" where
  "GetAddress build = length (Code build)"

definition Backpatch :: "VMFunctionBuilder \<Rightarrow> nat \<Rightarrow> nat \<Rightarrow> VMFunctionBuilder" where
  "Backpatch build loc target =
     build\<lparr>Code := (Code build)[loc := (OP_JMP, [int target - int loc - 1])]\<rparr>"

definition BackpatchToHere :: "VMFunctionBuilder \<Rightarrow> nat \<Rightarrow> VMFunctionBuilder" where
  "BackpatchToHere build loc = Backpatch build loc (length (Code build))"

fun index_of :: "'a \<Rightarrow> 'a list \<Rightarrow> nat option" where
  "index_of x [] = None"
| "index_of x (y # ys) =
     (if x = y then Some 0 else (case index_of x ys of None \<Rightarrow> None | Some i \<Rightarrow> Some (Suc i)))"

definition GetConstantInt :: "VMFunctionBuilder \<Rightarrow> int \<Rightarrow> nat \<times> VMFunctionBuilder" where
  "GetConstantInt build v =
     (case index_of v (IntConstantList build) of
        Some i \<Rightarrow> (i, build)
      | None \<Rightarrow> (length (IntConstantList build),
                 build\<lparr>IntConstantList := IntConstantList build @ [v]\<rparr>))"

definition GetConstantFloat :: "VMFunctionBuilder \<Rightarrow> double \<Rightarrow> nat \<times> VMFunctionBuilder" where
  "GetConstantFloat build v =
     (case index_of v (FloatConstantList build) of
        Some i \<Rightarrow> (i, build)
      | None \<Rightarrow> (length (FloatConstantList build),
                 build\<lparr>FloatConstantList := FloatConstantList build @ [v]\<rparr>))"

definition GetConstantAddress ::
  "VMFunctionBuilder \<Rightarrow> nat \<Rightarrow> VM_ATAG \<Rightarrow> nat \<times> VMFunctionBuilder" where
  "GetConstantAddress build ptr tag =
     (case index_of (ptr, tag) (AddressConstantList build) of
        Some i \<Rightarrow> (i, build)
      | None \<Rightarrow> (length (AddressConstantList build),
                 build\<lparr>AddressConstantList := AddressConstantList build @ [(ptr, tag)]\<rparr>))"

definition EmitLoadInt :: "VMFunctionBuilder \<Rightarrow> nat \<Rightarrow> int \<Rightarrow> VMFunctionBuilder" where
  "EmitLoadInt build regnum v =
     (if - 32768 \<le> v \<and> v \<le> 32767 then EmitOp build OP_LI [int regnum, v]
      else (case GetConstantInt build v of
              (k, build1) \<Rightarrow> EmitOp build1 OP_LK [int regnum, int k]))"

definition EmitRetInt :: "VMFunctionBuilder \<Rightarrow> nat \<Rightarrow> bool \<Rightarrow> int \<Rightarrow> VMFunctionBuilder" where
  "EmitRetInt build retnum final v =
     (let a = int (retnum OR (if final then RET_FINAL else 0))
      in if - 32768 \<le> v \<and> v \<le> 32767 then EmitOp build OP_RETI [a, v]
         else (case GetConstantInt build v of
                 (k, build1) \<Rightarrow> EmitOp build1 OP_RET [a, int (REGT_INT OR REGT_KONST), int k]))"

text \<open>\<open>Registers[type].Get(1)\<close>: the first register that is not in use.\<close>

fun first_free :: "nat list \<Rightarrow> nat \<Rightarrow> nat \<Rightarrow> nat" where
  "first_free used n 0 = n"
| "first_free used n (Suc fuel) =
     (if n \<in> set used then first_free used (Suc n) fuel else n)"

definition RegGet :: "VMFunctionBuilder \<Rightarrow> nat \<Rightarrow> nat \<times> VMFunctionBuilder" where
  "RegGet build regtype =
     (let used = Registers build regtype;
          r = first_free used 0 (length used)
      in (r, build\<lparr>Registers := (Registers build)(regtype := used @ [r])\<rparr>))"

definition RegReturn :: "VMFunctionBuilder \<Rightarrow> nat \<Rightarrow> nat \<Rightarrow> VMFunctionBuilder" where
  "RegReturn build regtype reg =
     build\<lparr>Registers := (Registers build)(regtype := removeAll reg (Registers build regtype))\<rparr>"

subsection \<open>Location descriptors\<close>

record ExpEmit =
  RegNum :: nat
  RegType :: nat
  Konst :: bool
  Fixed :: bool
  Final :: bool
  Target :: bool

text \<open>The constructors \<open>ExpEmit()\<close>, \<open>ExpEmit(reg, type, konst, fixed)\<close> and
  \<open>ExpEmit(build, type)\<close>, which takes a register from the allocator.\<close>

definition ExpEmit_nil :: ExpEmit where
  "ExpEmit_nil = \<lparr>RegNum = 0, RegType = REGT_NIL, Konst = False, Fixed = False,
                  Final = False, Target = False\<rparr>"

definition ExpEmit_reg :: "nat \<Rightarrow> nat \<Rightarrow> bool \<Rightarrow> bool \<Rightarrow> ExpEmit" where
  "ExpEmit_reg reg regtype konst fixed =
     \<lparr>RegNum = reg, RegType = regtype, Konst = konst, Fixed = fixed,
      Final = False, Target = False\<rparr>"

definition ExpEmit_new :: "VMFunctionBuilder \<Rightarrow> nat \<Rightarrow> ExpEmit \<times> VMFunctionBuilder" where
  "ExpEmit_new build regtype =
     (case RegGet build regtype of
        (r, build1) \<Rightarrow>
          (\<lparr>RegNum = r, RegType = regtype, Konst = False, Fixed = False,
            Final = False, Target = False\<rparr>, build1))"

definition Free :: "ExpEmit \<Rightarrow> VMFunctionBuilder \<Rightarrow> VMFunctionBuilder" where
  "Free e build =
     (if \<not> Fixed e \<and> \<not> Konst e \<and> RegType e \<le> REGT_TYPE
      then RegReturn build (RegType e) (RegNum e) else build)"


subsection \<open>Emission of expressions\<close>

definition EmitError :: "VMFunctionBuilder \<Rightarrow> string \<Rightarrow> VMFunctionBuilder" where
  "EmitError build txt = build\<lparr>EmitMessages := EmitMessages build @ [(MSG_ERROR, txt)]\<rparr>"

text \<open>The operand \<open>where.RegType | (where.Konst ? REGT_KONST : 0)\<close>.\<close>

definition regtype_konst :: "ExpEmit \<Rightarrow> int" where
  "regtype_konst e = int (RegType e OR (if Konst e then REGT_KONST else 0))"

definition EmitLoad :: "VMFunctionBuilder \<Rightarrow> ExpEmit \<Rightarrow> ExpVal \<Rightarrow> VMFunctionBuilder" where
  "EmitLoad build resultreg v =
     (if RegType resultreg = REGT_FLOAT then
        (case GetConstantFloat build (GetFloat v) of
           (k, build1) \<Rightarrow> EmitOp build1 OP_LKF [int (RegNum resultreg), int k])
      else EmitLoadInt build (RegNum resultreg) (GetInt v))"

definition is_cast_kludge :: "FName \<Rightarrow> bool" where
  "is_cast_kludge funcname =
     (funcname = NAME_decorate_internal_int \<or> funcname = NAME_decorate_internal_bool
      \<or> funcname = NAME_decorate_internal_state \<or> funcname = NAME_decorate_internal_float)"

text \<open>
  \<open>Emit\<close> returns the location descriptor of the result and the builder as the call
  leaves it. \<open>EmitChoices\<close> is the loop of \<open>FxMinMax::Emit\<close> over the choices after the
  first; \<open>EmitParameters\<close> is the loop of \<open>FxVMFunctionCall::Emit\<close> that calls
  \<open>EmitParameter\<close> on every argument. The branch of \<open>FxVMFunctionCall::Emit\<close> for one
  argument is \<open>CheckEmitCast\<close>. An \<open>FxFunctionCall\<close> has no \<open>Emit\<close> of its own.
\<close>

fun Emit :: "VMFunctionBuilder \<Rightarrow> FxExpression \<Rightarrow> ExpEmit \<times> VMFunctionBuilder"
  and EmitChoices ::
    "VMFunctionBuilder \<Rightarrow> VM_OP \<Rightarrow> int \<Rightarrow> ExpEmit \<Rightarrow> FxExpression list \<Rightarrow> VMFunctionBuilder"
  and EmitParameters :: "VMFunctionBuilder \<Rightarrow> FxExpression list \<Rightarrow> VMFunctionBuilder"
where
  "Emit build (FxConstant vt v) =
     (let regtype = GetRegType (Type v);
          out = ExpEmit_nil\<lparr>Konst := True, RegType := regtype\<rparr>
      in if regtype = REGT_INT then
           (case GetConstantInt build (IntVal v) of (k, b1) \<Rightarrow> (out\<lparr>RegNum := k\<rparr>, b1))
         else if regtype = REGT_FLOAT then
           (case GetConstantFloat build (FloatVal v) of (k, b1) \<Rightarrow> (out\<lparr>RegNum := k\<rparr>, b1))
         else if regtype = REGT_POINTER then
           (case GetConstantAddress build 0
                   (if GetLoadOp (Type v) = OP_LO then ATAG_OBJECT else ATAG_GENERIC) of
              (k, b1) \<Rightarrow> (out\<lparr>RegNum := k\<rparr>, b1))
         else (out\<lparr>RegNum := 0\<rparr>, EmitError build ''Cannot emit needed constant''))"
| "Emit build (FxBoolCast vt basex) =
     (case Emit build basex of (from, b1) \<Rightarrow>
      case ExpEmit_new b1 REGT_INT of (to, b2) \<Rightarrow>
        (let b3 = Free from b2;
             b4 = EmitOp b3 OP_LI [int (RegNum to), 0];
             b5 = (if RegType from = REGT_INT then
                     EmitOp b4 OP_EQ_R [1, int (RegNum from), int (RegNum to)]
                   else if RegType from = REGT_FLOAT then
                     (case GetConstantFloat b4 0 of
                        (k, b) \<Rightarrow> EmitOp b OP_EQF_K [1, int (RegNum from), int k])
                   else if RegType from = REGT_POINTER then
                     (case GetConstantAddress b4 0 ATAG_GENERIC of
                        (k, b) \<Rightarrow> EmitOp b OP_EQA_K [1, int (RegNum from), int k])
                   else b4);
             b6 = EmitOp b5 OP_JMP [1];
             b7 = EmitOp b6 OP_LI [int (RegNum to), 1]
         in (to, b7)))"
| "Emit build (FxIntCast vt basex NoWarn) =
     (case Emit build basex of (from, b1) \<Rightarrow>
      case ExpEmit_new (Free from b1) REGT_INT of (to, b2) \<Rightarrow>
        (to, EmitOp b2 OP_CAST [int (RegNum to), int (RegNum from), CAST_F2I]))"
| "Emit build (FxFloatCast vt basex) =
     (case Emit build basex of (from, b1) \<Rightarrow>
      case ExpEmit_new (Free from b1) REGT_FLOAT of (to, b2) \<Rightarrow>
        (to, EmitOp b2 OP_CAST [int (RegNum to), int (RegNum from), CAST_I2F]))"
| "Emit build (FxPreIncrDecr vt tok base AddressRequested AddressWritable) =
     (case GetConstantInt build 0 of (zero, b0) \<Rightarrow>
      case Emit b0 base of (pointer, b1) \<Rightarrow>
        (let regtype = GetRegType vt;
             (val, b2) =
               (if \<not> Target pointer then
                  (case ExpEmit_new b1 regtype of
                     (v, b) \<Rightarrow>
                       (v, EmitOp b (GetLoadOp vt) [int (RegNum v), int (RegNum pointer), int zero]))
                else (pointer, b1));
             b3 = (if regtype = REGT_INT then
                     (case GetConstantInt b2 1 of
                        (k, b) \<Rightarrow>
                          EmitOp b (if tok = TK_Incr then OP_ADD_RK else OP_SUB_RK)
                            [int (RegNum val), int (RegNum val), int k])
                   else
                     (case GetConstantFloat b2 1 of
                        (k, b) \<Rightarrow>
                          EmitOp b (if tok = TK_Incr then OP_ADDF_RK else OP_SUBF_RK)
                            [int (RegNum val), int (RegNum val), int k]));
             b4 = (if \<not> Target pointer then
                     EmitOp b3 (GetStoreOp vt) [int (RegNum pointer), int (RegNum val), int zero]
                   else b3)
         in if AddressRequested then (pointer, Free val b4)
            else (val, Free pointer b4)))"
| "Emit build (FxPostIncrDecr vt tok base) =
     (case GetConstantInt build 0 of (zero, b0) \<Rightarrow>
      case Emit b0 base of (pointer, b1) \<Rightarrow>
        (let regtype = GetRegType vt;
             (out, b2) =
               (if \<not> Target pointer then
                  (case ExpEmit_new b1 regtype of
                     (v, b) \<Rightarrow>
                       (v, EmitOp b (GetLoadOp vt) [int (RegNum v), int (RegNum pointer), int zero]))
                else (pointer, b1))
         in case ExpEmit_new b2 regtype of (assign, b3) \<Rightarrow>
            (let b4 = (if regtype = REGT_INT then
                         (case GetConstantInt b3 1 of
                            (k, b) \<Rightarrow>
                              EmitOp b (if tok = TK_Incr then OP_ADD_RK else OP_SUB_RK)
                                [int (RegNum assign), int (RegNum out), int k])
                       else
                         (case GetConstantFloat b3 1 of
                            (k, b) \<Rightarrow>
                              EmitOp b (if tok = TK_Incr then OP_ADDF_RK else OP_SUBF_RK)
                                [int (RegNum assign), int (RegNum out), int k]));
                 b5 = (if \<not> Target pointer then
                         EmitOp b4 (GetStoreOp vt)
                           [int (RegNum pointer), int (RegNum assign), int zero]
                       else b4)
             in (out, Free assign (Free pointer b5)))))"
| "Emit build (FxAddSub vt Operator left right) =
     (case Emit build left of (op1a, b1) \<Rightarrow>
      case Emit b1 right of (op2a, b2) \<Rightarrow>
        if Operator = TK_Plus then
          (let (op1, op2) = (if Konst op1a then (op2a, op1a) else (op1a, op2a));
               b3 = Free op2 (Free op1 b2)
           in if GetRegType vt = REGT_FLOAT then
                (case ExpEmit_new b3 REGT_FLOAT of (to, b4) \<Rightarrow>
                   (to, EmitOp b4 (if Konst op2 then OP_ADDF_RK else OP_ADDF_RR)
                          [int (RegNum to), int (RegNum op1), int (RegNum op2)]))
              else
                (case ExpEmit_new b3 REGT_INT of (to, b4) \<Rightarrow>
                   (to, EmitOp b4 (if Konst op2 then OP_ADD_RK else OP_ADD_RR)
                          [int (RegNum to), int (RegNum op1), int (RegNum op2)])))
        else
          (let op1 = op1a; op2 = op2a;
               b3 = Free op2 (Free op1 b2)
           in if GetRegType vt = REGT_FLOAT then
                (case ExpEmit_new b3 REGT_FLOAT of (to, b4) \<Rightarrow>
                   (to, EmitOp b4 (if Konst op1 then OP_SUBF_KR
                                   else if Konst op2 then OP_SUBF_RK else OP_SUBF_RR)
                          [int (RegNum to), int (RegNum op1), int (RegNum op2)]))
              else
                (case ExpEmit_new b3 REGT_INT of (to, b4) \<Rightarrow>
                   (to, EmitOp b4 (if Konst op1 then OP_SUB_KR
                                   else if Konst op2 then OP_SUB_RK else OP_SUB_RR)
                          [int (RegNum to), int (RegNum op1), int (RegNum op2)]))))"
| "Emit build (FxMulDiv vt Operator left right) =
     (case Emit build left of (op1a, b1) \<Rightarrow>
      case Emit b1 right of (op2a, b2) \<Rightarrow>
        if Operator = TK_Mul then
          (let (op1, op2) = (if Konst op1a then (op2a, op1a) else (op1a, op2a));
               b3 = Free op2 (Free op1 b2)
           in if GetRegType vt = REGT_FLOAT then
                (case ExpEmit_new b3 REGT_FLOAT of (to, b4) \<Rightarrow>
                   (to, EmitOp b4 (if Konst op2 then OP_MULF_RK else OP_MULF_RR)
                          [int (RegNum to), int (RegNum op1), int (RegNum op2)]))
              else
                (case ExpEmit_new b3 REGT_INT of (to, b4) \<Rightarrow>
                   (to, EmitOp b4 (if Konst op2 then OP_MUL_RK else OP_MUL_RR)
                          [int (RegNum to), int (RegNum op1), int (RegNum op2)])))
        else
          (let op1 = op1a; op2 = op2a;
               b3 = Free op2 (Free op1 b2)
           in if GetRegType vt = REGT_FLOAT then
                (case ExpEmit_new b3 REGT_FLOAT of (to, b4) \<Rightarrow>
                   (to, EmitOp b4
                          (if Operator = TK_Div then
                             (if Konst op1 then OP_DIVF_KR
                              else if Konst op2 then OP_DIVF_RK else OP_DIVF_RR)
                           else
                             (if Konst op1 then OP_MODF_KR
                              else if Konst op2 then OP_MODF_RK else OP_MODF_RR))
                          [int (RegNum to), int (RegNum op1), int (RegNum op2)]))
              else
                (case ExpEmit_new b3 REGT_INT of (to, b4) \<Rightarrow>
                   (to, EmitOp b4
                          (if Operator = TK_Div then
                             (if Konst op1 then OP_DIV_KR
                              else if Konst op2 then OP_DIV_RK else OP_DIV_RR)
                           else
                             (if Konst op1 then OP_MOD_KR
                              else if Konst op2 then OP_MOD_RK else OP_MOD_RR))
                          [int (RegNum to), int (RegNum op1), int (RegNum op2)]))))"
| "Emit build (FxCompareEq vt Operator left right) =
     (case Emit build left of (op1a, b1) \<Rightarrow>
      case Emit b1 right of (op2a, b2) \<Rightarrow>
        (let (op1, op2) = (if Konst op1a then (op2a, op1a) else (op1a, op2a))
         in case ExpEmit_new b2 REGT_INT of (to, b3) \<Rightarrow>
            (let instr0 = (if RegType op1 = REGT_INT then OP_EQ_R
                           else if RegType op1 = REGT_FLOAT then OP_EQF_R else OP_EQA_R);
                 b4 = Free op1 b3;
                 b5 = (if \<not> Konst op2 then Free op2 b4 else b4);
                 instr = (if \<not> Konst op2 then instr0 else instr0 + 1);
                 b6 = EmitOp b5 OP_LI [int (RegNum to), 0, 0];
                 b7 = EmitOp b6 instr
                        [if Operator = TK_ApproxEq then CMP_APPROX
                         else if Operator \<noteq> TK_Eq then 1 else 0,
                         int (RegNum op1), int (RegNum op2)];
                 b8 = EmitOp b7 OP_JMP [1];
                 b9 = EmitOp b8 OP_LI [int (RegNum to), 1]
             in (to, b9))))"
| "Emit build (FxLtGtEq vt left right) =
     (case Emit build left of (op1, b1) \<Rightarrow>
      case Emit b1 right of (op2, b2) \<Rightarrow>
      case ExpEmit_new b2 REGT_INT of (to, b3) \<Rightarrow>
        (let instr0 = (if RegType op1 = REGT_INT then
                         (if ValueType left = TypeUInt32 then OP_LTU_RR else OP_LT_RR)
                       else OP_LTF_RR);
             instr1 = (if Konst op1 then instr0 + 2 else instr0);
             instr = (if Konst op2 then instr1 + 1 else instr1);
             b4 = EmitOp b3 OP_LI [int (RegNum to), 1];
             b5 = EmitOp b4 instr [0, int (RegNum op1), int (RegNum op2)]
         in case BuildEmit b5 OP_JMP [1] of (j1, b6) \<Rightarrow>
            (let b7 = EmitOp b6 OP_LI [int (RegNum to), - 1]
             in case BuildEmit b7 OP_JMP [1] of (j2, b8) \<Rightarrow>
                (let b9 = BackpatchToHere b8 j1;
                     b10 = EmitOp b9 (instr + OP_LE_RR - OP_LT_RR)
                             [0, int (RegNum op1), int (RegNum op2)]
                 in case BuildEmit b10 OP_JMP [1] of (j3, b11) \<Rightarrow>
                    (let b12 = EmitOp b11 OP_LI [int (RegNum to), 0];
                         b13 = BackpatchToHere b12 j2;
                         b14 = BackpatchToHere b13 j3
                     in (to, b14))))))"
| "Emit build (FxBinaryLogical vt Operator left right) =
     (case Emit build left of (op1, b1) \<Rightarrow>
      case GetConstantInt b1 0 of (zero, b2) \<Rightarrow>
        (let b3 = Free op1 b2;
             isand = (Operator = TK_AndAnd);
             b4 = EmitOp b3 OP_EQ_K [if isand then 1 else 0, int (RegNum op1), int zero]
         in case BuildEmit b4 OP_JMP [0, 0, 0] of (patchspot, b5) \<Rightarrow>
            case Emit b5 right of (op2, b6) \<Rightarrow>
            case ExpEmit_new (Free op2 b6) REGT_INT of (to, b7) \<Rightarrow>
              (let b8 = EmitOp b7 OP_EQ_K [if isand then 1 else 0, int (RegNum op2), int zero];
                   b9 = EmitOp b8 OP_JMP [2];
                   b10 = EmitOp b9 OP_LI [int (RegNum to), if isand then 1 else 0];
                   b11 = EmitOp b10 OP_JMP [1]
               in case BuildEmit b11 OP_LI [int (RegNum to), if isand then 0 else 1] of
                    (target, b12) \<Rightarrow> (to, Backpatch b12 patchspot target))))"
| "Emit build (FxMinMax vt ty choices) =
     (let isfloat = (GetRegType vt = REGT_FLOAT);
          opcode = (if ty = NAME_Min then (if isfloat then OP_LEF_RR else OP_LE_RR)
                    else (if isfloat then OP_LTF_RR else OP_LT_RR));
          opA = (if ty = NAME_Min then 1 else 0)
      in case choices of
           [] \<Rightarrow> (ExpEmit_nil, build)
         | c # cs \<Rightarrow>
             (case (if isConstant c then
                      (case ExpEmit_new build (GetRegType vt) of
                         (r, b) \<Rightarrow> (r, EmitLoad b r (GetValue c)))
                    else Emit build c) of
                (bestreg, b1) \<Rightarrow> (bestreg, EmitChoices b1 opcode opA bestreg cs)))"
| "Emit build (FxLocalVariable vt Variable AddressRequested) =
     (let ret = ExpEmit_reg (VarRegNum Variable) (GetRegType (VarValueType Variable)) False True
      in (if AddressRequested then ret\<lparr>Target := True\<rparr> else ret, build))"
| "Emit build (FxSelf vt) = (ExpEmit_reg 0 REGT_POINTER False True, build)"
| "Emit build (FxClassMember vt classx membervar AddressRequested) =
     (case Emit build classx of (obj0, b1) \<Rightarrow>
        (let (obj, b2) =
               (if Konst obj0 then
                  (case ExpEmit_new b1 REGT_POINTER of
                     (newobj, b) \<Rightarrow>
                       (newobj, EmitOp b OP_LKP [int (RegNum newobj), int (RegNum obj0)]))
                else (obj0, b1))
         in if AddressRequested then
              (if Offset membervar = 0 then (obj, b2)
               else
                 (case ExpEmit_new (Free obj b2) REGT_POINTER of (out, b3) \<Rightarrow>
                  case GetConstantInt b3 (int (Offset membervar)) of (k, b4) \<Rightarrow>
                    (out, EmitOp b4 OP_ADDA_RK [int (RegNum out), int (RegNum obj), int k])))
            else
              (case GetConstantInt b2 (int (Offset membervar)) of (offsetreg, b3) \<Rightarrow>
               case ExpEmit_new b3 (GetRegType (FieldType membervar)) of (loc, b4) \<Rightarrow>
                 (loc, Free obj
                         (EmitOp b4 (GetLoadOp (FieldType membervar))
                            [int (RegNum loc), int (RegNum obj), int offsetreg])))))"
| "Emit build (FxFunctionCall vt MethodName ArgList) =
     (ExpEmit_nil, EmitError build ''Unemitted expression found'')"
| "Emit build (FxVMFunctionCall vt Self func ArgList EmitTail) =
     (let funcname = SymbolName func
      in if length ArgList = 1 \<and> is_cast_kludge funcname then
           (case ArgList of
              [] \<Rightarrow> (ExpEmit_nil, build)
            | arg # rest \<Rightarrow>
                if EmitTail then
                  (if isConstant arg \<and> (funcname = NAME_decorate_internal_int
                                          \<or> funcname = NAME_decorate_internal_bool) then
                     (ExpEmit_nil\<lparr>Final := True\<rparr>,
                      EmitRetInt build 0 True (IntVal (GetValue arg)))
                   else
                     (case Emit build arg of (where, b1) \<Rightarrow>
                        (ExpEmit_nil\<lparr>Final := True\<rparr>,
                         Free where
                           (EmitOp b1 OP_RET
                              [int RET_FINAL, regtype_konst where, int (RegNum where)]))))
                else Emit build arg)
         else
           (let count0 = length ArgList;
                (count1, b1) =
                  (if VARF_Method \<in> Flags func then
                     (count0 + 1, case Self of None \<Rightarrow> build | Some s \<Rightarrow> snd (Emit build s))
                   else (count0, build));
                (count, b2) =
                  (if VARF_Action \<in> Flags func then
                     (count1 + 2,
                      if IsActionFunc b1 then
                        EmitOp (EmitOp b1 OP_PARAM [0, int REGT_POINTER, 1])
                          OP_PARAM [0, int REGT_POINTER, 2]
                      else
                        (case GetConstantAddress b1 0 ATAG_GENERIC of
                           (null, b) \<Rightarrow>
                             EmitOp (EmitOp b OP_PARAM [0, int (REGT_POINTER OR REGT_KONST), int null])
                               OP_PARAM [0, int (REGT_POINTER OR REGT_KONST), int null]))
                   else (count1, b1));
                b3 = EmitParameters b2 ArgList;
                vmfunc = Implementation func
            in case GetConstantAddress b3 (FuncAddress vmfunc) ATAG_OBJECT of
                 (funcaddr, b4) \<Rightarrow>
                   if EmitTail then
                     (ExpEmit_nil\<lparr>Final := True\<rparr>,
                      EmitOp b4 OP_TAIL_K [int funcaddr, int count, 0])
                   else
                     (case ReturnTypes (Proto vmfunc) of
                        t # ts \<Rightarrow>
                          (case ExpEmit_new b4 (GetRegType t) of (reg, b5) \<Rightarrow>
                             (reg, EmitOp (EmitOp b5 OP_CALL_K [int funcaddr, int count, 1])
                                     OP_RESULT [0, int (RegType reg), int (RegNum reg)]))
                      | [] \<Rightarrow> (ExpEmit_nil, EmitOp b4 OP_CALL_K [int funcaddr, int count, 0]))))"
| "EmitChoices build opcode opA bestreg [] = build"
| "EmitChoices build opcode opA bestreg (c # cs) =
     (case Emit build c of (checkreg, b1) \<Rightarrow>
        (let b2 = EmitOp b1 (opcode + (if Konst checkreg then 1 else 0))
                    [opA, int (RegNum bestreg), int (RegNum checkreg)];
             b3 = EmitOp b2 OP_JMP [1];
             b4 = (if Konst checkreg then
                     EmitOp b3 (if RegType bestreg = REGT_FLOAT then OP_LKF else OP_LK)
                       [int (RegNum bestreg), int (RegNum checkreg)]
                   else
                     Free checkreg
                       (EmitOp b3 (if RegType bestreg = REGT_FLOAT then OP_MOVEF else OP_MOVE)
                          [int (RegNum bestreg), int (RegNum checkreg), 0]))
         in EmitChoices b4 opcode opA bestreg cs))"
| "EmitParameters build [] = build"
| "EmitParameters build (operand # rest) =
     (case Emit build operand of (where, b1) \<Rightarrow>
        (let b2 = (if RegType where = REGT_NIL then
                     EmitOp (EmitError b1 ''Attempted to pass a non-value'')
                       OP_PARAM [0, int (RegType where), int (RegNum where)]
                   else
                     Free where
                       (EmitOp b1 OP_PARAM [0, regtype_konst where, int (RegNum where)]))
         in EmitParameters b2 rest))"

subsection \<open>Emission of sequences and return statements\<close>

text \<open>\<open>FxSequence::Emit\<close> on a sequence of expressions: every result is thrown away and
  its register freed.\<close>

fun FxSequence_Emit :: "VMFunctionBuilder \<Rightarrow> FxExpression list \<Rightarrow> ExpEmit \<times> VMFunctionBuilder" where
  "FxSequence_Emit build [] = (ExpEmit_nil, build)"
| "FxSequence_Emit build (e # es) =
     (case Emit build e of (v, b1) \<Rightarrow> FxSequence_Emit (Free v b1) es)"

text \<open>\<open>FxReturnStatement::Emit\<close> for the returned expression \<open>Val\<close>, if any.\<close>

definition FxReturnStatement_Emit ::
  "VMFunctionBuilder \<Rightarrow> FxExpression option \<Rightarrow> ExpEmit \<times> VMFunctionBuilder" where
  "FxReturnStatement_Emit build Val =
     (case Val of
        None \<Rightarrow>
          ((ExpEmit_reg 0 REGT_NIL False False)\<lparr>Final := True\<rparr>,
           EmitOp build OP_RET [int RET_FINAL, int REGT_NIL, 0])
      | Some v \<Rightarrow>
          (case Emit build v of (out, b1) \<Rightarrow>
             (out\<lparr>Final := True\<rparr>,
              if \<not> Final out then
                (if ValueType v = TypeVoid then
                   EmitOp b1 OP_RET [int RET_FINAL, int REGT_NIL, 0]
                 else EmitOp b1 OP_RET [int RET_FINAL, regtype_konst out, int (RegNum out)])
              else b1)))"


section \<open>Notions used in the statements\<close>

text \<open>A context with no enclosing function or loop and an empty symbol table, and a
  local variable of a given type in a given register, for the concrete instances.\<close>

definition ctx_empty :: FCompileContext where
  "ctx_empty = \<lparr>ReturnProto = None, Function = None, Class = Some [0], FromDecorate = False,
     Loop = None, FindClassMemberFunction = (\<lambda>n. NotFound), LoopJumps = (\<lambda>a. []),
     Messages = []\<rparr>"

definition local_var :: "PType \<Rightarrow> nat \<Rightarrow> FxExpression" where
  "local_var t r = FxLocalVariable t \<lparr>VarRegNum = r, VarValueType = t, VarFlags = {}\<rparr> False"

text \<open>
  Truncation as the specification words it: \<open>n\<close> is the integer part of \<open>d\<close>, the
  integer next to \<open>d\<close> in the direction of zero.
\<close>

definition truncation_of :: "double \<Rightarrow> int \<Rightarrow> bool" where
  "truncation_of d n = (\<bar>of_int n\<bar> \<le> \<bar>d\<bar> \<and> \<bar>d\<bar> < \<bar>of_int n\<bar> + 1 \<and> 0 \<le> of_int n * d)"

text \<open>The part of the context that the loop statements and the jump statements work on.\<close>

definition loops :: "FCompileContext \<Rightarrow> nat option \<times> (nat \<Rightarrow> (nat \<times> Token) list)" where
  "loops c = (Loop c, LoopJumps c)"

text \<open>The addresses of the loop statements in a statement.\<close>

fun loop_addresses :: "FxStatement \<Rightarrow> nat set"
  and loop_addresses_list :: "FxStatement list \<Rightarrow> nat set"
  and loop_addresses_opt :: "FxStatement option \<Rightarrow> nat set"
where
  "loop_addresses (FxExpr e) = {}"
| "loop_addresses (FxSequence es) = loop_addresses_list es"
| "loop_addresses (FxIfStatement c t f) = loop_addresses_opt t \<union> loop_addresses_opt f"
| "loop_addresses (FxWhileLoop a c code) = insert a (loop_addresses_opt code)"
| "loop_addresses (FxDoWhileLoop a c code) = insert a (loop_addresses_opt code)"
| "loop_addresses (FxForLoop a init c iter code) =
     insert a (loop_addresses_opt init \<union> loop_addresses_opt iter \<union> loop_addresses_opt code)"
| "loop_addresses (FxJumpStatement a tok) = {}"
| "loop_addresses (FxReturnStatement v) = {}"
| "loop_addresses FxNop = {}"
| "loop_addresses_list [] = {}"
| "loop_addresses_list (s # ss) = loop_addresses s \<union> loop_addresses_list ss"
| "loop_addresses_opt None = {}"
| "loop_addresses_opt (Some s) = loop_addresses s"

fun is_loop :: "FxStatement \<Rightarrow> bool" where
  "is_loop (FxWhileLoop a c code) = True"
| "is_loop (FxDoWhileLoop a c code) = True"
| "is_loop (FxForLoop a init c iter code) = True"
| "is_loop s = False"

text \<open>The jump statements of a statement that are not inside a loop statement of it, in
  the order of resolution: those that belong to the loop around the statement.\<close>

fun direct_jumps :: "FxStatement \<Rightarrow> (nat \<times> Token) list"
  and direct_jumps_list :: "FxStatement list \<Rightarrow> (nat \<times> Token) list"
  and direct_jumps_opt :: "FxStatement option \<Rightarrow> (nat \<times> Token) list"
where
  "direct_jumps (FxExpr e) = []"
| "direct_jumps (FxSequence es) = direct_jumps_list es"
| "direct_jumps (FxIfStatement c t f) = direct_jumps_opt t @ direct_jumps_opt f"
| "direct_jumps (FxWhileLoop a c code) = []"
| "direct_jumps (FxDoWhileLoop a c code) = []"
| "direct_jumps (FxForLoop a init c iter code) = []"
| "direct_jumps (FxJumpStatement a tok) = [(a, tok)]"
| "direct_jumps (FxReturnStatement v) = []"
| "direct_jumps FxNop = []"
| "direct_jumps_list [] = []"
| "direct_jumps_list (s # ss) = direct_jumps s @ direct_jumps_list ss"
| "direct_jumps_opt None = []"
| "direct_jumps_opt (Some s) = direct_jumps s"

text \<open>A for loop over a sequence of a break, a while loop with a continue, a do-while
  loop with a conditional break, and a continue, for the concrete instances.\<close>

definition nested_loops :: FxStatement where
  "nested_loops =
     FxForLoop 1 None None None
       (Some (FxSequence
          [FxJumpStatement 10 TK_Break,
           FxWhileLoop 2 (local_var TypeBool 0) (Some (FxJumpStatement 11 TK_Continue)),
           FxDoWhileLoop 3 (local_var TypeBool 0)
             (Some (FxIfStatement (local_var TypeBool 1) (Some (FxJumpStatement 13 TK_Break)) None)),
           FxJumpStatement 12 TK_Continue]))"



text \<open>
  A builder at the start of a function body whose integer registers 0 to 3 hold local
  variables, for the concrete instances; a local variable and a member of \<open>self\<close> whose
  address was requested, as the operand of an increment is after resolution; and a
  static function of one integer argument that returns an integer.
\<close>

definition build_locals :: VMFunctionBuilder where
  "build_locals = \<lparr>Code = [], IntConstantList = [], FloatConstantList = [],
     AddressConstantList = [],
     Registers = (\<lambda>t. if t = REGT_INT then [0, 1, 2, 3] else []),
     IsActionFunc = False, EmitMessages = []\<rparr>"

definition local_ref :: "PType \<Rightarrow> nat \<Rightarrow> FxExpression" where
  "local_ref t r = FxLocalVariable t \<lparr>VarRegNum = r, VarValueType = t, VarFlags = {}\<rparr> True"

definition member_ref :: "PType \<Rightarrow> nat \<Rightarrow> FxExpression" where
  "member_ref t off =
     FxClassMember t (FxSelf (TypePointer [0])) \<lparr>Offset = off, FieldType = t, FieldFlags = {}\<rparr> True"

definition static_function :: "FName \<Rightarrow> PFunction" where
  "static_function name =
     \<lparr>SymbolName = name, Flags = {VARF_Static},
      VariantProto = \<lparr>ArgumentTypes = [TypeSInt32], ReturnTypes = [TypeSInt32]\<rparr>,
      Implementation = \<lparr>FuncAddress = 7,
         Proto = \<lparr>ArgumentTypes = [TypeSInt32], ReturnTypes = [TypeSInt32]\<rparr>\<rparr>,
      SelfClass = None\<rparr>"

text \<open>The instruction that adds or subtracts the constant one, by register class.\<close>

definition incr_op :: "PType \<Rightarrow> Token \<Rightarrow> VM_OP" where
  "incr_op vt tok =
     (if GetRegType vt = REGT_INT then (if tok = TK_Incr then OP_ADD_RK else OP_SUB_RK)
      else (if tok = TK_Incr then OP_ADDF_RK else OP_SUBF_RK))"

text \<open>
  The instructions of the arithmetic operators by operand form (register with register,
  register with constant, constant with register) and of the equality comparison by
  register class and by whether the second operand is a constant.
\<close>

datatype operand_form = RR | RK | KR

fun arith_op :: "Token \<Rightarrow> bool \<Rightarrow> operand_form \<Rightarrow> VM_OP" where
  "arith_op TK_Plus False RR = OP_ADD_RR"
| "arith_op TK_Plus False RK = OP_ADD_RK"
| "arith_op TK_Plus True RR = OP_ADDF_RR"
| "arith_op TK_Plus True RK = OP_ADDF_RK"
| "arith_op TK_Mul False RR = OP_MUL_RR"
| "arith_op TK_Mul False RK = OP_MUL_RK"
| "arith_op TK_Mul True RR = OP_MULF_RR"
| "arith_op TK_Mul True RK = OP_MULF_RK"
| "arith_op TK_Minus False RR = OP_SUB_RR"
| "arith_op TK_Minus False RK = OP_SUB_RK"
| "arith_op TK_Minus False KR = OP_SUB_KR"
| "arith_op TK_Minus True RR = OP_SUBF_RR"
| "arith_op TK_Minus True RK = OP_SUBF_RK"
| "arith_op TK_Minus True KR = OP_SUBF_KR"
| "arith_op TK_Div False RR = OP_DIV_RR"
| "arith_op TK_Div False RK = OP_DIV_RK"
| "arith_op TK_Div False KR = OP_DIV_KR"
| "arith_op TK_Div True RR = OP_DIVF_RR"
| "arith_op TK_Div True RK = OP_DIVF_RK"
| "arith_op TK_Div True KR = OP_DIVF_KR"
| "arith_op TK_Mod False RR = OP_MOD_RR"
| "arith_op TK_Mod False RK = OP_MOD_RK"
| "arith_op TK_Mod False KR = OP_MOD_KR"
| "arith_op TK_Mod True RR = OP_MODF_RR"
| "arith_op TK_Mod True RK = OP_MODF_RK"
| "arith_op TK_Mod True KR = OP_MODF_KR"
| "arith_op tok isfloat form = OP_NOP"

definition eq_op :: "nat \<Rightarrow> bool \<Rightarrow> VM_OP" where
  "eq_op regtype konst =
     (if regtype = REGT_INT then (if konst then OP_EQ_K else OP_EQ_R)
      else if regtype = REGT_FLOAT then (if konst then OP_EQF_K else OP_EQF_R)
      else (if konst then OP_EQA_K else OP_EQA_R))"


section \<open>Resolution leaves the loop context alone\<close>

text \<open>Resolving an expression changes neither \<open>ctx.Loop\<close> nor any loop's jump list:
  every step only prints messages.\<close>

lemma loops_Message [simp]: "loops (Message c sev txt) = loops c"
  by (simp add: Message_def loops_def)

lemma loops_FxBoolCast_Resolved [simp]: "loops (snd (FxBoolCast_Resolved c b)) = loops c"
  by (simp add: FxBoolCast_Resolved_def)

lemma loops_FxIntCast_Resolved [simp]: "loops (snd (FxIntCast_Resolved c b nw)) = loops c"
  by (simp add: FxIntCast_Resolved_def Let_def)

lemma loops_FxFloatCast_Resolved [simp]: "loops (snd (FxFloatCast_Resolved c b)) = loops c"
  by (simp add: FxFloatCast_Resolved_def)

lemma loops_FxNameCast_Resolved [simp]: "loops (snd (FxNameCast_Resolved c b)) = loops c"
  by (simp add: FxNameCast_Resolved_def)

lemma loops_FxTypeCast_Resolved [simp]: "loops (snd (FxTypeCast_Resolved c vt nw b)) = loops c"
  by (simp add: FxTypeCast_Resolved_def Let_def)

lemma loops_FxPreIncrDecr_Resolved [simp]: "loops (snd (FxPreIncrDecr_Resolved c t b a)) = loops c"
  by (simp add: FxPreIncrDecr_Resolved_def split_beta)

lemma loops_FxPostIncrDecr_Resolved [simp]: "loops (snd (FxPostIncrDecr_Resolved c t b)) = loops c"
  by (simp add: FxPostIncrDecr_Resolved_def split_beta)

lemma loops_Promote [simp]: "loops (snd (snd (Promote c l r))) = loops c"
  by (simp add: Promote_def split_beta)

lemma loops_FxAddSub_Resolved [simp]: "loops (snd (FxAddSub_Resolved c vt t l r)) = loops c"
  by (simp add: FxAddSub_Resolved_def Let_def split_beta split: option.split)

lemma loops_FxMulDiv_Resolved [simp]: "loops (snd (FxMulDiv_Resolved c vt t l r)) = loops c"
  by (simp add: FxMulDiv_Resolved_def Let_def split_beta split: option.split)

lemma loops_FxCompareEq_Resolved [simp]: "loops (snd (FxCompareEq_Resolved c vt t l r)) = loops c"
  by (simp add: FxCompareEq_Resolved_def Let_def split_beta split: option.split)

lemma loops_FxLtGtEq_Resolved [simp]: "loops (snd (FxLtGtEq_Resolved c vt l r)) = loops c"
  by (simp add: FxLtGtEq_Resolved_def Let_def split_beta split: option.split)

lemma loops_FxBinaryLogical_Resolved [simp]: "loops (snd (FxBinaryLogical_Resolved c t l r)) = loops c"
  by (simp add: FxBinaryLogical_Resolved_def Let_def split_beta split: option.split)

lemma loops_MinMax_promote [simp]: "loops (snd (MinMax_promote c cs)) = loops c"
  by (induction cs arbitrary: c) (simp_all add: split_beta split: option.split)

lemma loops_FxMinMax_Resolved [simp]: "loops (snd (FxMinMax_Resolved c t cs)) = loops c"
  by (simp add: FxMinMax_Resolved_def Let_def split_beta split: option.split)

lemma loops_CheckArgSize [simp]: "loops (snd (CheckArgSize c n args a b)) = loops c"
  by (simp add: CheckArgSize_def Let_def)

lemma loops_FxFunctionCall_builtin [simp]: "loops (snd (FxFunctionCall_builtin c n args)) = loops c"
  by (simp add: FxFunctionCall_builtin_def Let_def split_beta split: bool.split)

lemma loops_FxSelf_Resolved [simp]: "loops (snd (FxSelf_Resolved c)) = loops c"
  by (simp add: FxSelf_Resolved_def split: option.split)

lemma loops_FxClassMember_Resolved [simp]: "loops (snd (FxClassMember_Resolved c e m a)) = loops c"
  by (simp add: FxClassMember_Resolved_def)

lemma loops_ResolveChoices:
  "(\<And>c ctx. c \<in> set cs \<Longrightarrow> loops (snd (Resolve ctx c)) = loops ctx)
     \<Longrightarrow> loops (snd (ResolveChoices ctx cs)) = loops ctx"
  by (induction cs arbitrary: ctx) (simp_all add: split_beta split: option.split)

lemma loops_ResolveArgs:
  "(\<And>c ctx. c \<in> set as \<Longrightarrow> loops (snd (Resolve ctx c)) = loops ctx)
     \<Longrightarrow> loops (snd (ResolveArgs ctx as ts)) = loops ctx"
  by (induction as arbitrary: ctx ts) (simp_all add: split_beta split: option.split)

lemma loops_Resolve_FxVMFunctionCall:
  assumes "\<And>c ctx. c \<in> set as \<Longrightarrow> loops (snd (Resolve ctx c)) = loops ctx"
    and "\<And>s ctx. self = Some s \<Longrightarrow> loops (snd (Resolve ctx s)) = loops ctx"
  shows "loops (snd (Resolve ctx (FxVMFunctionCall vt self f as tail))) = loops ctx"
  using assms
  by (simp add: split_beta Let_def loops_ResolveArgs split: option.split)

lemma loops_Resolve [simp]: "loops (snd (Resolve ctx e)) = loops ctx"
proof (induction e arbitrary: ctx)
  case (FxMinMax vt ty choices)
  then show ?case by (simp add: split_beta loops_ResolveChoices split: option.split)
next
  case (FxFunctionCall vt name args)
  have args: "\<And>c ctx. c \<in> set args \<Longrightarrow> loops (snd (Resolve ctx c)) = loops ctx"
    using FxFunctionCall by simp
  have self: "\<And>ctx. loops (snd (Resolve ctx (FxSelf NoType))) = loops ctx"
    by simp
  have vm: "\<And>ctx self f. self = None \<or> self = Some (FxSelf NoType) \<Longrightarrow>
      loops (snd (Resolve ctx (FxVMFunctionCall NoType self f args False))) = loops ctx"
    by (rule loops_Resolve_FxVMFunctionCall) (use args self in auto)
  have mm: "\<And>ctx t. loops (snd (Resolve ctx (FxMinMax NoType t args))) = loops ctx"
    by (simp add: split_beta loops_ResolveChoices args split: option.split)
  have bi: "\<And>ctx func. fst (FxFunctionCall_builtin ctx name args) = Some func \<Longrightarrow>
      (\<exists>t. func = FxMinMax NoType t args)"
    by (auto simp: FxFunctionCall_builtin_def Let_def split_beta split: if_splits bool.splits)
  show ?case
  proof (cases "FindClassMemberFunction ctx name")
    case NotFound
    show ?thesis
    proof (cases "fst (FxFunctionCall_builtin ctx name args)")
      case None
      with NotFound show ?thesis
        by (simp add: split_beta del: Resolve.simps(12,17))
    next
      case (Some func)
      with bi[OF Some] NotFound mm show ?thesis
        by (auto simp add: split_beta simp del: Resolve.simps(12,17))
    qed
  next
    case LookupError
    then show ?thesis by simp
  next
    case (Found afd)
    then show ?thesis
      by (simp add: vm split: option.split del: Resolve.simps(12,17))
  qed
next
  case (FxVMFunctionCall vt self f args tail)
  show ?case
    by (rule loops_Resolve_FxVMFunctionCall) (use FxVMFunctionCall in auto)
qed (simp_all add: split_beta split: option.split)


lemma Loop_Resolve [simp]: "Loop (snd (Resolve ctx e)) = Loop ctx"
  using loops_Resolve [of ctx e] by (simp add: loops_def)

lemma LoopJumps_Resolve [simp]: "LoopJumps (snd (Resolve ctx e)) = LoopJumps ctx"
  using loops_Resolve [of ctx e] by (simp add: loops_def)

lemma loops_CheckReturn [simp]: "loops (CheckReturn c p) = loops c"
  by (simp add: CheckReturn_def Let_def loops_def Message_def split: option.split)

lemma loops_BoolCondition [simp]: "loops (snd (BoolCondition c e)) = loops c"
  by (simp add: BoolCondition_def)

lemma loops_FxIfStatement_Resolved [simp]: "loops (snd (FxIfStatement_Resolved c e t f)) = loops c"
  by (simp add: FxIfStatement_Resolved_def Let_def)

lemma loops_FxWhileLoop_Resolved [simp]: "loops (snd (FxWhileLoop_Resolved c a e s)) = loops c"
  by (simp add: FxWhileLoop_Resolved_def split_beta split: option.split)

lemma loops_FxDoWhileLoop_Resolved [simp]: "loops (snd (FxDoWhileLoop_Resolved c a e s)) = loops c"
  by (simp add: FxDoWhileLoop_Resolved_def split_beta split: option.split)

lemma loops_FxForLoop_Resolved [simp]: "loops (snd (FxForLoop_Resolved c a i e it s)) = loops c"
  by (simp add: FxForLoop_Resolved_def Let_def split_beta split: option.split)

lemma loops_eq_iff: "loops c' = loops c \<longleftrightarrow> Loop c' = Loop c \<and> LoopJumps c' = LoopJumps c"
  by (simp add: loops_def)

lemmas loops_parts =
  loops_CheckReturn [unfolded loops_eq_iff] loops_BoolCondition [unfolded loops_eq_iff]
  loops_FxIfStatement_Resolved [unfolded loops_eq_iff]
  loops_FxWhileLoop_Resolved [unfolded loops_eq_iff]
  loops_FxDoWhileLoop_Resolved [unfolded loops_eq_iff]
  loops_FxForLoop_Resolved [unfolded loops_eq_iff]
  loops_Message [unfolded loops_eq_iff]


section \<open>Break and continue\<close>

lemma Loop_ResolveOpt:
  "(\<And>s ctx. s \<in> set_option so \<Longrightarrow> Loop (snd (ResolveStatement ctx s)) = Loop ctx)
     \<Longrightarrow> Loop (snd (ResolveOpt ctx so)) = Loop ctx"
  by (cases so) (simp_all add: split_beta split: option.split)

lemma Loop_ResolveSequence:
  "(\<And>s ctx. s \<in> set ss \<Longrightarrow> Loop (snd (ResolveStatement ctx s)) = Loop ctx)
     \<Longrightarrow> Loop (snd (ResolveSequence ctx ss)) = Loop ctx"
  by (induction ss arbitrary: ctx) (simp_all add: split_beta split: option.split)

lemma Loop_ResolveStatement [simp]: "Loop (snd (ResolveStatement ctx s)) = Loop ctx"
proof (induction s arbitrary: ctx)
  case (FxSequence es)
  then show ?case by (simp add: split_beta Loop_ResolveSequence split: option.split)
next
  case (FxIfStatement c t f)
  have t: "Loop (snd (ResolveOpt ctx t)) = Loop ctx" for ctx
    by (rule Loop_ResolveOpt) (use FxIfStatement in auto)
  have f: "Loop (snd (ResolveOpt ctx f)) = Loop ctx" for ctx
    by (rule Loop_ResolveOpt) (use FxIfStatement in auto)
  show ?case
    by (simp add: split_beta t f loops_parts split: option.split)
qed (simp_all add: split_beta Let_def loops_parts split: option.split)

lemma Loop_ResolveOpt' [simp]: "Loop (snd (ResolveOpt ctx so)) = Loop ctx"
  by (simp add: Loop_ResolveOpt)

lemma Loop_ResolveSequence' [simp]: "Loop (snd (ResolveSequence ctx ss)) = Loop ctx"
  by (simp add: Loop_ResolveSequence)

lemma LoopJumps_ResolveOpt:
  "(\<And>s ctx. s \<in> set_option so \<Longrightarrow> a \<notin> loop_addresses s \<Longrightarrow> Some a \<noteq> Loop ctx
        \<Longrightarrow> LoopJumps (snd (ResolveStatement ctx s)) a = LoopJumps ctx a)
     \<Longrightarrow> a \<notin> loop_addresses_opt so \<Longrightarrow> Some a \<noteq> Loop ctx
     \<Longrightarrow> LoopJumps (snd (ResolveOpt ctx so)) a = LoopJumps ctx a"
  by (cases so) (simp_all add: split_beta split: option.split)

lemma LoopJumps_ResolveSequence:
  "(\<And>s ctx. s \<in> set ss \<Longrightarrow> a \<notin> loop_addresses s \<Longrightarrow> Some a \<noteq> Loop ctx
        \<Longrightarrow> LoopJumps (snd (ResolveStatement ctx s)) a = LoopJumps ctx a)
     \<Longrightarrow> a \<notin> loop_addresses_list ss \<Longrightarrow> Some a \<noteq> Loop ctx
     \<Longrightarrow> LoopJumps (snd (ResolveSequence ctx ss)) a = LoopJumps ctx a"
  by (induction ss arbitrary: ctx) (simp_all add: split_beta split: option.split)

lemma LoopJumps_ResolveStatement:
  "a \<notin> loop_addresses s \<Longrightarrow> Some a \<noteq> Loop ctx
     \<Longrightarrow> LoopJumps (snd (ResolveStatement ctx s)) a = LoopJumps ctx a"
proof (induction s arbitrary: ctx)
  case (FxSequence es)
  then show ?case by (simp add: split_beta LoopJumps_ResolveSequence split: option.split)
next
  case (FxIfStatement c t f)
  have t: "LoopJumps (snd (ResolveOpt ctx t)) a = LoopJumps ctx a" if "Some a \<noteq> Loop ctx" for ctx
    by (rule LoopJumps_ResolveOpt) (use FxIfStatement that in auto)
  have f: "LoopJumps (snd (ResolveOpt ctx f)) a = LoopJumps ctx a" if "Some a \<noteq> Loop ctx" for ctx
    by (rule LoopJumps_ResolveOpt) (use FxIfStatement that in auto)
  show ?case using FxIfStatement.prems
    by (simp add: split_beta t f loops_parts split: option.split)
next
  case (FxWhileLoop this c code)
  have code: "LoopJumps (snd (ResolveOpt c1 code)) a = LoopJumps c1 a" if "Some a \<noteq> Loop c1" for c1
    by (rule LoopJumps_ResolveOpt) (use FxWhileLoop that in auto)
  show ?case using FxWhileLoop.prems
    by (simp add: split_beta Let_def code loops_parts split: option.split)
next
  case (FxDoWhileLoop this c code)
  have code: "LoopJumps (snd (ResolveOpt c1 code)) a = LoopJumps c1 a" if "Some a \<noteq> Loop c1" for c1
    by (rule LoopJumps_ResolveOpt) (use FxDoWhileLoop that in auto)
  show ?case using FxDoWhileLoop.prems
    by (simp add: split_beta Let_def code loops_parts split: option.split)
next
  case (FxForLoop this init c iter code)
  have init: "LoopJumps (snd (ResolveOpt c1 init)) a = LoopJumps c1 a" if "Some a \<noteq> Loop c1" for c1
    by (rule LoopJumps_ResolveOpt) (use FxForLoop that in auto)
  have iter: "LoopJumps (snd (ResolveOpt c1 iter)) a = LoopJumps c1 a" if "Some a \<noteq> Loop c1" for c1
    by (rule LoopJumps_ResolveOpt) (use FxForLoop that in auto)
  have code: "LoopJumps (snd (ResolveOpt c1 code)) a = LoopJumps c1 a" if "Some a \<noteq> Loop c1" for c1
    by (rule LoopJumps_ResolveOpt) (use FxForLoop that in auto)
  show ?case using FxForLoop.prems
    by (simp add: split_beta Let_def init iter code loops_parts split: option.split)
next
  case (FxJumpStatement j tok)
  then show ?case by (auto simp: loops_parts split: option.split)
qed (simp_all add: split_beta Let_def loops_parts split: option.split)

text \<open>A loop statement does not touch the jump list of any loop outside it.\<close>

lemma LoopJumps_loop:
  assumes "is_loop s" and "a \<notin> loop_addresses s"
  shows "LoopJumps (snd (ResolveStatement ctx s)) a = LoopJumps ctx a"
proof (cases s)
  case (FxWhileLoop this c code)
  have "LoopJumps (snd (ResolveOpt c1 code)) a = LoopJumps c1 a" if "Loop c1 = Some this" for c1
    using that assms FxWhileLoop by (intro LoopJumps_ResolveOpt LoopJumps_ResolveStatement) auto
  then show ?thesis using FxWhileLoop
    by (simp add: split_beta Let_def loops_parts split: option.split)
next
  case (FxDoWhileLoop this c code)
  have "LoopJumps (snd (ResolveOpt c1 code)) a = LoopJumps c1 a" if "Loop c1 = Some this" for c1
    using that assms FxDoWhileLoop by (intro LoopJumps_ResolveOpt LoopJumps_ResolveStatement) auto
  then show ?thesis using FxDoWhileLoop
    by (simp add: split_beta Let_def loops_parts split: option.split)
next
  case (FxForLoop this init c iter code)
  have "LoopJumps (snd (ResolveOpt c1 so)) a = LoopJumps c1 a"
    if "Loop c1 = Some this" "so = init \<or> so = iter \<or> so = code" for c1 so
    using that assms FxForLoop by (intro LoopJumps_ResolveOpt LoopJumps_ResolveStatement) auto
  then show ?thesis using FxForLoop
    by (simp add: split_beta Let_def loops_parts split: option.split)
qed (use assms in simp_all)

text \<open>Resolved with success while a loop is current, a statement adds to that loop's
  jump list its jump statements outside inner loops, in order, and nothing else.\<close>

lemma recorded_ResolveOpt:
  "(\<And>s ctx. s \<in> set_option so \<Longrightarrow> fst (ResolveStatement ctx s) \<noteq> None \<Longrightarrow> Loop ctx = Some l
        \<Longrightarrow> l \<notin> loop_addresses s
        \<Longrightarrow> LoopJumps (snd (ResolveStatement ctx s)) l = LoopJumps ctx l @ direct_jumps s)
     \<Longrightarrow> fst (ResolveOpt ctx so) \<noteq> None \<Longrightarrow> Loop ctx = Some l \<Longrightarrow> l \<notin> loop_addresses_opt so
     \<Longrightarrow> LoopJumps (snd (ResolveOpt ctx so)) l = LoopJumps ctx l @ direct_jumps_opt so"
  by (cases so) (auto simp: split_beta split: option.splits)

lemma recorded_ResolveSequence:
  "(\<And>s ctx. s \<in> set ss \<Longrightarrow> fst (ResolveStatement ctx s) \<noteq> None \<Longrightarrow> Loop ctx = Some l
        \<Longrightarrow> l \<notin> loop_addresses s
        \<Longrightarrow> LoopJumps (snd (ResolveStatement ctx s)) l = LoopJumps ctx l @ direct_jumps s)
     \<Longrightarrow> fst (ResolveSequence ctx ss) \<noteq> None \<Longrightarrow> Loop ctx = Some l \<Longrightarrow> l \<notin> loop_addresses_list ss
     \<Longrightarrow> LoopJumps (snd (ResolveSequence ctx ss)) l = LoopJumps ctx l @ direct_jumps_list ss"
proof (induction ss arbitrary: ctx)
  case Nil
  then show ?case by simp
next
  case (Cons s ss)
  from Cons.prems(2) have ok1: "fst (ResolveStatement ctx s) \<noteq> None"
    and ok2: "fst (ResolveSequence (snd (ResolveStatement ctx s)) ss) \<noteq> None"
    by (auto simp: split_beta split: option.splits)
  have one: "LoopJumps (snd (ResolveStatement ctx s)) l = LoopJumps ctx l @ direct_jumps s"
    using Cons.prems ok1 by auto
  have rest: "LoopJumps (snd (ResolveSequence (snd (ResolveStatement ctx s)) ss)) l
      = LoopJumps (snd (ResolveStatement ctx s)) l @ direct_jumps_list ss"
    using Cons.prems ok2 by (intro Cons.IH) auto
  show ?case using ok1 ok2 one rest by (auto simp: split_beta split: option.splits)
qed

lemma recorded_ResolveStatement:
  "fst (ResolveStatement ctx s) \<noteq> None \<Longrightarrow> Loop ctx = Some l \<Longrightarrow> l \<notin> loop_addresses s
     \<Longrightarrow> LoopJumps (snd (ResolveStatement ctx s)) l = LoopJumps ctx l @ direct_jumps s"
proof (induction s arbitrary: ctx)
  case (FxSequence es)
  have "LoopJumps (snd (ResolveSequence ctx es)) l = LoopJumps ctx l @ direct_jumps_list es"
    using FxSequence by (intro recorded_ResolveSequence) (auto simp: split_beta split: option.splits)
  then show ?case by (simp add: split_beta split: option.split)
next
  case (FxIfStatement c t f)
  define c1 where "c1 = snd (BoolCondition (snd (Resolve ctx c)) (the (fst (Resolve ctx c))))"
  define c2 where "c2 = snd (ResolveOpt c1 t)"
  from FxIfStatement.prems(1) have okt: "fst (ResolveOpt c1 t) \<noteq> None"
    and okf: "fst (ResolveOpt c2 f) \<noteq> None"
    by (auto simp: split_beta c1_def c2_def split: option.splits if_splits)
  have l1: "Loop c1 = Some l" and j1: "LoopJumps c1 = LoopJumps ctx"
    using FxIfStatement.prems(2) by (simp_all add: c1_def loops_parts)
  have t: "LoopJumps c2 l = LoopJumps c1 l @ direct_jumps_opt t"
    unfolding c2_def using FxIfStatement okt l1 by (intro recorded_ResolveOpt) auto
  have l2: "Loop c2 = Some l" using l1 by (simp add: c2_def)
  have f: "LoopJumps (snd (ResolveOpt c2 f)) l = LoopJumps c2 l @ direct_jumps_opt f"
    using FxIfStatement okf l2 by (intro recorded_ResolveOpt) auto
  show ?case using FxIfStatement.prems(1) t f j1
    by (auto simp: split_beta c1_def c2_def loops_parts split: option.splits if_splits)
next
  case (FxWhileLoop this c code)
  then show ?case using LoopJumps_loop [of "FxWhileLoop this c code" l ctx] by simp
next
  case (FxDoWhileLoop this c code)
  then show ?case using LoopJumps_loop [of "FxDoWhileLoop this c code" l ctx] by simp
next
  case (FxForLoop this init c iter code)
  then show ?case using LoopJumps_loop [of "FxForLoop this init c iter code" l ctx] by simp
next
  case (FxJumpStatement j tok)
  then show ?case by simp
qed (simp_all add: split_beta Let_def loops_parts split: option.split)


lemma recorded_FxWhileLoop:
  assumes "fst (ResolveStatement ctx (FxWhileLoop this c code)) \<noteq> None"
    and "this \<notin> loop_addresses_opt code"
  shows "LoopJumps (snd (ResolveStatement ctx (FxWhileLoop this c code))) this
           = LoopJumps ctx this @ direct_jumps_opt code"
proof -
  define c1 where "c1 = snd (Resolve (ctx\<lparr>Loop := Some this\<rparr>) c)"
  have l1: "Loop c1 = Some this" and j1: "LoopJumps c1 = LoopJumps ctx"
    by (simp_all add: c1_def)
  from assms(1) have ok: "fst (ResolveOpt c1 code) \<noteq> None"
    by (auto simp: split_beta Let_def c1_def split: option.splits)
  have "LoopJumps (snd (ResolveOpt c1 code)) this = LoopJumps c1 this @ direct_jumps_opt code"
    using ok l1 assms(2) by (intro recorded_ResolveOpt recorded_ResolveStatement) auto
  then show ?thesis using assms(1) j1
    by (auto simp: split_beta Let_def c1_def loops_parts split: option.splits)
qed

lemma recorded_FxDoWhileLoop:
  assumes "fst (ResolveStatement ctx (FxDoWhileLoop this c code)) \<noteq> None"
    and "this \<notin> loop_addresses_opt code"
  shows "LoopJumps (snd (ResolveStatement ctx (FxDoWhileLoop this c code))) this
           = LoopJumps ctx this @ direct_jumps_opt code"
proof -
  define c1 where "c1 = snd (Resolve (ctx\<lparr>Loop := Some this\<rparr>) c)"
  have l1: "Loop c1 = Some this" and j1: "LoopJumps c1 = LoopJumps ctx"
    by (simp_all add: c1_def)
  from assms(1) have ok: "fst (ResolveOpt c1 code) \<noteq> None"
    by (auto simp: split_beta Let_def c1_def split: option.splits)
  have "LoopJumps (snd (ResolveOpt c1 code)) this = LoopJumps c1 this @ direct_jumps_opt code"
    using ok l1 assms(2) by (intro recorded_ResolveOpt recorded_ResolveStatement) auto
  then show ?thesis using assms(1) j1
    by (auto simp: split_beta Let_def c1_def loops_parts split: option.splits)
qed

lemma recorded_FxForLoop:
  assumes "fst (ResolveStatement ctx (FxForLoop this init c iter code)) \<noteq> None"
    and "this \<notin> loop_addresses_opt init \<union> loop_addresses_opt iter \<union> loop_addresses_opt code"
  shows "LoopJumps (snd (ResolveStatement ctx (FxForLoop this init c iter code))) this
           = LoopJumps ctx this @ direct_jumps_opt init @ direct_jumps_opt iter
               @ direct_jumps_opt code"
proof -
  define c0 where "c0 = ctx\<lparr>Loop := Some this\<rparr>"
  define c1 where "c1 = snd (ResolveOpt c0 init)"
  define c2 where "c2 = (case c of None \<Rightarrow> c1 | Some e \<Rightarrow> snd (Resolve c1 e))"
  define c3 where "c3 = snd (ResolveOpt c2 iter)"
  have rec: "LoopJumps (snd (ResolveOpt k so)) this = LoopJumps k this @ direct_jumps_opt so"
    if "fst (ResolveOpt k so) \<noteq> None" "Loop k = Some this" "this \<notin> loop_addresses_opt so"
    for k so
    using that by (intro recorded_ResolveOpt recorded_ResolveStatement) auto
  have l0: "Loop c0 = Some this" and j0: "LoopJumps c0 = LoopJumps ctx" by (simp_all add: c0_def)
  have l1: "Loop c1 = Some this" using l0 by (simp add: c1_def)
  have l2: "Loop c2 = Some this" and j2: "LoopJumps c2 = LoopJumps c1"
    using l1 by (simp_all add: c2_def split: option.split)
  have l3: "Loop c3 = Some this" using l2 by (simp add: c3_def)
  from assms(1) have ok1: "fst (ResolveOpt c0 init) \<noteq> None"
    and ok3: "fst (ResolveOpt c2 iter) \<noteq> None"
    and ok4: "fst (ResolveOpt c3 code) \<noteq> None"
    by (auto simp: split_beta Let_def c0_def c1_def c2_def c3_def split: option.splits)
  have r1: "LoopJumps c1 this = LoopJumps c0 this @ direct_jumps_opt init"
    unfolding c1_def using ok1 l0 assms(2) by (intro rec) auto
  have r3: "LoopJumps c3 this = LoopJumps c2 this @ direct_jumps_opt iter"
    unfolding c3_def using ok3 l2 assms(2) by (intro rec) auto
  have r4: "LoopJumps (snd (ResolveOpt c3 code)) this = LoopJumps c3 this @ direct_jumps_opt code"
    using ok4 l3 assms(2) by (intro rec) auto
  show ?thesis using assms(1) r1 r3 r4 j0 j2
    by (auto simp: split_beta Let_def c0_def c1_def c2_def c3_def loops_parts
        split: option.splits)
qed

text \<open>
  Claim C6. A break or continue statement resolved while no loop is current is a failure
  with a fatal error. Resolved while a loop is current, it is recorded on that loop, the
  innermost one, and on no other. Every statement leaves \<open>ctx.Loop\<close> as it found it, so
  the context is back at the previous innermost loop when a loop has finished resolving;
  and a loop statement changes the jump list of no loop outside itself, so a jump inside
  an inner loop is never recorded on the outer loop. A while, do-while or for loop is the
  current loop while its children are resolved, whichever loop was current before: when
  it resolves with success, its own jump list has grown by exactly the jump statements of
  its children that are outside inner loops. The same holds for any statement and the
  loop that is current when it is resolved. Loop statements are taken to have addresses
  of their own.
\<close>

theorem jump_binds_to_innermost_loop:
  "(Loop ctx = None \<longrightarrow>
      ResolveStatement ctx (FxJumpStatement j tok)
        = (None, Message ctx MSG_ERROR ''%s outside of a loop''))
   \<and> (\<forall>l. Loop ctx = Some l \<longrightarrow>
      ResolveStatement ctx (FxJumpStatement j tok)
        = (Some (FxJumpStatement j tok),
           ctx\<lparr>LoopJumps := (LoopJumps ctx)(l := LoopJumps ctx l @ [(j, tok)])\<rparr>))
   \<and> Loop (snd (ResolveStatement ctx s)) = Loop ctx
   \<and> (is_loop s \<and> a \<notin> loop_addresses s \<longrightarrow>
        LoopJumps (snd (ResolveStatement ctx s)) a = LoopJumps ctx a)
   \<and> (fst (ResolveStatement ctx (FxWhileLoop this c code)) \<noteq> None
        \<and> this \<notin> loop_addresses_opt code \<longrightarrow>
        LoopJumps (snd (ResolveStatement ctx (FxWhileLoop this c code))) this
          = LoopJumps ctx this @ direct_jumps_opt code)
   \<and> (fst (ResolveStatement ctx (FxDoWhileLoop this c code)) \<noteq> None
        \<and> this \<notin> loop_addresses_opt code \<longrightarrow>
        LoopJumps (snd (ResolveStatement ctx (FxDoWhileLoop this c code))) this
          = LoopJumps ctx this @ direct_jumps_opt code)
   \<and> (fst (ResolveStatement ctx (FxForLoop this init cond iter code)) \<noteq> None
        \<and> this \<notin> loop_addresses_opt init \<union> loop_addresses_opt iter \<union> loop_addresses_opt code \<longrightarrow>
        LoopJumps (snd (ResolveStatement ctx (FxForLoop this init cond iter code))) this
          = LoopJumps ctx this @ direct_jumps_opt init @ direct_jumps_opt iter
              @ direct_jumps_opt code)
   \<and> (fst (ResolveStatement ctx s) \<noteq> None \<and> Loop ctx = Some cur \<and> cur \<notin> loop_addresses s \<longrightarrow>
        LoopJumps (snd (ResolveStatement ctx s)) cur = LoopJumps ctx cur @ direct_jumps s)"
proof (intro conjI impI allI)
  assume "fst (ResolveStatement ctx (FxWhileLoop this c code)) \<noteq> None
        \<and> this \<notin> loop_addresses_opt code"
  then show "LoopJumps (snd (ResolveStatement ctx (FxWhileLoop this c code))) this
          = LoopJumps ctx this @ direct_jumps_opt code"
    using recorded_FxWhileLoop by blast
next
  assume "fst (ResolveStatement ctx (FxDoWhileLoop this c code)) \<noteq> None
        \<and> this \<notin> loop_addresses_opt code"
  then show "LoopJumps (snd (ResolveStatement ctx (FxDoWhileLoop this c code))) this
          = LoopJumps ctx this @ direct_jumps_opt code"
    using recorded_FxDoWhileLoop by blast
next
  assume "fst (ResolveStatement ctx (FxForLoop this init cond iter code)) \<noteq> None
        \<and> this \<notin> loop_addresses_opt init \<union> loop_addresses_opt iter \<union> loop_addresses_opt code"
  then show "LoopJumps (snd (ResolveStatement ctx (FxForLoop this init cond iter code))) this
          = LoopJumps ctx this @ direct_jumps_opt init @ direct_jumps_opt iter
              @ direct_jumps_opt code"
    using recorded_FxForLoop by blast
next
  assume "fst (ResolveStatement ctx s) \<noteq> None \<and> Loop ctx = Some cur \<and> cur \<notin> loop_addresses s"
  then show "LoopJumps (snd (ResolveStatement ctx s)) cur = LoopJumps ctx cur @ direct_jumps s"
    using recorded_ResolveStatement by blast
qed (simp_all add: LoopJumps_loop)

theorem jump_binds_to_innermost_loop_witness:
  "Loop (snd (ResolveStatement (ctx_empty\<lparr>Loop := Some 1\<rparr>)
       (FxWhileLoop 2 (local_var TypeBool 0) (Some (FxJumpStatement 10 TK_Break))))) = Some 1
   \<and> LoopJumps (snd (ResolveStatement (ctx_empty\<lparr>Loop := Some 1\<rparr>)
       (FxWhileLoop 2 (local_var TypeBool 0) (Some (FxJumpStatement 10 TK_Break))))) 1 = []
   \<and> LoopJumps (snd (ResolveStatement (ctx_empty\<lparr>Loop := Some 1\<rparr>)
       (FxWhileLoop 2 (local_var TypeBool 0) (Some (FxJumpStatement 10 TK_Break))))) 2 = [(10, TK_Break)]
   \<and> ResolveStatement ctx_empty (FxJumpStatement 10 TK_Break)
       = (None, Message ctx_empty MSG_ERROR ''%s outside of a loop'')
   \<and> fst (ResolveStatement ctx_empty nested_loops) = Some nested_loops
   \<and> Loop (snd (ResolveStatement ctx_empty nested_loops)) = None
   \<and> LoopJumps (snd (ResolveStatement ctx_empty nested_loops)) 1
       = [(10, TK_Break), (12, TK_Continue)]
   \<and> LoopJumps (snd (ResolveStatement ctx_empty nested_loops)) 2 = [(11, TK_Continue)]
   \<and> LoopJumps (snd (ResolveStatement ctx_empty nested_loops)) 3 = [(13, TK_Break)]"
  using jump_binds_to_innermost_loop [of "ctx_empty\<lparr>Loop := Some 1\<rparr>" 11 TK_Continue
      "FxWhileLoop 2 (local_var TypeBool 0) (Some (FxJumpStatement 10 TK_Break))" 1
      2 "local_var TypeBool 0" "Some (FxJumpStatement 10 TK_Break)" None None None 1]
    jump_binds_to_innermost_loop [of ctx_empty 10 TK_Break nested_loops 0
      1 "local_var TypeBool 0"
      "Some (FxSequence
          [FxJumpStatement 10 TK_Break,
           FxWhileLoop 2 (local_var TypeBool 0) (Some (FxJumpStatement 11 TK_Continue)),
           FxDoWhileLoop 3 (local_var TypeBool 0)
             (Some (FxIfStatement (local_var TypeBool 1) (Some (FxJumpStatement 13 TK_Break)) None)),
           FxJumpStatement 12 TK_Continue])" None None None 0]
  by (simp add: nested_loops_def ctx_empty_def local_var_def FxWhileLoop_Resolved_def
      FxDoWhileLoop_Resolved_def FxForLoop_Resolved_def FxIfStatement_Resolved_def
      BoolCondition_def)


section \<open>Integer casts of constant floats\<close>

lemma truncate_double_truncation: "truncation_of d (truncate_double d)"
proof (cases "d < 0")
  case True
  define m :: rat where "m = of_int \<lfloor>- d\<rfloor>"
  have m: "0 \<le> m" "m \<le> - d" "- d < m + 1"
    using True unfolding m_def by (simp, linarith, linarith)
  have "0 \<le> m * (- d)" using m(1) True by (intro mult_nonneg_nonneg) simp_all
  then have "\<bar>- m\<bar> \<le> \<bar>d\<bar> \<and> \<bar>d\<bar> < \<bar>- m\<bar> + 1 \<and> 0 \<le> (- m) * d"
    using m True by simp
  then show ?thesis using True
    by (simp add: truncation_of_def truncate_double_def m_def)
next
  case False
  define m :: rat where "m = of_int \<lfloor>d\<rfloor>"
  have m: "0 \<le> m" "m \<le> d" "d < m + 1"
    using False unfolding m_def by (simp, linarith, linarith)
  have "0 \<le> m * d" using m(1) False by (intro mult_nonneg_nonneg) simp_all
  then have "\<bar>m\<bar> \<le> \<bar>d\<bar> \<and> \<bar>d\<bar> < \<bar>m\<bar> + 1 \<and> 0 \<le> m * d"
    using m False by simp
  then show ?thesis using False
    by (simp add: truncation_of_def truncate_double_def m_def)
qed

lemma to_int32_id: "- 2147483648 \<le> x \<Longrightarrow> x \<le> 2147483647 \<Longrightarrow> to_int32 x = x"
  by (simp add: to_int32_def)

lemma truncate_double_range:
  assumes "- 2147483649 < d" "d < 2147483648"
  shows "- 2147483648 \<le> truncate_double d \<and> truncate_double d \<le> 2147483647"
proof (cases "d < 0")
  case True
  have "\<lfloor>- d\<rfloor> \<le> 2147483648" using assms(1) by (simp add: floor_le_iff)
  moreover have "0 \<le> \<lfloor>- d\<rfloor>" using True by simp
  moreover have "truncate_double d = - \<lfloor>- d\<rfloor>" using True by (simp add: truncate_double_def)
  ultimately show ?thesis by linarith
next
  case False
  have "\<lfloor>d\<rfloor> \<le> 2147483647" using assms(2) by (simp add: floor_le_iff)
  moreover have "0 \<le> \<lfloor>d\<rfloor>" using False by simp
  moreover have "truncate_double d = \<lfloor>d\<rfloor>" using False by (simp add: truncate_double_def)
  ultimately show ?thesis by linarith
qed

text \<open>
  Claim C7. An integer cast whose operand resolves to a constant float (with a value whose
  integer part fits 32 bits) folds to the integer constant obtained by truncation; a
  truncation warning is printed exactly when the no-warn flag is off and the value
  changes under truncation; nothing else is printed and resolution succeeds.
\<close>

theorem FxIntCast_constant_float:
  assumes "Resolve ctx basex = (Some (FxConstant vt v), ctx1)"
    and "GetRegType vt = REGT_FLOAT" and "GetRegType (Type v) = REGT_FLOAT"
    and "- 2147483649 < FloatVal v" and "FloatVal v < 2147483648"
  shows "Resolve ctx (FxIntCast t basex NoWarn)
           = (Some (FxConstant_int (truncate_double (FloatVal v))),
              if \<not> NoWarn \<and> of_int (truncate_double (FloatVal v)) \<noteq> FloatVal v
              then Message ctx1 MSG_WARNING ''Truncation of floating point constant %f''
              else ctx1)
         \<and> truncation_of (FloatVal v) (truncate_double (FloatVal v))"
proof -
  have "int_of_double (FloatVal v) = truncate_double (FloatVal v)"
    using truncate_double_range [OF assms(4,5)] by (simp add: int_of_double_def to_int32_id)
  then show ?thesis using assms(1-3)
    by (simp add: FxIntCast_Resolved_def GetInt_def GetFloat_def Let_def REGT_defs
        double_of_int_def truncate_double_truncation)
qed

lemma floor_39_10: "\<lfloor>39 / 10 :: rat\<rfloor> = 3"
  by (simp add: floor_eq_iff)

theorem FxIntCast_constant_float_witness:
  "Resolve ctx_empty (FxIntCast NoType (FxConstant_float (39 / 10)) False)
     = (Some (FxConstant_int 3),
        Message ctx_empty MSG_WARNING ''Truncation of floating point constant %f'')
   \<and> Resolve ctx_empty (FxIntCast NoType (FxConstant_float (39 / 10)) True)
     = (Some (FxConstant_int 3), ctx_empty)
   \<and> Resolve ctx_empty (FxIntCast NoType (FxConstant_float 4) False)
     = (Some (FxConstant_int 4), ctx_empty)"
  using FxIntCast_constant_float [of ctx_empty "FxConstant_float (39 / 10)" TypeFloat64
      "ExpVal TypeFloat64 0 (39 / 10)" ctx_empty NoType False]
    FxIntCast_constant_float [of ctx_empty "FxConstant_float (39 / 10)" TypeFloat64
      "ExpVal TypeFloat64 0 (39 / 10)" ctx_empty NoType True]
    FxIntCast_constant_float [of ctx_empty "FxConstant_float 4" TypeFloat64
      "ExpVal TypeFloat64 0 4" ctx_empty NoType False]
  by (simp add: FxConstant_float_def REGT_defs truncate_double_def floor_39_10)


section \<open>Constant sides of the logical operators\<close>

text \<open>
  Claim C1. \<open>FxBinaryLogical::Resolve\<close> at \<open>false && x\<close>, for a boolean local variable
  \<open>x\<close>, and at \<open>true && true\<close>: the first resolves to the constant \<open>true\<close>, the second to
  the constant \<open>false\<close>.
\<close>

theorem FxBinaryLogical_false_and:
  "Resolve ctx (FxBinaryLogical vt TK_AndAnd (FxConstant_bool False)
        (FxLocalVariable TypeBool var areq))
     = (Some (FxConstant_bool True), ctx)
   \<and> Resolve ctx (FxBinaryLogical vt TK_AndAnd (FxConstant_bool True) (FxConstant_bool True))
     = (Some (FxConstant_bool False), ctx)"
  by (simp add: FxBinaryLogical_Resolved_def FxConstant_bool_def b_of_def GetBool_def REGT_defs)


section \<open>Promotion in the three-way comparison\<close>

text \<open>
  Claim C4. \<open>FxLtGtEq::Resolve\<close> at \<open>f <>= i\<close> for a float local variable \<open>f\<close> and an
  integer local variable \<open>i\<close>: the right operand of the rewritten node is an unresolved
  float cast of \<open>f\<close>; \<open>i\<close> is gone and \<open>f\<close> occurs twice.
\<close>

theorem FxLtGtEq_float_int:
  "Resolve ctx (FxLtGtEq vt (FxLocalVariable TypeFloat64 f a1) (FxLocalVariable TypeSInt32 i a2))
     = (Some (FxLtGtEq TypeFloat64 (FxLocalVariable TypeFloat64 f a1)
                (FxFloatCast TypeFloat64 (FxLocalVariable TypeFloat64 f a1))), ctx)"
  by (simp add: FxLtGtEq_Resolved_def ResolveLR_def IsNumeric_def REGT_defs)


section \<open>The lowering of clamp\<close>

text \<open>
  Claim C10. In a class with no member function of that name, a call \<open>clamp(x, lo, hi)\<close>
  is replaced by a single \<open>min\<close> node over the original argument list \<open>x, lo, hi\<close>, and
  resolves as that node does; the \<open>max\<close> node over the first two arguments is not part of
  it.
\<close>

theorem clamp_is_min_of_arguments:
  assumes "Class ctx \<noteq> None" and "FindClassMemberFunction ctx NAME_Clamp = NotFound"
  shows "FxFunctionCall_builtin ctx NAME_Clamp [x, lo, hi]
           = (Some (FxMinMax NoType NAME_Min [x, lo, hi]), ctx)
         \<and> Resolve ctx (FxFunctionCall vt NAME_Clamp [x, lo, hi])
           = Resolve ctx (FxMinMax NoType NAME_Min [x, lo, hi])"
proof -
  obtain cls where "Class ctx = Some cls" using assms(1) by auto
  then show ?thesis using assms(2)
    by (simp add: FxFunctionCall_builtin_def CheckArgSize_def Let_def del: Resolve.simps(12))
qed


theorem clamp_is_min_of_arguments_witness:
  "Resolve ctx_empty (FxFunctionCall NoType NAME_Clamp
       [FxConstant_int 5, FxConstant_int 1, FxConstant_int 3])
     = (Some (FxConstant_int 1), ctx_empty)
   \<and> Resolve ctx_empty (FxFunctionCall NoType NAME_Clamp
       [local_var TypeSInt32 0, FxConstant_int 1, FxConstant_int 3])
     = (Some (FxMinMax TypeSInt32 NAME_Min [local_var TypeSInt32 0, FxConstant_int 1]), ctx_empty)"
  using clamp_is_min_of_arguments [of ctx_empty "FxConstant_int 5" "FxConstant_int 1" "FxConstant_int 3" NoType]
    clamp_is_min_of_arguments [of ctx_empty "local_var TypeSInt32 0" "FxConstant_int 1" "FxConstant_int 3" NoType]
  by (simp add: ctx_empty_def local_var_def FxConstant_int_def FxMinMax_Resolved_def MinMax_fold_def
      FxConstant_val_def REGT_defs Let_def)


section \<open>Facts about the code builder\<close>

text \<open>Constant pools, the allocator and \<open>Free\<close> leave the instruction stream alone, and a
  register that the allocator hands out is not in use.\<close>

lemma first_free_numeral [simp]:
  "first_free used n (numeral k) =
     (if n \<in> set used then first_free used (Suc n) (pred_numeral k) else n)"
  by (simp add: numeral_eq_Suc)

lemmas emit_defs = GetConstantInt_def GetConstantFloat_def GetConstantAddress_def
  ExpEmit_new_def ExpEmit_reg_def ExpEmit_nil_def RegGet_def RegReturn_def Free_def
  EmitOp_def BuildEmit_def BackpatchToHere_def Backpatch_def EmitLoadInt_def EmitRetInt_def
  EmitError_def regtype_konst_def is_cast_kludge_def Let_def REGT_defs

lemma Code_GetConstantInt [simp]: "Code (snd (GetConstantInt b v)) = Code b"
  by (simp add: GetConstantInt_def split: option.split)

lemma Code_GetConstantFloat [simp]: "Code (snd (GetConstantFloat b v)) = Code b"
  by (simp add: GetConstantFloat_def split: option.split)

lemma Code_GetConstantAddress [simp]: "Code (snd (GetConstantAddress b p t)) = Code b"
  by (simp add: GetConstantAddress_def split: option.split)

lemma Code_ExpEmit_new [simp]: "Code (snd (ExpEmit_new b t)) = Code b"
  by (simp add: ExpEmit_new_def RegGet_def Let_def)

lemma Code_Free [simp]: "Code (Free e b) = Code b"
  by (simp add: Free_def RegReturn_def)

lemma Code_EmitOp [simp]: "Code (EmitOp b opc args) = Code b @ [(opc, args)]"
  by (simp add: EmitOp_def BuildEmit_def)

lemma Registers_EmitOp [simp]: "Registers (EmitOp b opc args) = Registers b"
  by (simp add: EmitOp_def BuildEmit_def)

lemma first_free_fresh:
  "card (set used \<inter> {n..}) \<le> fuel \<Longrightarrow> first_free used n fuel \<notin> set used"
proof (induction fuel arbitrary: n)
  case 0
  then have "set used \<inter> {n..} = {}" by simp
  then show ?case by auto
next
  case (Suc fuel)
  show ?case
  proof (cases "n \<in> set used")
    case True
    have eq: "set used \<inter> {n..} = insert n (set used \<inter> {Suc n..})"
      using True by auto
    have "card (set used \<inter> {n..}) = Suc (card (set used \<inter> {Suc n..}))"
      unfolding eq by (subst card_insert_disjoint) auto
    with Suc.prems have "card (set used \<inter> {Suc n..}) \<le> fuel" by simp
    from Suc.IH [OF this] True show ?thesis by simp
  next
    case False
    then show ?thesis by simp
  qed
qed

lemma RegNum_ExpEmit_new_fresh: "RegNum (fst (ExpEmit_new b t)) \<notin> set (Registers b t)"
proof -
  have "card (set (Registers b t) \<inter> {0..}) \<le> length (Registers b t)"
    by (metis card_length card_mono List.finite_set Int_lower1 le_trans)
  from first_free_fresh [OF this] show ?thesis
    by (simp add: ExpEmit_new_def RegGet_def Let_def)
qed

lemma Registers_ExpEmit_new:
  "Registers (snd (ExpEmit_new b t)) t = Registers b t @ [RegNum (fst (ExpEmit_new b t))]"
  by (simp add: ExpEmit_new_def RegGet_def Let_def)

lemma ExpEmit_new_twice_distinct:
  "RegNum (fst (ExpEmit_new (EmitOp (snd (ExpEmit_new b t)) opc args) t))
     \<noteq> RegNum (fst (ExpEmit_new b t))"
  using RegNum_ExpEmit_new_fresh [of "EmitOp (snd (ExpEmit_new b t)) opc args" t]
  by (simp add: Registers_ExpEmit_new)


section \<open>Division by a constant zero\<close>

text \<open>
  Claim C2, at an input. \<open>x / 0\<close> for an integer local variable \<open>x\<close> and the integer
  constant \<open>0\<close> resolves without a message to the division node itself, and the node
  emits the division instruction with a constant right operand.
\<close>

theorem division_by_constant_zero_counterexample:
  "Resolve ctx_empty (FxMulDiv NoType TK_Div (local_var TypeSInt32 0) (FxConstant_int 0))
     = (Some (FxMulDiv TypeSInt32 TK_Div (local_var TypeSInt32 0) (FxConstant_int 0)), ctx_empty)
   \<and> Code (snd (Emit build_locals
        (FxMulDiv TypeSInt32 TK_Div (local_var TypeSInt32 0) (FxConstant_int 0))))
     = [(OP_DIV_RK, [4, 0, 0])]"
  by (simp add: build_locals_def local_var_def emit_defs FxConstant_int_def
      FxMulDiv_Resolved_def ResolveLR_def IsNumeric_def IsNumericType_def Promote_def)

text \<open>
  Claim C2, restricted to two constant operands. When both operands of a division or a
  modulo resolve to numeric constants and the right one is zero, as an integer or as a
  float, \<open>FxMulDiv::Resolve\<close> reports the error \<open>Division by 0\<close> and fails, so that no node
  is left to emit. The right constant carries its value under its own type, as every
  constructor of \<open>FxConstant\<close> makes it.
\<close>

theorem FxMulDiv_constant_zero:
  assumes "Resolve ctx left = (Some l, ctx1)" and "Resolve ctx1 right = (Some r, ctx2)"
    and "isConstant l" and "isConstant r" and "IsNumeric l" and "IsNumeric r"
    and "Type (GetValue r) = ValueType r"
    and "oper = TK_Div \<or> oper = TK_Mod"
    and "GetFloat (GetValue r) = 0"
  shows "Resolve ctx (FxMulDiv vt oper left right)
           = (None, Message ctx2 MSG_ERROR ''Division by 0'')"
proof -
  have num: "IsNumericType (ResolveLR vt l r)"
    using assms(5,6) by (auto simp: ResolveLR_def IsNumeric_def IsNumericType_def REGT_defs)
  have int0: "GetRegType (ResolveLR vt l r) \<noteq> REGT_FLOAT \<Longrightarrow> GetInt (GetValue r) = 0"
    using assms(5,6,7,9)
    by (auto simp: ResolveLR_def IsNumeric_def GetInt_def GetFloat_def double_of_int_def
        REGT_defs Let_def split: if_splits)
  show ?thesis using assms(1-4,8,9) num int0
    by (auto simp: FxMulDiv_Resolved_def Let_def)
qed

theorem FxMulDiv_constant_zero_witness:
  "Resolve ctx_empty (FxMulDiv NoType TK_Div (FxConstant_int 1) (FxConstant_int 0))
     = (None, Message ctx_empty MSG_ERROR ''Division by 0'')
   \<and> Resolve ctx_empty (FxMulDiv NoType TK_Mod (FxConstant_float (3 / 2)) (FxConstant_float 0))
     = (None, Message ctx_empty MSG_ERROR ''Division by 0'')"
  using FxMulDiv_constant_zero [of ctx_empty "FxConstant_int 1" "FxConstant_int 1" ctx_empty
      "FxConstant_int 0" "FxConstant_int 0" ctx_empty TK_Div NoType]
    FxMulDiv_constant_zero [of ctx_empty "FxConstant_float (3 / 2)" "FxConstant_float (3 / 2)"
      ctx_empty "FxConstant_float 0" "FxConstant_float 0" ctx_empty TK_Mod NoType]
  by (simp add: FxConstant_int_def FxConstant_float_def IsNumeric_def GetFloat_def
      double_of_int_def REGT_defs)


section \<open>Registers of the three-way comparison\<close>

text \<open>
  Claim C3. The statement \<open>(x + y) <>= (z + w)\<close> over four integer local variables in
  registers 0 to 3: when the statement has been emitted the integer registers 4 and 5,
  which held the two sums, are still in use. \<open>FxLtGtEq::Emit\<close> takes three registers and
  the statement gives back one. The statement \<open>(x + y) == (z + w)\<close> leaves only the
  registers of the variables in use.
\<close>

theorem FxLtGtEq_leaks_operand_registers:
  "Registers (snd (FxSequence_Emit build_locals
      [FxLtGtEq TypeSInt32
         (FxAddSub TypeSInt32 TK_Plus (local_var TypeSInt32 0) (local_var TypeSInt32 1))
         (FxAddSub TypeSInt32 TK_Plus (local_var TypeSInt32 2) (local_var TypeSInt32 3))]))
     REGT_INT = [0, 1, 2, 3, 4, 5]
   \<and> Registers (snd (FxSequence_Emit build_locals
      [FxCompareEq TypeBool TK_Eq
         (FxAddSub TypeSInt32 TK_Plus (local_var TypeSInt32 0) (local_var TypeSInt32 1))
         (FxAddSub TypeSInt32 TK_Plus (local_var TypeSInt32 2) (local_var TypeSInt32 3))]))
     REGT_INT = [0, 1, 2, 3]"
  by (simp add: build_locals_def local_var_def emit_defs)


section \<open>Increment and decrement\<close>

text \<open>
  Claim C5, at an input. The address of a member of \<open>self\<close> at offset 0 is emitted as a
  descriptor with the target flag clear, and its pre-increment emits load, add, store;
  the address of a local variable is emitted with the target flag set, and its
  pre-increment emits the one add on the variable's register.
\<close>

theorem incr_decr_counterexample:
  "\<not> Target (fst (Emit build_locals (member_ref TypeSInt32 0)))
   \<and> Code (snd (Emit build_locals
        (FxPreIncrDecr TypeSInt32 TK_Incr (member_ref TypeSInt32 0) False True)))
     = [(OP_LW, [4, 0, 0]), (OP_ADD_RK, [4, 4, 1]), (OP_SW, [0, 4, 0])]
   \<and> Target (fst (Emit build_locals (local_ref TypeSInt32 0)))
   \<and> Code (snd (Emit build_locals
        (FxPreIncrDecr TypeSInt32 TK_Incr (local_ref TypeSInt32 0) False True)))
     = [(OP_ADD_RK, [0, 0, 1])]"
  by (simp add: build_locals_def local_ref_def member_ref_def emit_defs)

text \<open>
  Claim C5 with the flag as the code reads it. Let the operand be emitted as \<open>pointer\<close>.
  When \<open>pointer\<close> has the target flag set, a pre-increment or pre-decrement emits after
  the operand's code the one instruction that adds or subtracts one in the register of
  \<open>pointer\<close>, and returns \<open>pointer\<close>. When the flag is clear, a pre-increment emits load,
  modify, store against the address in \<open>pointer\<close> and returns the register that holds the
  new value (the address, if the address was requested); a post-increment emits load,
  modify, store, where the modify instruction writes another register than the loaded
  one, and returns the loaded register.
\<close>

theorem incr_decr_emission:
  assumes "GetConstantInt build 0 = (zero, b0)" and "Emit b0 base = (pointer, b1)"
  shows "(Target pointer \<longrightarrow>
            fst (Emit build (FxPreIncrDecr vt tok base areq awr)) = pointer
            \<and> (\<exists>k. Code (snd (Emit build (FxPreIncrDecr vt tok base areq awr)))
                    = Code b1 @ [(incr_op vt tok,
                                  [int (RegNum pointer), int (RegNum pointer), int k])]))
       \<and> (\<not> Target pointer \<longrightarrow>
            (\<exists>v k. fst (Emit build (FxPreIncrDecr vt tok base areq awr))
                      = (if areq then pointer else v)
                 \<and> Code (snd (Emit build (FxPreIncrDecr vt tok base areq awr)))
                    = Code b1 @ [(GetLoadOp vt, [int (RegNum v), int (RegNum pointer), int zero]),
                                 (incr_op vt tok, [int (RegNum v), int (RegNum v), int k]),
                                 (GetStoreOp vt, [int (RegNum pointer), int (RegNum v), int zero])]))
       \<and> (\<not> Target pointer \<longrightarrow>
            (\<exists>out r k. fst (Emit build (FxPostIncrDecr vt tok base)) = out
                 \<and> r \<noteq> RegNum out
                 \<and> Code (snd (Emit build (FxPostIncrDecr vt tok base)))
                    = Code b1 @ [(GetLoadOp vt, [int (RegNum out), int (RegNum pointer), int zero]),
                                 (incr_op vt tok, [int r, int (RegNum out), int k]),
                                 (GetStoreOp vt, [int (RegNum pointer), int r, int zero])]))"
proof (intro conjI impI)
  assume t: "Target pointer"
  show "fst (Emit build (FxPreIncrDecr vt tok base areq awr)) = pointer"
    using assms t by (simp add: Let_def split_beta)
  show "\<exists>k. Code (snd (Emit build (FxPreIncrDecr vt tok base areq awr)))
               = Code b1 @ [(incr_op vt tok, [int (RegNum pointer), int (RegNum pointer), int k])]"
    using assms t by (simp add: Let_def split_beta incr_op_def)
next
  assume t: "\<not> Target pointer"
  define v where "v = fst (ExpEmit_new b1 (GetRegType vt))"
  define b where "b = EmitOp (snd (ExpEmit_new b1 (GetRegType vt))) (GetLoadOp vt)
                        [int (RegNum v), int (RegNum pointer), int zero]"
  define k where "k = (if GetRegType vt = REGT_INT then fst (GetConstantInt b 1)
                       else fst (GetConstantFloat b 1))"
  have "fst (Emit build (FxPreIncrDecr vt tok base areq awr)) = (if areq then pointer else v)
      \<and> Code (snd (Emit build (FxPreIncrDecr vt tok base areq awr)))
          = Code b1 @ [(GetLoadOp vt, [int (RegNum v), int (RegNum pointer), int zero]),
                       (incr_op vt tok, [int (RegNum v), int (RegNum v), int k]),
                       (GetStoreOp vt, [int (RegNum pointer), int (RegNum v), int zero])]"
    using assms t by (simp add: Let_def split_beta incr_op_def v_def b_def k_def)
  then show "\<exists>v k. fst (Emit build (FxPreIncrDecr vt tok base areq awr))
                      = (if areq then pointer else v)
                 \<and> Code (snd (Emit build (FxPreIncrDecr vt tok base areq awr)))
                    = Code b1 @ [(GetLoadOp vt, [int (RegNum v), int (RegNum pointer), int zero]),
                                 (incr_op vt tok, [int (RegNum v), int (RegNum v), int k]),
                                 (GetStoreOp vt, [int (RegNum pointer), int (RegNum v), int zero])]"
    by blast
  define assign where "assign = fst (ExpEmit_new b (GetRegType vt))"
  define k' where "k' = (if GetRegType vt = REGT_INT
                         then fst (GetConstantInt (snd (ExpEmit_new b (GetRegType vt))) 1)
                         else fst (GetConstantFloat (snd (ExpEmit_new b (GetRegType vt))) 1))"
  have ne: "RegNum assign \<noteq> RegNum v"
    unfolding assign_def b_def v_def by (rule ExpEmit_new_twice_distinct)
  have "fst (Emit build (FxPostIncrDecr vt tok base)) = v
      \<and> Code (snd (Emit build (FxPostIncrDecr vt tok base)))
          = Code b1 @ [(GetLoadOp vt, [int (RegNum v), int (RegNum pointer), int zero]),
                       (incr_op vt tok, [int (RegNum assign), int (RegNum v), int k']),
                       (GetStoreOp vt, [int (RegNum pointer), int (RegNum assign), int zero])]"
    using assms t by (simp add: Let_def split_beta incr_op_def v_def b_def k'_def assign_def)
  with ne show "\<exists>out r k. fst (Emit build (FxPostIncrDecr vt tok base)) = out
                 \<and> r \<noteq> RegNum out
                 \<and> Code (snd (Emit build (FxPostIncrDecr vt tok base)))
                    = Code b1 @ [(GetLoadOp vt, [int (RegNum out), int (RegNum pointer), int zero]),
                                 (incr_op vt tok, [int r, int (RegNum out), int k]),
                                 (GetStoreOp vt, [int (RegNum pointer), int r, int zero])]"
    by blast
qed

theorem incr_decr_emission_witness:
  "Emit (snd (GetConstantInt build_locals 0)) (local_ref TypeFloat64 0)
     = (\<lparr>RegNum = 0, RegType = REGT_FLOAT, Konst = False, Fixed = True, Final = False,
         Target = True\<rparr>, snd (GetConstantInt build_locals 0))
   \<and> Code (snd (Emit build_locals
        (FxPreIncrDecr TypeFloat64 TK_Decr (local_ref TypeFloat64 0) False True)))
     = [(OP_SUBF_RK, [0, 0, 0])]
   \<and> RegNum (fst (Emit build_locals
        (FxPreIncrDecr TypeFloat64 TK_Decr (local_ref TypeFloat64 0) False True))) = 0
   \<and> Code (snd (Emit build_locals
        (FxPreIncrDecr TypeSInt32 TK_Incr (member_ref TypeSInt32 8) False True)))
     = [(OP_ADDA_RK, [0, 0, 1]), (OP_LW, [4, 0, 0]), (OP_ADD_RK, [4, 4, 2]), (OP_SW, [0, 4, 0])]
   \<and> RegNum (fst (Emit build_locals
        (FxPreIncrDecr TypeSInt32 TK_Incr (member_ref TypeSInt32 8) False True))) = 4
   \<and> Code (snd (Emit build_locals (FxPostIncrDecr TypeSInt32 TK_Incr (member_ref TypeSInt32 8))))
     = [(OP_ADDA_RK, [0, 0, 1]), (OP_LW, [4, 0, 0]), (OP_ADD_RK, [5, 4, 2]), (OP_SW, [0, 5, 0])]
   \<and> RegNum (fst (Emit build_locals (FxPostIncrDecr TypeSInt32 TK_Incr (member_ref TypeSInt32 8))))
     = 4"
  using incr_decr_emission [OF surjective_pairing surjective_pairing,
      of build_locals "local_ref TypeFloat64 0" TypeFloat64 TK_Decr False True]
    incr_decr_emission [OF surjective_pairing surjective_pairing,
      of build_locals "member_ref TypeSInt32 8" TypeSInt32 TK_Incr False True]
  by (simp add: build_locals_def local_ref_def member_ref_def emit_defs)

text \<open>The post-increment of a local variable in register 2: the sum goes to register 4,
  which is given back, and no instruction writes register 2.\<close>

lemma FxPostIncrDecr_local_variable:
  "Emit build_locals (FxPostIncrDecr TypeSInt32 TK_Incr (local_ref TypeSInt32 2))
     = (\<lparr>RegNum = 2, RegType = REGT_INT, Konst = False, Fixed = True, Final = False,
         Target = True\<rparr>,
        build_locals\<lparr>Code := [(OP_ADD_RK, [4, 2, 1])], IntConstantList := [0, 1]\<rparr>)"
  by (simp add: build_locals_def local_ref_def emit_defs fun_eq_iff)


section \<open>Constant operands of the binary operators\<close>

text \<open>A cast to float of an operand that is not a name is a constant exactly when the
  operand is one, so that promotion keeps a non-constant side non-constant.\<close>

lemma FxFloatCast_Resolved_constant:
  "FxFloatCast_Resolved ctx x = (Some y, ctx') \<Longrightarrow> ValueType x \<noteq> TypeName
     \<Longrightarrow> isConstant y = isConstant x"
  by (auto simp: FxFloatCast_Resolved_def FxConstant_float_def split: if_splits)

lemma Promote_constant:
  assumes "Promote ctx l r = (Some l', Some r', ctx')"
    and "ValueType l \<noteq> TypeName \<or> GetRegType (ValueType r) \<noteq> REGT_FLOAT"
    and "ValueType r \<noteq> TypeName \<or> GetRegType (ValueType l) \<noteq> REGT_FLOAT"
  shows "isConstant l' = isConstant l \<and> isConstant r' = isConstant r"
  using assms
  by (auto simp: Promote_def REGT_defs split: if_splits prod.splits
      dest: FxFloatCast_Resolved_constant)

lemma ResolveLR_names:
  "IsNumericType (ResolveLR vt l r) \<or> GetRegType (ResolveLR vt l r) = REGT_POINTER
     \<or> ResolveLR vt l r = TypeName
   \<Longrightarrow> (ValueType l \<noteq> TypeName \<or> GetRegType (ValueType r) \<noteq> REGT_FLOAT)
     \<and> (ValueType r \<noteq> TypeName \<or> GetRegType (ValueType l) \<noteq> REGT_FLOAT)"
  by (auto simp: ResolveLR_def IsNumericType_def IsNumeric_def REGT_defs split: if_splits)

lemma FxAddSub_Resolved_folded:
  assumes "FxAddSub_Resolved ctx vt tok l r = (Some e, ctx')"
  shows "isConstant e \<or> (\<exists>vt' l' r'. e = FxAddSub vt' tok l' r' \<and> \<not> (isConstant l' \<and> isConstant r'))"
proof (cases "isConstant l \<and> isConstant r")
  case True
  with assms show ?thesis
    by (auto simp: FxAddSub_Resolved_def Let_def FxConstant_float_def FxConstant_int_def
        split: if_splits)
next
  case False
  with assms obtain l' r' where p: "Promote ctx l r = (Some l', Some r', ctx')"
    and e: "e = FxAddSub (ResolveLR vt l r) tok l' r'" and n: "IsNumericType (ResolveLR vt l r)"
    by (auto simp: FxAddSub_Resolved_def Let_def split: if_splits prod.splits option.splits)
  from Promote_constant [OF p] ResolveLR_names [of vt l r] n False e show ?thesis by auto
qed

lemma FxMulDiv_Resolved_folded:
  assumes "FxMulDiv_Resolved ctx vt tok l r = (Some e, ctx')"
  shows "isConstant e \<or> (\<exists>vt' l' r'. e = FxMulDiv vt' tok l' r' \<and> \<not> (isConstant l' \<and> isConstant r'))"
proof (cases "isConstant l \<and> isConstant r")
  case True
  with assms show ?thesis
    by (auto simp: FxMulDiv_Resolved_def Let_def FxConstant_float_def FxConstant_int_def
        split: if_splits)
next
  case False
  with assms obtain l' r' where p: "Promote ctx l r = (Some l', Some r', ctx')"
    and e: "e = FxMulDiv (ResolveLR vt l r) tok l' r'" and n: "IsNumericType (ResolveLR vt l r)"
    by (auto simp: FxMulDiv_Resolved_def Let_def split: if_splits prod.splits option.splits)
  from Promote_constant [OF p] ResolveLR_names [of vt l r] n False e show ?thesis by auto
qed

lemma FxCompareEq_Resolved_folded:
  assumes "FxCompareEq_Resolved ctx vt tok l r = (Some e, ctx')"
  shows "isConstant e \<or> (\<exists>vt' tok' l' r'. e = FxCompareEq vt' tok' l' r' \<and> \<not> (isConstant l' \<and> isConstant r'))"
proof (cases "isConstant l \<and> isConstant r")
  case True
  with assms show ?thesis
    by (auto simp: FxCompareEq_Resolved_def Let_def FxConstant_int_def split: if_splits)
next
  case False
  with assms obtain l' r' tok' where p: "Promote ctx l r = (Some l', Some r', ctx')"
    and e: "e = FxCompareEq TypeBool tok' l' r'"
    and n: "IsNumericType (ResolveLR vt l r) \<or> GetRegType (ResolveLR vt l r) = REGT_POINTER
              \<or> ResolveLR vt l r = TypeName"
    by (auto simp: FxCompareEq_Resolved_def Let_def split: if_splits prod.splits option.splits)
  from Promote_constant [OF p] ResolveLR_names [OF n] False e show ?thesis by auto
qed

lemma Resolve_binary_cases:
  assumes "(case Resolve ctx left of (l, ctx1) \<Rightarrow>
            (case Resolve ctx1 right of (r, ctx2) \<Rightarrow>
            (case l of None \<Rightarrow> (None, ctx2) | Some l1 \<Rightarrow>
            (case r of None \<Rightarrow> (None, ctx2) | Some r1 \<Rightarrow> F ctx2 l1 r1)))) = (Some e, ctx')"
  shows "\<exists>c l1 r1. F c l1 r1 = (Some e, ctx')"
  using assms by (auto split: prod.splits option.splits)

lemma last_Code_EmitOp [simp]: "last (Code (EmitOp b opc args)) = (opc, args)"
  by simp

text \<open>
  Let the operands be emitted as \<open>op1\<close> and \<open>op2\<close>. An addition and a multiplication end
  with the register-constant instruction if an operand is constant, whichever it is, with
  the operand \<open>op1\<close> last if it is constant, and with the register-register instruction
  otherwise; an equality comparison emits the register-constant or the register-register
  comparison likewise. A subtraction, a division and a modulo keep the operands in the
  order of the source and select the constant-register, the register-constant or the
  register-register instruction. A node of these operators that resolution returns does
  not have two constant nodes as operands: with two constants, resolution returns a
  constant.
\<close>

lemma binary_instruction_selection:
  assumes "Emit build left = (op1, b1)" and "Emit b1 right = (op2, b2)"
  shows "(\<exists>to. last (Code (snd (Emit build (FxAddSub vt TK_Plus left right))))
            = (arith_op TK_Plus (GetRegType vt = REGT_FLOAT)
                 (if Konst op1 \<or> Konst op2 then RK else RR),
               [int to, int (RegNum (if Konst op1 then op2 else op1)),
                int (RegNum (if Konst op1 then op1 else op2))]))
       \<and> (\<exists>to. last (Code (snd (Emit build (FxMulDiv vt TK_Mul left right))))
            = (arith_op TK_Mul (GetRegType vt = REGT_FLOAT)
                 (if Konst op1 \<or> Konst op2 then RK else RR),
               [int to, int (RegNum (if Konst op1 then op2 else op1)),
                int (RegNum (if Konst op1 then op1 else op2))]))
       \<and> (\<exists>pre to flag. Code (snd (Emit build (FxCompareEq vt tok left right)))
            = pre @ [(OP_LI, [int to, 0, 0]),
                     (eq_op (RegType (if Konst op1 then op2 else op1)) (Konst op1 \<or> Konst op2),
                      [flag, int (RegNum (if Konst op1 then op2 else op1)),
                       int (RegNum (if Konst op1 then op1 else op2))]),
                     (OP_JMP, [1]), (OP_LI, [int to, 1])])
       \<and> (\<exists>to. last (Code (snd (Emit build (FxAddSub vt TK_Minus left right))))
            = (arith_op TK_Minus (GetRegType vt = REGT_FLOAT)
                 (if Konst op1 then KR else if Konst op2 then RK else RR),
               [int to, int (RegNum op1), int (RegNum op2)]))
       \<and> (\<exists>to. last (Code (snd (Emit build (FxMulDiv vt TK_Div left right))))
            = (arith_op TK_Div (GetRegType vt = REGT_FLOAT)
                 (if Konst op1 then KR else if Konst op2 then RK else RR),
               [int to, int (RegNum op1), int (RegNum op2)]))
       \<and> (\<exists>to. last (Code (snd (Emit build (FxMulDiv vt TK_Mod left right))))
            = (arith_op TK_Mod (GetRegType vt = REGT_FLOAT)
                 (if Konst op1 then KR else if Konst op2 then RK else RR),
               [int to, int (RegNum op1), int (RegNum op2)]))
       \<and> (\<forall>e ctx'. Resolve ctx (FxAddSub vt tok left right) = (Some e, ctx') \<longrightarrow>
             isConstant e
             \<or> (\<exists>vt' l r. e = FxAddSub vt' tok l r \<and> \<not> (isConstant l \<and> isConstant r)))
       \<and> (\<forall>e ctx'. Resolve ctx (FxMulDiv vt tok left right) = (Some e, ctx') \<longrightarrow>
             isConstant e
             \<or> (\<exists>vt' l r. e = FxMulDiv vt' tok l r \<and> \<not> (isConstant l \<and> isConstant r)))
       \<and> (\<forall>e ctx'. Resolve ctx (FxCompareEq vt tok left right) = (Some e, ctx') \<longrightarrow>
             isConstant e
             \<or> (\<exists>vt' tok' l r. e = FxCompareEq vt' tok' l r \<and> \<not> (isConstant l \<and> isConstant r)))"
proof (intro conjI allI impI)
  show "\<exists>to. last (Code (snd (Emit build (FxAddSub vt TK_Plus left right))))
            = (arith_op TK_Plus (GetRegType vt = REGT_FLOAT)
                 (if Konst op1 \<or> Konst op2 then RK else RR),
               [int to, int (RegNum (if Konst op1 then op2 else op1)),
                int (RegNum (if Konst op1 then op1 else op2))])"
    using assms by (simp add: split_beta Let_def)
  show "\<exists>to. last (Code (snd (Emit build (FxMulDiv vt TK_Mul left right))))
            = (arith_op TK_Mul (GetRegType vt = REGT_FLOAT)
                 (if Konst op1 \<or> Konst op2 then RK else RR),
               [int to, int (RegNum (if Konst op1 then op2 else op1)),
                int (RegNum (if Konst op1 then op1 else op2))])"
    using assms by (simp add: split_beta Let_def)
  show "\<exists>pre to flag. Code (snd (Emit build (FxCompareEq vt tok left right)))
            = pre @ [(OP_LI, [int to, 0, 0]),
                     (eq_op (RegType (if Konst op1 then op2 else op1)) (Konst op1 \<or> Konst op2),
                      [flag, int (RegNum (if Konst op1 then op2 else op1)),
                       int (RegNum (if Konst op1 then op1 else op2))]),
                     (OP_JMP, [1]), (OP_LI, [int to, 1])]"
    using assms by (simp add: split_beta Let_def eq_op_def OP_defs)
  show "\<exists>to. last (Code (snd (Emit build (FxAddSub vt TK_Minus left right))))
            = (arith_op TK_Minus (GetRegType vt = REGT_FLOAT)
                 (if Konst op1 then KR else if Konst op2 then RK else RR),
               [int to, int (RegNum op1), int (RegNum op2)])"
    using assms by (simp add: split_beta Let_def)
  show "\<exists>to. last (Code (snd (Emit build (FxMulDiv vt TK_Div left right))))
            = (arith_op TK_Div (GetRegType vt = REGT_FLOAT)
                 (if Konst op1 then KR else if Konst op2 then RK else RR),
               [int to, int (RegNum op1), int (RegNum op2)])"
    using assms by (simp add: split_beta Let_def)
  show "\<exists>to. last (Code (snd (Emit build (FxMulDiv vt TK_Mod left right))))
            = (arith_op TK_Mod (GetRegType vt = REGT_FLOAT)
                 (if Konst op1 then KR else if Konst op2 then RK else RR),
               [int to, int (RegNum op1), int (RegNum op2)])"
    using assms by (simp add: split_beta Let_def)
next
  fix e ctx'
  assume a: "Resolve ctx (FxAddSub vt tok left right) = (Some e, ctx')"
  have "\<exists>c l1 r1. FxAddSub_Resolved c vt tok l1 r1 = (Some e, ctx')"
    by (rule Resolve_binary_cases [where F = "\<lambda>c l r. FxAddSub_Resolved c vt tok l r"
          and ctx = ctx and left = left and right = right])
      (use a in simp)
  then obtain c l1 r1 where "FxAddSub_Resolved c vt tok l1 r1 = (Some e, ctx')"
    by blast
  then show "isConstant e
      \<or> (\<exists>vt' l r. e = FxAddSub vt' tok l r \<and> \<not> (isConstant l \<and> isConstant r))"
    by (rule FxAddSub_Resolved_folded)
next
  fix e ctx'
  assume a: "Resolve ctx (FxMulDiv vt tok left right) = (Some e, ctx')"
  have "\<exists>c l1 r1. FxMulDiv_Resolved c vt tok l1 r1 = (Some e, ctx')"
    by (rule Resolve_binary_cases [where F = "\<lambda>c l r. FxMulDiv_Resolved c vt tok l r"
          and ctx = ctx and left = left and right = right])
      (use a in simp)
  then obtain c l1 r1 where "FxMulDiv_Resolved c vt tok l1 r1 = (Some e, ctx')"
    by blast
  then show "isConstant e
      \<or> (\<exists>vt' l r. e = FxMulDiv vt' tok l r \<and> \<not> (isConstant l \<and> isConstant r))"
    by (rule FxMulDiv_Resolved_folded)
next
  fix e ctx'
  assume a: "Resolve ctx (FxCompareEq vt tok left right) = (Some e, ctx')"
  have "\<exists>c l1 r1. FxCompareEq_Resolved c vt tok l1 r1 = (Some e, ctx')"
    by (rule Resolve_binary_cases [where F = "\<lambda>c l r. FxCompareEq_Resolved c vt tok l r"
          and ctx = ctx and left = left and right = right])
      (use a in simp)
  then obtain c l1 r1 where "FxCompareEq_Resolved c vt tok l1 r1 = (Some e, ctx')"
    by blast
  then show "isConstant e
      \<or> (\<exists>vt' tok' l r. e = FxCompareEq vt' tok' l r \<and> \<not> (isConstant l \<and> isConstant r))"
    by (rule FxCompareEq_Resolved_folded)
qed

text \<open>
  Claim C8, at an input. \<open>__decorate_internal_int__(5) - __decorate_internal_int__(3)\<close>:
  neither operand is a constant node, and resolution returns the subtraction without a
  message. Each call is emitted as its argument, a constant descriptor, so that
  \<open>FxAddSub::Emit\<close> has two constant operands, where the source asserts
  \<^verbatim>\<open>!op1.Konst || !op2.Konst\<close>; the instruction emitted is the constant-register
  subtraction, whose last operand 1 is the index of the constant 3 and not a register.
\<close>

theorem FxAddSub_two_constant_descriptors:
  "fst (Resolve ctx_empty
      (FxAddSub NoType TK_Minus
         (FxVMFunctionCall NoType None (static_function NAME_decorate_internal_int)
            [FxConstant_int 5] False)
         (FxVMFunctionCall NoType None (static_function NAME_decorate_internal_int)
            [FxConstant_int 3] False)))
     = Some (FxAddSub TypeSInt32 TK_Minus
         (FxVMFunctionCall TypeSInt32 None (static_function NAME_decorate_internal_int)
            [FxConstant_int 5] False)
         (FxVMFunctionCall TypeSInt32 None (static_function NAME_decorate_internal_int)
            [FxConstant_int 3] False))
   \<and> Messages (snd (Resolve ctx_empty
      (FxAddSub NoType TK_Minus
         (FxVMFunctionCall NoType None (static_function NAME_decorate_internal_int)
            [FxConstant_int 5] False)
         (FxVMFunctionCall NoType None (static_function NAME_decorate_internal_int)
            [FxConstant_int 3] False)))) = []
   \<and> Konst (fst (Emit build_locals
        (FxVMFunctionCall TypeSInt32 None (static_function NAME_decorate_internal_int)
           [FxConstant_int 5] False)))
   \<and> Konst (fst (Emit (snd (Emit build_locals
          (FxVMFunctionCall TypeSInt32 None (static_function NAME_decorate_internal_int)
             [FxConstant_int 5] False)))
        (FxVMFunctionCall TypeSInt32 None (static_function NAME_decorate_internal_int)
           [FxConstant_int 3] False)))
   \<and> Code (snd (Emit build_locals
        (FxAddSub TypeSInt32 TK_Minus
           (FxVMFunctionCall TypeSInt32 None (static_function NAME_decorate_internal_int)
              [FxConstant_int 5] False)
           (FxVMFunctionCall TypeSInt32 None (static_function NAME_decorate_internal_int)
              [FxConstant_int 3] False))))
     = [(OP_SUB_KR, [4, 0, 1])]"
  by (simp add: static_function_def build_locals_def ctx_empty_def FxConstant_int_def
      FxTypeCast_Resolved_def FxAddSub_Resolved_def ResolveLR_def IsNumeric_def IsNumericType_def
      Promote_def emit_defs)


section \<open>Return of a function call\<close>

lemma Final_update_id: "Final r \<Longrightarrow> r\<lparr>Final := True\<rparr> = r"
  by (cases r) simp

text \<open>
  Claim C9, at an input. \<open>return __decorate_internal_int__(x)\<close> for an integer local
  variable \<open>x\<close> in register 2: resolution marks the call as a tail call, and the statement
  emits one return instruction of the register of \<open>x\<close> and no tail call.
\<close>

theorem return_of_cast_call_counterexample:
  "fst (ResolveStatement ctx_empty (FxReturnStatement (Some
      (FxVMFunctionCall NoType None (static_function NAME_decorate_internal_int)
         [local_var TypeSInt32 2] False))))
     = Some (FxReturnStatement (Some
         (FxVMFunctionCall TypeSInt32 None (static_function NAME_decorate_internal_int)
            [local_var TypeSInt32 2] True)))
   \<and> Code (snd (FxReturnStatement_Emit build_locals (Some
        (FxVMFunctionCall TypeSInt32 None (static_function NAME_decorate_internal_int)
           [local_var TypeSInt32 2] True))))
     = [(OP_RET, [128, 0, 2])]"
  by (simp add: static_function_def local_var_def build_locals_def ctx_empty_def
      FxTypeCast_Resolved_def FxReturnStatement_Emit_def emit_defs RET_FINAL_def)

text \<open>
  Claim C9 without the cast functions. When the value of a return statement resolves to
  a function call, resolution of the statement marks the call as a tail call; the call's
  descriptor is final and the return statement emits what the call emits, nothing more.
  Unless the call is one of the four internal cast functions with one argument, its code
  ends with the tail-call instruction. The return of any value whose descriptor is not
  final emits the value's code and then a return instruction.
\<close>

theorem return_of_call_is_tail_call:
  assumes "Resolve ctx v = (Some (FxVMFunctionCall vt Self func args tail), ctx1)"
  shows "ResolveStatement ctx (FxReturnStatement (Some v))
           = (Some (FxReturnStatement (Some (FxVMFunctionCall vt Self func args True))),
              CheckReturn ctx1 (VariantProto func))
       \<and> Final (fst (Emit build (FxVMFunctionCall vt Self func args True)))
       \<and> FxReturnStatement_Emit build (Some (FxVMFunctionCall vt Self func args True))
           = Emit build (FxVMFunctionCall vt Self func args True)
       \<and> (\<not> (length args = 1 \<and> is_cast_kludge (SymbolName func)) \<longrightarrow>
            (\<exists>pre k n. Code (snd (Emit build (FxVMFunctionCall vt Self func args True)))
                         = pre @ [(OP_TAIL_K, [int k, int n, 0])]))
       \<and> (\<forall>e. \<not> Final (fst (Emit build e)) \<longrightarrow>
            (\<exists>t r. Code (snd (FxReturnStatement_Emit build (Some e)))
                     = Code (snd (Emit build e)) @ [(OP_RET, [int RET_FINAL, t, r])]))"
proof (intro conjI allI impI)
  show "ResolveStatement ctx (FxReturnStatement (Some v))
           = (Some (FxReturnStatement (Some (FxVMFunctionCall vt Self func args True))),
              CheckReturn ctx1 (VariantProto func))"
    using assms by simp
  have fin: "Final (fst (Emit build (FxVMFunctionCall vt Self func args True)))"
    by (cases args) (simp_all add: Let_def split_beta ExpEmit_nil_def)
  then show "Final (fst (Emit build (FxVMFunctionCall vt Self func args True)))" .
  from fin show "FxReturnStatement_Emit build (Some (FxVMFunctionCall vt Self func args True))
           = Emit build (FxVMFunctionCall vt Self func args True)"
    by (simp add: FxReturnStatement_Emit_def split_beta Final_update_id del: Emit.simps)
next
  assume "\<not> (length args = 1 \<and> is_cast_kludge (SymbolName func))"
  then show "\<exists>pre k n. Code (snd (Emit build (FxVMFunctionCall vt Self func args True)))
                         = pre @ [(OP_TAIL_K, [int k, int n, 0])]"
    by (auto simp: Let_def split_beta)
next
  fix e
  assume "\<not> Final (fst (Emit build e))"
  then show "\<exists>t r. Code (snd (FxReturnStatement_Emit build (Some e)))
                     = Code (snd (Emit build e)) @ [(OP_RET, [int RET_FINAL, t, r])]"
    by (simp add: FxReturnStatement_Emit_def split_beta)
qed

theorem return_of_call_is_tail_call_witness:
  "Resolve ctx_empty (FxVMFunctionCall NoType None (static_function (NAME_Other 1))
      [local_var TypeSInt32 2] False)
     = (Some (FxVMFunctionCall TypeSInt32 None (static_function (NAME_Other 1))
          [local_var TypeSInt32 2] False), ctx_empty)
   \<and> fst (ResolveStatement ctx_empty (FxReturnStatement (Some
        (FxVMFunctionCall NoType None (static_function (NAME_Other 1))
           [local_var TypeSInt32 2] False))))
     = Some (FxReturnStatement (Some
         (FxVMFunctionCall TypeSInt32 None (static_function (NAME_Other 1))
            [local_var TypeSInt32 2] True)))
   \<and> Code (snd (FxReturnStatement_Emit build_locals (Some
        (FxVMFunctionCall TypeSInt32 None (static_function (NAME_Other 1))
           [local_var TypeSInt32 2] True))))
     = [(OP_PARAM, [0, 0, 2]), (OP_TAIL_K, [0, 1, 0])]
   \<and> Code (snd (FxReturnStatement_Emit build_locals (Some
        (FxAddSub TypeSInt32 TK_Plus (local_var TypeSInt32 2) (local_var TypeSInt32 3)))))
     = [(OP_ADD_RR, [4, 2, 3]), (OP_RET, [128, 0, 4])]"
  using return_of_call_is_tail_call [of ctx_empty
      "FxVMFunctionCall NoType None (static_function (NAME_Other 1)) [local_var TypeSInt32 2] False"
      TypeSInt32 None "static_function (NAME_Other 1)" "[local_var TypeSInt32 2]" False
      ctx_empty build_locals]
  by (simp add: static_function_def local_var_def build_locals_def ctx_empty_def
      FxTypeCast_Resolved_def FxReturnStatement_Emit_def emit_defs RET_FINAL_def)


end
